(* ===== verification/Prelude.thy ===== *)
theory Prelude
  imports Main
begin

text \<open>
  Shared vocabulary of the development: the names of the model's basic types, the
  collections of facts the component theories contribute to, and generic lemmas on lists
  and options used by several components.  Nothing here is specific to one handler of
  \<^verbatim>\<open>src/backend/index.js\<close>.
\<close>

section \<open>Names of the model's types\<close>

text \<open>
  A JavaScript time value (what a \<^verbatim>\<open>Date\<close> holds and what MongoDB stores for a
  \<^verbatim>\<open>Date\<close> field) is an integer number of milliseconds since the epoch.  A MongoDB
  \<^verbatim>\<open>_id\<close> is identified by its hexadecimal string form.
\<close>

type_synonym time_ms = int
type_synonym oid = string

section \<open>Fact collections\<close>

text \<open>
  \<open>handler_defs\<close> collects the unfolding equations of the request handlers and of the
  reconciliation tick, so that concrete runs evaluate with \<open>simp add: handler_defs\<close>;
  \<open>store_simps\<close> collects the rewrite rules for the store queries after a store update.
\<close>

named_theorems handler_defs
named_theorems store_simps

section \<open>Updating the first element that matches\<close>

text \<open>
  MongoDB's \<^verbatim>\<open>updateOne\<close> (what Mongoose's \<^verbatim>\<open>doc.save()\<close> issues for an
  existing document) changes the first document, in natural order, that matches the filter.
\<close>

fun update_first :: "('a \<Rightarrow> bool) \<Rightarrow> ('a \<Rightarrow> 'a) \<Rightarrow> 'a list \<Rightarrow> 'a list" where
  "update_first P f [] = []"
| "update_first P f (x # xs) = (if P x then f x # xs else x # update_first P f xs)"

lemma length_update_first [simp]: "length (update_first P f xs) = length xs"
  by (induction xs) auto

lemma update_first_no_match [simp]:
  "\<forall>x\<in>set xs. \<not> P x \<Longrightarrow> update_first P f xs = xs"
  by (induction xs) auto

lemma map_update_first_keep:
  "(\<And>x. P x \<Longrightarrow> g (f x) = g x) \<Longrightarrow> map g (update_first P f xs) = map g xs"
  by (induction xs) auto

lemma update_first_distinct:
  assumes "distinct (map k xs)"
  shows "update_first (\<lambda>x. k x = i) f xs = map (\<lambda>x. if k x = i then f x else x) xs"
  using assms
proof (induction xs)
  case Nil
  then show ?case by simp
next
  case (Cons x xs)
  show ?case
  proof (cases "k x = i")
    case True
    with Cons.prems have "\<forall>y\<in>set xs. k y \<noteq> i" by (auto simp: rev_image_eqI)
    then have "map (\<lambda>y. if k y = i then f y else y) xs = xs"
      by (induction xs) auto
    with True show ?thesis by simp
  next
    case False
    with Cons show ?thesis by simp
  qed
qed

lemma set_update_first_subset:
  "set (update_first P f xs) \<subseteq> set xs \<union> f ` {x \<in> set xs. P x}"
  by (induction xs) auto

lemma find_update_first_other:
  assumes "\<And>x. Q (f x) = Q x" "\<And>x. P x \<Longrightarrow> Q x \<Longrightarrow> f x = x"
  shows "find Q (update_first P f xs) = find Q xs"
  using assms by (induction xs) auto

lemma nth_update_first_other:
  "k < length xs \<Longrightarrow> \<not> P (xs ! k) \<Longrightarrow> update_first P f xs ! k = xs ! k"
  by (induction xs arbitrary: k) (auto simp: nth_Cons split: nat.split)

lemma nth_update_first_cases:
  "k < length xs \<Longrightarrow> update_first P f xs ! k = xs ! k \<or> (P (xs ! k) \<and> update_first P f xs ! k = f (xs ! k))"
  by (induction xs arbitrary: k) (auto simp: nth_Cons split: nat.split)

section \<open>Options and finding\<close>

lemma find_Some_in_set:
  "find P xs = Some x \<Longrightarrow> x \<in> set xs \<and> P x"
  by (induction xs) (auto split: if_splits)

lemma find_map_option: "find P (map f xs) = map_option f (find (P \<circ> f) xs)"
  by (induction xs) auto

lemma find_None_iff': "find P xs = None \<longleftrightarrow> (\<forall>x\<in>set xs. \<not> P x)"
  by (induction xs) auto

lemma map_filter_append [simp]:
  "List.map_filter f (xs @ ys) = List.map_filter f xs @ List.map_filter f ys"
  by (simp add: map_filter_def)

lemma split_at_nth:
  "k < length xs \<Longrightarrow> \<exists>ys x zs. xs = ys @ x # zs \<and> length ys = k"
  by (metis id_take_nth_drop length_take min.absorb4)

end
