(* ===== verification/Js_Runtime.thy ===== *)
theory Js_Runtime
  imports Prelude
begin

text \<open>
  The JavaScript runtime behaviour that \<^verbatim>\<open>src/backend/index.js\<close> and
  \<^verbatim>\<open>src/frontend/src/App.js\<close> rely on, modelled from the ECMAScript specification
  (and, for \<^verbatim>\<open>includes\<close> on a document array, from Mongoose's array methods): JSON
  values as they arrive in a request body, the exceptions the handlers can raise, the
  rendering of a \<^verbatim>\<open>Date\<close> as a string (\<^verbatim>\<open>toString\<close> and \<^verbatim>\<open>toISOString\<close>),
  and the two equalities the rebooking handler uses, \<^verbatim>\<open>==\<close> (inside Mongoose's
  \<^verbatim>\<open>includes\<close>) and \<^verbatim>\<open>!==\<close> (in its \<^verbatim>\<open>filter\<close> callback).  Whatever
  depends on the host (time zone, the date parser) is a field of the record
  \<open>js_env\<close>, so every theorem holds for every host.
\<close>

section \<open>Values and exceptions\<close>

text \<open>
  A value of a parsed JSON request body (\<^verbatim>\<open>bodyParser.json()\<close>), plus
  \<open>JUndef\<close> for a property that is absent.  JSON numbers are kept integral.
\<close>

datatype jsval =
    JUndef
  | JNull
  | JBool bool
  | JNum int
  | JStr string
  | JArr "jsval list"
  | JObj "(string \<times> jsval) list"

text \<open>
  Property read \<^verbatim>\<open>body.k\<close>, as in \<^verbatim>\<open>const { appointmentId, newSlot } = req.body\<close>.
  \<^verbatim>\<open>JSON.parse\<close> keeps the last of duplicate keys.
\<close>

fun js_get :: "jsval \<Rightarrow> string \<Rightarrow> jsval" where
  "js_get (JObj kvs) k = (case map_of (rev kvs) k of Some v \<Rightarrow> v | None \<Rightarrow> JUndef)"
| "js_get _ k = JUndef"

text \<open>
  The exceptions that escape a handler: a Mongoose \<^verbatim>\<open>CastError\<close> (an
  \<^verbatim>\<open>_id\<close> that is not an ObjectId), a \<^verbatim>\<open>TypeError\<close> (a property read on
  \<^verbatim>\<open>null\<close>), a Mongoose \<^verbatim>\<open>ValidationError\<close> on \<^verbatim>\<open>save()\<close> (an invalid
  \<^verbatim>\<open>Date\<close>), the error thrown by the SMS client constructor, and Mongoose's
  \<^verbatim>\<open>MongooseError\<close> when an operation buffered while the connection is not open
  times out.
\<close>

datatype js_error = CastError | TypeError | ValidationError | ClientInitError | MongooseError

text \<open>The completion of an \<^verbatim>\<open>async\<close> function: it returns, or its promise rejects.\<close>

datatype 'a completion = Normal 'a | Thrown js_error

text \<open>
  An Express reply \<^verbatim>\<open>res.status(code).json(body)\<close>; \<^verbatim>\<open>res.json(body)\<close>
  alone replies with code 200.  A handler whose promise rejects sends no reply (Express 4
  does not catch the rejection of an \<^verbatim>\<open>async\<close> handler).
\<close>

datatype http_reply = Reply nat jsval

section \<open>The host\<close>

text \<open>
  \<open>tz_offset t\<close> is the local time zone offset (ECMAScript's \<open>LocalTZA\<close>) at the UTC
  time \<open>t\<close>, in milliseconds; \<open>tz_name t\<close> the time zone name that V8 prints in
  parentheses; \<open>date_parse\<close> is \<^verbatim>\<open>Date.parse\<close>, \<open>None\<close> standing for
  \<open>NaN\<close>.
\<close>

record js_env =
  tz_offset :: "time_ms \<Rightarrow> int"
  tz_name :: "time_ms \<Rightarrow> string"
  date_parse :: "string \<Rightarrow> time_ms option"

section \<open>Calendar arithmetic and decimal rendering\<close>

definition msPerDay :: int where
  "msPerDay = 86400000"

text \<open>
  The proleptic Gregorian date (year, month 1..12, day 1..31) of a day number counted from
  1970-01-01, by the era decomposition (eras of 146097 days); \<open>div\<close> on \<open>int\<close>
  rounds down, as ECMAScript's \<open>floor\<close> does.
\<close>

definition civil_from_days :: "int \<Rightarrow> int \<times> int \<times> int" where
  "civil_from_days days =
     (let z = days + 719468;
          era = z div 146097;
          doe = z - era * 146097;
          yoe = (doe - doe div 1460 + doe div 36524 - doe div 146096) div 365;
          doy = doe - (365 * yoe + yoe div 4 - yoe div 100);
          mp = (5 * doy + 2) div 153;
          d = doy - (153 * mp + 2) div 5 + 1;
          m = (if mp < 10 then mp + 3 else mp - 9)
      in (yoe + era * 400 + (if m \<le> 2 then 1 else 0), m, d))"

fun dec :: "nat \<Rightarrow> string" where
  "dec n = (if n < 10 then [char_of (48 + n)] else dec (n div 10) @ [char_of (48 + n mod 10)])"

declare dec.simps [simp del]

definition pad :: "nat \<Rightarrow> nat \<Rightarrow> string" where
  "pad w n = replicate (w - length (dec n)) (CHR ''0'') @ dec n"

definition clock :: "int \<Rightarrow> string" where
  "clock ms = pad 2 (nat (ms div 3600000)) @ '':'' @ pad 2 (nat (ms div 60000 mod 60)) @ '':''
     @ pad 2 (nat (ms div 1000 mod 60))"

definition day_names :: "string list" where
  "day_names = [''Sun'', ''Mon'', ''Tue'', ''Wed'', ''Thu'', ''Fri'', ''Sat'']"

definition month_names :: "string list" where
  "month_names = [''Jan'', ''Feb'', ''Mar'', ''Apr'', ''May'', ''Jun'',
                  ''Jul'', ''Aug'', ''Sep'', ''Oct'', ''Nov'', ''Dec'']"

section \<open>Rendering a Date\<close>

text \<open>
  \<^verbatim>\<open>Date.prototype.toISOString\<close> (also \<^verbatim>\<open>toJSON\<close>, which \<^verbatim>\<open>res.json\<close>
  uses to serialise a \<^verbatim>\<open>Date\<close>): \<^verbatim>\<open>YYYY-MM-DDTHH:mm:ss.sssZ\<close>, with the
  expanded form \<^verbatim>\<open>\<plusminus>YYYYYY\<close> for years outside 0..9999.
\<close>

definition date_to_iso :: "time_ms \<Rightarrow> string" where
  "date_to_iso t =
     (case civil_from_days (t div msPerDay) of (y, m, d) \<Rightarrow>
        (if 0 \<le> y \<and> y \<le> 9999 then pad 4 (nat y)
         else (if y < 0 then ''-'' else ''+'') @ pad 6 (nat \<bar>y\<bar>))
        @ ''-'' @ pad 2 (nat m) @ ''-'' @ pad 2 (nat d) @ ''T'' @ clock (t mod msPerDay)
        @ ''.'' @ pad 3 (nat (t mod 1000)) @ ''Z'')"

text \<open>
  \<^verbatim>\<open>Date.prototype.toString\<close> (ECMAScript \<open>ToDateString\<close>): the local date and
  time, e.g. \<^verbatim>\<open>Mon Jan 01 2024 10:00:00 GMT+0000 (Coordinated Universal Time)\<close>.
  It is what \<^verbatim>\<open>Array.prototype.join\<close> and the loose equality \<^verbatim>\<open>==\<close> turn a
  \<^verbatim>\<open>Date\<close> into.
\<close>

definition date_to_string :: "'a js_env_scheme \<Rightarrow> time_ms \<Rightarrow> string" where
  "date_to_string e t =
     (let off = tz_offset e t; lt = t + off; day = lt div msPerDay in
      case civil_from_days day of (y, m, d) \<Rightarrow>
        day_names ! nat ((day + 4) mod 7) @ '' '' @ month_names ! nat (m - 1) @ '' ''
        @ pad 2 (nat d) @ '' '' @ (if 0 \<le> y then [] else ''-'') @ pad 4 (nat \<bar>y\<bar>)
        @ '' '' @ clock (lt mod msPerDay) @ '' GMT'' @ (if 0 \<le> off then ''+'' else ''-'')
        @ pad 2 (nat (\<bar>off\<bar> div 3600000)) @ pad 2 (nat (\<bar>off\<bar> div 60000 mod 60))
        @ '' ('' @ tz_name e t @ '')'')"

text \<open>\<^verbatim>\<open>Array.prototype.join(sep)\<close> on strings.\<close>

fun js_join :: "string \<Rightarrow> string list \<Rightarrow> string" where
  "js_join sep [] = []"
| "js_join sep [x] = x"
| "js_join sep (x # y # xs) = x @ sep @ js_join sep (y # xs)"

section \<open>Equality between a stored Date and a request value\<close>

text \<open>
  \<^verbatim>\<open>v == d\<close> for a \<^verbatim>\<open>Date\<close> object \<open>d\<close> holding \<open>t\<close> and a value \<open>v\<close>
  of a JSON body (ECMAScript \<open>IsLooselyEqual\<close>): \<^verbatim>\<open>undefined\<close> and \<^verbatim>\<open>null\<close>
  equal no object; a string is compared with \<open>ToPrimitive(d)\<close>, which for a
  \<^verbatim>\<open>Date\<close> is its \<^verbatim>\<open>toString\<close> rendering; a number or a boolean is compared
  numerically with \<open>ToNumber\<close> of that rendering, which is \<open>NaN\<close> because the
  rendering begins with a weekday name; an array or object parsed from JSON is a different
  object from \<open>d\<close>.
\<close>

fun date_loose_eq :: "'a js_env_scheme \<Rightarrow> time_ms \<Rightarrow> jsval \<Rightarrow> bool" where
  "date_loose_eq e t (JStr s) = (s = date_to_string e t)"
| "date_loose_eq e t JUndef = False"
| "date_loose_eq e t JNull = False"
| "date_loose_eq e t (JBool b) = False"
| "date_loose_eq e t (JNum n) = False"
| "date_loose_eq e t (JArr xs) = False"
| "date_loose_eq e t (JObj kvs) = False"

text \<open>
  \<^verbatim>\<open>d !== v\<close> (ECMAScript \<open>IsStrictlyEqual\<close>, negated): a primitive has another
  type than the object \<open>d\<close>, and an array or object parsed from JSON is another object,
  so a stored \<^verbatim>\<open>Date\<close> is strictly unequal to every value of a JSON body.
\<close>

fun date_strict_neq :: "time_ms \<Rightarrow> jsval \<Rightarrow> bool" where
  "date_strict_neq t (JStr s) = True"
| "date_strict_neq t JUndef = True"
| "date_strict_neq t JNull = True"
| "date_strict_neq t (JBool b) = True"
| "date_strict_neq t (JNum n) = True"
| "date_strict_neq t (JArr xs) = True"
| "date_strict_neq t (JObj kvs) = True"

text \<open>
  Mongoose's \<^verbatim>\<open>MongooseArray.prototype.indexOf(obj)\<close> scans the array and
  compares with \<^verbatim>\<open>obj == this[i]\<close>; \<^verbatim>\<open>includes(obj)\<close> is
  \<^verbatim>\<open>indexOf(obj) !== -1\<close>.
\<close>

fun index_from :: "'a js_env_scheme \<Rightarrow> jsval \<Rightarrow> time_ms list \<Rightarrow> int \<Rightarrow> int" where
  "index_from e v [] i = -1"
| "index_from e v (t # ts) i = (if date_loose_eq e t v then i else index_from e v ts (i + 1))"

definition mongoose_includes :: "'a js_env_scheme \<Rightarrow> time_ms list \<Rightarrow> jsval \<Rightarrow> bool" where
  "mongoose_includes e slots v = (index_from e v slots 0 \<noteq> -1)"

section \<open>Constructing a Date\<close>

text \<open>
  \<^verbatim>\<open>String(v)\<close> of a JSON value, used where a value is converted to a primitive.
\<close>

fun js_to_string :: "jsval \<Rightarrow> string" where
  "js_to_string JUndef = ''undefined''"
| "js_to_string JNull = ''null''"
| "js_to_string (JBool b) = (if b then ''true'' else ''false'')"
| "js_to_string (JNum n) = (if n < 0 then ''-'' else []) @ dec (nat \<bar>n\<bar>)"
| "js_to_string (JStr s) = s"
| "js_to_string (JArr xs) =
     js_join '','' (map (\<lambda>x. if x = JUndef \<or> x = JNull then [] else js_to_string x) xs)"
| "js_to_string (JObj kvs) = ''[object Object]''"

definition time_clip :: "int \<Rightarrow> time_ms option" where
  "time_clip n = (if \<bar>n\<bar> \<le> 8640000000000000 then Some n else None)"

text \<open>
  \<^verbatim>\<open>new Date(v)\<close> with one argument: a string is parsed, any other primitive is
  converted to a number and clipped, an array or object is first converted to a string.
  \<open>None\<close> is an invalid \<^verbatim>\<open>Date\<close> (time value \<open>NaN\<close>).
\<close>

fun js_new_date :: "'a js_env_scheme \<Rightarrow> jsval \<Rightarrow> time_ms option" where
  "js_new_date e (JStr s) = date_parse e s"
| "js_new_date e JUndef = None"
| "js_new_date e JNull = Some 0"
| "js_new_date e (JBool b) = Some (if b then 1 else 0)"
| "js_new_date e (JNum n) = time_clip n"
| "js_new_date e (JArr xs) = date_parse e (js_to_string (JArr xs))"
| "js_new_date e (JObj kvs) = date_parse e (js_to_string (JObj kvs))"

section \<open>Lemmas: equality, inclusion and filtering\<close>

text \<open>The rendering depends on the host through its time zone only.\<close>

lemma date_to_string_cong:
  "tz_offset e = tz_offset e' \<Longrightarrow> tz_name e = tz_name e' \<Longrightarrow> date_to_string e t = date_to_string e' t"
  by (simp add: date_to_string_def)

text \<open>
  The loose equality holds of exactly one request value, the \<^verbatim>\<open>toString\<close>
  rendering of the stored time.
\<close>

lemma date_loose_eq_iff: "date_loose_eq e t v \<longleftrightarrow> v = JStr (date_to_string e t)"
  by (cases v) auto

lemma index_from_range:
  "index_from e v ts i = -1 \<or> (i \<le> index_from e v ts i \<and> index_from e v ts i < i + int (length ts))"
  by (induction ts arbitrary: i) (auto, fastforce+)

lemma index_from_neg_iff:
  "0 \<le> i \<Longrightarrow> index_from e v ts i = -1 \<longleftrightarrow> (\<forall>t\<in>set ts. \<not> date_loose_eq e t v)"
  by (induction ts arbitrary: i) auto

text \<open>Mongoose's scanning \<^verbatim>\<open>includes\<close> is membership up to the loose equality.\<close>

lemma mongoose_includes_iff:
  "mongoose_includes e slots v \<longleftrightarrow> (\<exists>t\<in>set slots. date_loose_eq e t v)"
  by (simp add: mongoose_includes_def index_from_neg_iff)

lemma mongoose_includes_JStr:
  "mongoose_includes e slots v \<Longrightarrow> \<exists>t\<in>set slots. v = JStr (date_to_string e t)"
  by (auto simp: mongoose_includes_def index_from_neg_iff date_loose_eq_iff)

lemma date_to_string_nonempty: "date_to_string e t \<noteq> []"
  by (simp add: date_to_string_def Let_def split: prod.split)

text \<open>A filter on \<^verbatim>\<open>slot !== v\<close> keeps every stored Date.\<close>

lemma filter_strict_neq_id [simp]: "filter (\<lambda>slot. date_strict_neq slot v) xs = xs"
proof -
  have "\<forall>t. date_strict_neq t v" by (cases v) auto
  then show ?thesis by simp
qed

section \<open>Lemmas: the two renderings never coincide\<close>

lemma digit_char: "(n::nat) < 10 \<Longrightarrow> char_of (48 + n) \<in> set ''0123456789''"
proof -
  have "\<forall>k\<in>{0..<10::nat}. char_of (48 + k) \<in> set ''0123456789''" by code_simp
  moreover assume "n < 10"
  ultimately show ?thesis by simp
qed

lemma dec_nonempty: "dec n \<noteq> []"
  by (subst dec.simps) simp

lemma hd_dec: "hd (dec n) \<in> set ''0123456789''"
proof (induction n rule: dec.induct)
  case (1 n)
  show ?case
  proof (cases "n < 10")
    case True
    then show ?thesis using digit_char[OF True] by (subst dec.simps) simp
  next
    case False
    with "1.IH" show ?thesis by (subst dec.simps) (simp add: dec_nonempty)
  qed
qed

lemma hd_pad: "hd (pad w n) \<in> set ''0123456789''"
  using hd_dec[of n] by (cases "w - length (dec n)") (simp_all add: pad_def dec_nonempty)

lemma pad_nonempty: "pad w n \<noteq> []"
  by (simp add: pad_def dec_nonempty)


lemma hd_date_to_iso: "hd (date_to_iso t) \<in> set ''0123456789+-''"
proof -
  obtain y m d where c: "civil_from_days (t div msPerDay) = (y, m, d)"
    by (cases "civil_from_days (t div msPerDay)") auto
  show ?thesis
    using hd_pad[of 4 "nat y"] by (auto simp: date_to_iso_def c pad_nonempty)
qed

lemma hd_day_names: "n < 7 \<Longrightarrow> day_names ! n \<noteq> [] \<and> hd (day_names ! n) \<in> set ''SMTWF''"
proof -
  have "\<forall>k\<in>{0..<7::nat}. day_names ! k \<noteq> [] \<and> hd (day_names ! k) \<in> set ''SMTWF''"
    by code_simp
  moreover assume "n < 7"
  ultimately show ?thesis by simp
qed

lemma hd_date_to_string: "hd (date_to_string e t) \<in> set ''SMTWF''"
proof -
  let ?day = "(t + tz_offset e t) div msPerDay"
  have "nat ((?day + 4) mod 7) < 7" by simp
  then have "day_names ! nat ((?day + 4) mod 7) \<noteq> [] \<and> hd (day_names ! nat ((?day + 4) mod 7)) \<in> set ''SMTWF''"
    by (rule hd_day_names)
  then show ?thesis
    by (simp add: date_to_string_def Let_def split: prod.split)
qed

lemma date_to_iso_neq_date_to_string: "date_to_iso t' \<noteq> date_to_string e t"
proof
  assume "date_to_iso t' = date_to_string e t"
  then have "hd (date_to_iso t') \<in> set ''SMTWF''" using hd_date_to_string by metis
  with hd_date_to_iso[of t'] show False by auto
qed
end
