(* ===== verification/Store.thy ===== *)
theory Store
  imports Js_Runtime
begin

text \<open>
  The two MongoDB collections of \<^verbatim>\<open>src/backend/index.js\<close> (lines 22--37) and the
  Mongoose operations the handlers issue on them.  A collection is a list of documents
  in natural order; a query that returns one document returns the first match, a query
  that returns many returns the matches in order.  \<^verbatim>\<open>doc.save()\<close> on a document
  read from the database writes only the paths the handler changed (a \<^verbatim>\<open>$set\<close> on
  the document with the same \<^verbatim>\<open>_id\<close>), so a save is an update function applied to
  the stored document.
\<close>

section \<open>Documents\<close>

text \<open>\<^verbatim>\<open>AppointmentSchema\<close> (lines 23--29), with the document's \<^verbatim>\<open>_id\<close>.\<close>

record appointment =
  appt_id :: oid
  patientId :: string
  doctorId :: string
  scheduledTime :: "time_ms option"
  status :: string
  notificationSent :: bool

text \<open>\<^verbatim>\<open>DoctorScheduleSchema\<close> (lines 31--34), with the document's \<^verbatim>\<open>_id\<close>.\<close>

record doctor_schedule =
  sched_id :: oid
  sched_doctorId :: string
  availableSlots :: "time_ms list"

record db =
  appointments :: "appointment list"
  doctorSchedules :: "doctor_schedule list"

text \<open>
  A new \<^verbatim>\<open>Appointment\<close> takes the schema defaults \<^verbatim>\<open>status: 'scheduled'\<close> and
  \<^verbatim>\<open>notificationSent: false\<close>.
\<close>

definition new_appointment :: "oid \<Rightarrow> string \<Rightarrow> string \<Rightarrow> time_ms \<Rightarrow> appointment" where
  "new_appointment i p d t =
     \<lparr>appt_id = i, patientId = p, doctorId = d, scheduledTime = Some t,
      status = ''scheduled'', notificationSent = False\<rparr>"

section \<open>Casting a request value to an ObjectId\<close>

text \<open>
  \<^verbatim>\<open>Appointment.findById(v)\<close> casts \<open>v\<close> to an ObjectId: the cast yields an id,
  or an id that no stored document can have (\<^verbatim>\<open>undefined\<close> becomes \<^verbatim>\<open>null\<close>),
  or fails with a \<^verbatim>\<open>CastError\<close>.  Which strings cast is Mongoose's (and the BSON
  library's) business, so the cast is a parameter of the store, next to the host's.
\<close>

datatype id_cast = CastId oid | CastNoMatch | CastFails

record store_env = js_env +
  cast_oid :: "jsval \<Rightarrow> id_cast"

section \<open>Queries\<close>

text \<open>
  The filter of the no-show scan (lines 82--85):
  \<^verbatim>\<open>{ status: 'scheduled', scheduledTime: { $lt: cutoff } }\<close>.  A document without
  \<^verbatim>\<open>scheduledTime\<close> does not match \<^verbatim>\<open>$lt\<close> on a date.
\<close>

definition overdue :: "time_ms \<Rightarrow> appointment \<Rightarrow> bool" where
  "overdue cutoff a \<longleftrightarrow>
     status a = ''scheduled'' \<and> (case scheduledTime a of Some t \<Rightarrow> t < cutoff | None \<Rightarrow> False)"

definition find_overdue :: "time_ms \<Rightarrow> db \<Rightarrow> appointment list" where
  "find_overdue cutoff s = filter (overdue cutoff) (appointments s)"

text \<open>\<^verbatim>\<open>Appointment.findById(appointmentId)\<close> (line 117).\<close>

definition find_by_id :: "'a store_env_scheme \<Rightarrow> db \<Rightarrow> jsval \<Rightarrow> appointment option completion" where
  "find_by_id e s v =
     (case cast_oid e v of
        CastId i \<Rightarrow> Normal (find (\<lambda>a. appt_id a = i) (appointments s))
      | CastNoMatch \<Rightarrow> Normal None
      | CastFails \<Rightarrow> Thrown CastError)"

text \<open>\<^verbatim>\<open>DoctorSchedule.findOne({ doctorId })\<close> (lines 92, 105, 123).\<close>

definition find_schedule :: "db \<Rightarrow> string \<Rightarrow> doctor_schedule option" where
  "find_schedule s d = find (\<lambda>x. sched_doctorId x = d) (doctorSchedules s)"

text \<open>\<^verbatim>\<open>Appointment.find({ patientId, status: 'missed' })\<close> (lines 143--146).\<close>

definition find_missed_of :: "db \<Rightarrow> string \<Rightarrow> appointment list" where
  "find_missed_of s p = filter (\<lambda>a. patientId a = p \<and> status a = ''missed'') (appointments s)"

section \<open>Saves\<close>

text \<open>
  \<^verbatim>\<open>appointment.save()\<close> and \<^verbatim>\<open>doctorSchedule.save()\<close>: the changed paths
  \<open>f\<close> are written to the stored document with the document's \<^verbatim>\<open>_id\<close>.
\<close>

definition save_appointment :: "oid \<Rightarrow> (appointment \<Rightarrow> appointment) \<Rightarrow> db \<Rightarrow> db" where
  "save_appointment i f s =
     s\<lparr>appointments := update_first (\<lambda>a. appt_id a = i) f (appointments s)\<rparr>"

definition save_schedule :: "oid \<Rightarrow> (doctor_schedule \<Rightarrow> doctor_schedule) \<Rightarrow> db \<Rightarrow> db" where
  "save_schedule i f s =
     s\<lparr>doctorSchedules := update_first (\<lambda>x. sched_id x = i) f (doctorSchedules s)\<rparr>"

section \<open>Serialisation\<close>

text \<open>
  \<^verbatim>\<open>res.json\<close> of an appointment document (its \<^verbatim>\<open>toJSON\<close>): a
  \<^verbatim>\<open>Date\<close> becomes its ISO string, an unset path is left out.  The version key
  \<^verbatim>\<open>__v\<close> is not modelled.
\<close>

definition appointment_json :: "appointment \<Rightarrow> jsval" where
  "appointment_json a =
     JObj ([(''_id'', JStr (appt_id a)), (''patientId'', JStr (patientId a)),
            (''doctorId'', JStr (doctorId a))]
           @ (case scheduledTime a of Some t \<Rightarrow> [(''scheduledTime'', JStr (date_to_iso t))] | None \<Rightarrow> [])
           @ [(''status'', JStr (status a)), (''notificationSent'', JBool (notificationSent a))])"

section \<open>Well-formedness\<close>

text \<open>MongoDB keeps \<^verbatim>\<open>_id\<close> unique within a collection.\<close>

definition wf_db :: "db \<Rightarrow> bool" where
  "wf_db s \<longleftrightarrow> distinct (map appt_id (appointments s)) \<and> distinct (map sched_id (doctorSchedules s))"

section \<open>Lemmas\<close>

lemmas store_unfold [handler_defs] =
  find_overdue_def find_by_id_def find_schedule_def find_missed_of_def
  save_appointment_def save_schedule_def

lemma doctorSchedules_save_appointment [simp, store_simps]:
  "doctorSchedules (save_appointment i f s) = doctorSchedules s"
  by (simp add: save_appointment_def)

lemma appointments_save_schedule [simp, store_simps]:
  "appointments (save_schedule i f s) = appointments s"
  by (simp add: save_schedule_def)

lemma find_schedule_save_appointment [simp, store_simps]:
  "find_schedule (save_appointment i f s) d = find_schedule s d"
  by (simp add: find_schedule_def)

lemma length_save_appointment [simp, store_simps]:
  "length (appointments (save_appointment i f s)) = length (appointments s)"
  by (simp add: save_appointment_def)

text \<open>A save that keeps the \<^verbatim>\<open>_id\<close> keeps the list of ids, hence well-formedness.\<close>

lemma ids_save_appointment [simp, store_simps]:
  "(\<And>a. appt_id (f a) = appt_id a) \<Longrightarrow>
   map appt_id (appointments (save_appointment i f s)) = map appt_id (appointments s)"
  by (simp add: save_appointment_def map_update_first_keep)

lemma ids_save_schedule [simp, store_simps]:
  "(\<And>x. sched_id (f x) = sched_id x) \<Longrightarrow>
   map sched_id (doctorSchedules (save_schedule i f s)) = map sched_id (doctorSchedules s)"
  by (simp add: save_schedule_def map_update_first_keep)

lemma wf_save_appointment:
  "wf_db s \<Longrightarrow> (\<And>a. appt_id (f a) = appt_id a) \<Longrightarrow> wf_db (save_appointment i f s)"
  unfolding wf_db_def by (simp add: ids_save_appointment)

lemma wf_save_schedule:
  "wf_db s \<Longrightarrow> (\<And>x. sched_id (f x) = sched_id x) \<Longrightarrow> wf_db (save_schedule i f s)"
  unfolding wf_db_def by (simp add: ids_save_schedule)

text \<open>On a well-formed store a save changes exactly the document with that id.\<close>

lemma appointments_save_wf:
  "wf_db s \<Longrightarrow>
   appointments (save_appointment i f s) = map (\<lambda>a. if appt_id a = i then f a else a) (appointments s)"
  unfolding wf_db_def save_appointment_def by (simp add: update_first_distinct)

lemma schedules_save_wf:
  "wf_db s \<Longrightarrow>
   doctorSchedules (save_schedule i f s) = map (\<lambda>x. if sched_id x = i then f x else x) (doctorSchedules s)"
  unfolding wf_db_def save_schedule_def by (simp add: update_first_distinct)

text \<open>Unique \<^verbatim>\<open>_id\<close>s: a save through one id leaves the documents with other ids alone.\<close>

lemma wf_same_id:
  "wf_db s \<Longrightarrow> a \<in> set (appointments s) \<Longrightarrow> b \<in> set (appointments s) \<Longrightarrow> appt_id a = appt_id b \<Longrightarrow> a = b"
  unfolding wf_db_def by (auto simp: distinct_map inj_on_eq_iff)

lemma save_appointment_other:
  "k < length (appointments s) \<Longrightarrow> appt_id (appointments s ! k) \<noteq> i \<Longrightarrow>
   appointments (save_appointment i f s) ! k = appointments s ! k"
  by (simp add: save_appointment_def nth_update_first_other)

lemma find_by_id_Some:
  "find_by_id e s v = Normal (Some a) \<Longrightarrow> a \<in> set (appointments s) \<and> cast_oid e v = CastId (appt_id a)"
  by (auto simp: find_by_id_def split: id_cast.splits dest: find_Some_in_set)

lemma find_schedule_Some:
  "find_schedule s d = Some x \<Longrightarrow> x \<in> set (doctorSchedules s) \<and> sched_doctorId x = d"
  by (auto simp: find_schedule_def dest: find_Some_in_set)

lemma find_overdue_iff:
  "a \<in> set (find_overdue cutoff s) \<longleftrightarrow> a \<in> set (appointments s) \<and> overdue cutoff a"
  by (simp add: find_overdue_def)

end
