(* ===== verification/Notify.thy ===== *)
theory Notify
  imports Store
begin

text \<open>
  The notification gateway of \<^verbatim>\<open>src/backend/index.js\<close>: \<^verbatim>\<open>sendEmail\<close>
  (lines 43--60, nodemailer) and \<^verbatim>\<open>sendSMS\<close> (lines 62--77, Twilio).  Every call to a
  provider is recorded in an outbox, in call order, with the result object the function
  returns.  Whether a provider accepts a message is outside the program: the
  \<open>k\<close>-th provider call succeeds when \<open>mail_delivers k\<close> (or \<open>sms_delivers k\<close>)
  holds, \<open>k\<close> being the number of calls before it.  \<^verbatim>\<open>twilio('', '')\<close> is
  evaluated before the \<^verbatim>\<open>try\<close>; \<open>sms_client_ok\<close> says whether it returns (with
  empty credentials it falls back to the environment's and throws when there are none).
\<close>

section \<open>Results and the outbox\<close>

datatype channel = EmailChannel | SmsChannel

text \<open>The object \<^verbatim>\<open>{ status, message }\<close> that both functions return.\<close>

record send_result =
  res_status :: string
  res_message :: string

record attempt =
  att_channel :: channel
  att_to :: jsval
  att_subject :: "string option"
  att_text :: jsval
  att_result :: send_result

type_synonym outbox = "attempt list"

record runtime = store_env +
  mail_delivers :: "nat \<Rightarrow> bool"
  sms_delivers :: "nat \<Rightarrow> bool"
  sms_client_ok :: bool

section \<open>The two senders\<close>

text \<open>
  \<^verbatim>\<open>sendEmail(email, subject, text)\<close>: \<^verbatim>\<open>createTransport\<close> does not throw;
  a failed \<^verbatim>\<open>sendMail\<close> is caught and turned into the failure object.
\<close>

definition sendEmail ::
  "'a runtime_scheme \<Rightarrow> jsval \<Rightarrow> string \<Rightarrow> jsval \<Rightarrow> outbox \<Rightarrow> send_result \<times> outbox" where
  "sendEmail e email subject text ob =
     (let r = (if mail_delivers e (length ob)
               then \<lparr>res_status = ''success'', res_message = ''Email sent successfully''\<rparr>
               else \<lparr>res_status = ''failure'', res_message = ''Failed to send email''\<rparr>)
      in (r, ob @ [\<lparr>att_channel = EmailChannel, att_to = email, att_subject = Some subject,
                    att_text = text, att_result = r\<rparr>]))"

text \<open>
  \<^verbatim>\<open>sendSMS(phoneNumber, message)\<close>: the client is built outside the
  \<^verbatim>\<open>try\<close>, so its failure rejects the call; a failed \<^verbatim>\<open>messages.create\<close> is
  caught.
\<close>

definition sendSMS ::
  "'a runtime_scheme \<Rightarrow> jsval \<Rightarrow> jsval \<Rightarrow> outbox \<Rightarrow> (send_result \<times> outbox) completion" where
  "sendSMS e phoneNumber message ob =
     (if \<not> sms_client_ok e then Thrown ClientInitError
      else
        (let r = (if sms_delivers e (length ob)
                  then \<lparr>res_status = ''success'', res_message = ''SMS sent successfully''\<rparr>
                  else \<lparr>res_status = ''failure'', res_message = ''Failed to send SMS''\<rparr>)
         in Normal (r, ob @ [\<lparr>att_channel = SmsChannel, att_to = phoneNumber, att_subject = None,
                              att_text = message, att_result = r\<rparr>])))"

text \<open>\<^verbatim>\<open>res.json\<close> of a result object.\<close>

definition result_json :: "send_result \<Rightarrow> jsval" where
  "result_json r = JObj [(''status'', JStr (res_status r)), (''message'', JStr (res_message r))]"

section \<open>Lemmas\<close>

lemmas sender_defs [handler_defs] = sendEmail_def sendSMS_def

text \<open>
  A call to \<^verbatim>\<open>sendEmail\<close> appends exactly one attempt, and its result reports
  exactly whether the provider accepted it.
\<close>

lemma sendEmail_outbox:
  "sendEmail e to subj txt ob = (r, ob') \<Longrightarrow>
   ob' = ob @ [\<lparr>att_channel = EmailChannel, att_to = to, att_subject = Some subj, att_text = txt,
                 att_result = r\<rparr>] \<and>
   (res_status r = ''success'' \<longleftrightarrow> mail_delivers e (length ob))"
  by (auto simp: sendEmail_def Let_def split: if_splits)

lemma sendSMS_outbox:
  "sendSMS e to txt ob = Normal (r, ob') \<Longrightarrow>
   ob' = ob @ [\<lparr>att_channel = SmsChannel, att_to = to, att_subject = None, att_text = txt,
                 att_result = r\<rparr>] \<and>
   (res_status r = ''success'' \<longleftrightarrow> sms_delivers e (length ob))"
  by (auto simp: sendSMS_def Let_def split: if_splits)

lemma sendSMS_Thrown_iff:
  "sendSMS e to txt ob = Thrown err \<longleftrightarrow> \<not> sms_client_ok e \<and> err = ClientInitError"
  by (auto simp: sendSMS_def Let_def)

lemma sendSMS_ok:
  "sms_client_ok e \<Longrightarrow> \<exists>r. sendSMS e to txt ob = Normal (r, ob @ [\<lparr>att_channel = SmsChannel,
     att_to = to, att_subject = None, att_text = txt, att_result = r\<rparr>])"
  by (simp add: sendSMS_def Let_def)

lemma snd_sendEmail [simp]:
  "snd (sendEmail e to subj txt ob) =
   ob @ [\<lparr>att_channel = EmailChannel, att_to = to, att_subject = Some subj, att_text = txt,
          att_result = fst (sendEmail e to subj txt ob)\<rparr>]"
  by (simp add: sendEmail_def Let_def)

end
