(* ===== verification/Reconcile.thy ===== *)
theory Reconcile
  imports Notify
begin

text \<open>
  The no-show detector of \<^verbatim>\<open>src/backend/index.js\<close> (lines 79--100): the callback
  that \<^verbatim>\<open>setInterval\<close> runs every 60 seconds.  One run (a tick) takes the current
  time, queries the appointments that are still \<^verbatim>\<open>'scheduled'\<close> and older than the
  grace period, and for each of them, in query order, sets \<^verbatim>\<open>status = 'missed'\<close>,
  saves it, looks up the doctor's schedule and, when the schedule has slots, sends an
  e-mail and an SMS listing them.  The state the tick works on is the database and the
  outbox of provider calls.  A rejected promise ends the tick where it happens: what was
  saved and sent until then stays.
\<close>

record world =
  store :: db
  outbox :: outbox

text \<open>A completed run, with the exception that ended it early, if any.\<close>

type_synonym run = "world \<times> js_error option"

section \<open>The tick\<close>

text \<open>\<^verbatim>\<open>const GRACE_PERIOD = 15 * 60 * 1000\<close> (line 40).\<close>

definition GRACE_PERIOD :: int where
  "GRACE_PERIOD = 15 * 60 * 1000"

text \<open>
  The message of line 94: a template literal around
  \<^verbatim>\<open>availableSlots.join(', ')\<close>, which renders each \<^verbatim>\<open>Date\<close> with
  \<^verbatim>\<open>toString\<close>.
\<close>

definition compose_message :: "'a js_env_scheme \<Rightarrow> time_ms list \<Rightarrow> string" where
  "compose_message e slots =
     ''Your appointment was missed. Available slots: '' @ js_join '', '' (map (date_to_string e) slots)"

text \<open>
  Lines 91--98: look the doctor's schedule up and, if it exists and has slots, send the
  e-mail and then the SMS, both to the empty address the code hard-wires.
\<close>

definition notify_patient :: "'a runtime_scheme \<Rightarrow> appointment \<Rightarrow> world \<Rightarrow> run" where
  "notify_patient e a w =
     (case find_schedule (store w) (doctorId a) of
        None \<Rightarrow> (w, None)
      | Some rescheduleOptions \<Rightarrow>
          (if 0 < length (availableSlots rescheduleOptions) then
             (let message = compose_message e (availableSlots rescheduleOptions);
                  ob1 = snd (sendEmail e (JStr '''') ''Missed Appointment'' (JStr message) (outbox w))
              in case sendSMS e (JStr '''') (JStr message) ob1 of
                   Thrown err \<Rightarrow> (w\<lparr>outbox := ob1\<rparr>, Some err)
                 | Normal (r, ob2) \<Rightarrow> (w\<lparr>outbox := ob2\<rparr>, None))
           else (w, None)))"

text \<open>
  The \<^verbatim>\<open>for ... of\<close> loop of lines 87--99 over the query result: mark the
  appointment missed and save it (lines 88--89), then notify.
\<close>

fun process_missed :: "'a runtime_scheme \<Rightarrow> appointment list \<Rightarrow> world \<Rightarrow> run" where
  "process_missed e [] w = (w, None)"
| "process_missed e (a # as) w =
     (let w1 = w\<lparr>store := save_appointment (appt_id a) (\<lambda>b. b\<lparr>status := ''missed''\<rparr>) (store w)\<rparr>
      in case notify_patient e a w1 of
           (w2, None) \<Rightarrow> process_missed e as w2
         | (w2, Some err) \<Rightarrow> (w2, Some err))"

text \<open>One run of the interval callback at time \<open>now\<close> (lines 80--85).\<close>

definition tick :: "'a runtime_scheme \<Rightarrow> time_ms \<Rightarrow> world \<Rightarrow> run" where
  "tick e now w = process_missed e (find_overdue (now - GRACE_PERIOD) (store w)) w"

section \<open>What a tick should do\<close>

text \<open>
  The specification-side vocabulary of the lemmas: the status change of line 88, the
  notices (channel, recipient, text) a tick owes an appointment of the store \<open>s\<close>, and
  the projection of a provider call onto those three fields.
\<close>

definition mark_missed :: "appointment \<Rightarrow> appointment" where
  "mark_missed b = b\<lparr>status := ''missed''\<rparr>"

definition expected_notices :: "'a js_env_scheme \<Rightarrow> db \<Rightarrow> appointment \<Rightarrow> (channel \<times> jsval \<times> jsval) list" where
  "expected_notices e s a =
     (case find_schedule s (doctorId a) of
        None \<Rightarrow> []
      | Some sch \<Rightarrow> if availableSlots sch = [] then []
                   else (let m = JStr (compose_message e (availableSlots sch))
                         in [(EmailChannel, JStr '''', m), (SmsChannel, JStr '''', m)]))"

definition notice_of :: "attempt \<Rightarrow> channel \<times> jsval \<times> jsval" where
  "notice_of x = (att_channel x, att_to x, att_text x)"

definition mark_ids :: "oid set \<Rightarrow> appointment list \<Rightarrow> appointment list" where
  "mark_ids I xs = map (\<lambda>b. if appt_id b \<in> I then mark_missed b else b) xs"

section \<open>Lemmas\<close>

lemmas tick_defs [handler_defs] = tick_def notify_patient_def compose_message_def

lemma find_schedule_cong: "doctorSchedules s = doctorSchedules s' \<Longrightarrow> find_schedule s = find_schedule s'"
  by (simp add: find_schedule_def fun_eq_iff)

lemma store_notify_patient [simp]: "store (fst (notify_patient e a w)) = store w"
  by (auto simp: notify_patient_def Let_def split: option.split completion.split prod.split)

lemma notify_patient_ok:
  assumes "sms_client_ok e"
  shows "snd (notify_patient e a w) = None \<and>
         map notice_of (outbox (fst (notify_patient e a w))) =
           map notice_of (outbox w) @ expected_notices e (store w) a"
proof (cases "find_schedule (store w) (doctorId a)")
  case None
  then show ?thesis by (simp add: notify_patient_def expected_notices_def)
next
  case (Some sch)
  then show ?thesis
    using assms
    by (auto simp: notify_patient_def expected_notices_def Let_def notice_of_def sendSMS_def)
qed

lemma notify_patient_silent:
  "expected_notices e (store w) a = [] \<Longrightarrow> notify_patient e a w = (w, None)"
  by (auto simp: notify_patient_def expected_notices_def Let_def split: option.splits if_splits)

lemma notify_patient_client_fails:
  assumes "\<not> sms_client_ok e" "expected_notices e (store w) a \<noteq> []"
  shows "snd (notify_patient e a w) = Some ClientInitError \<and>
         store (fst (notify_patient e a w)) = store w \<and>
         map notice_of (outbox (fst (notify_patient e a w))) =
           map notice_of (outbox w) @ take 1 (expected_notices e (store w) a)"
  using assms
  by (auto simp: notify_patient_def expected_notices_def Let_def notice_of_def sendSMS_def
           split: option.splits if_splits)


lemma mark_missed_idem [simp]: "mark_missed (mark_missed b) = mark_missed b"
  by (simp add: mark_missed_def)

lemma appt_id_mark_missed [simp]: "appt_id (mark_missed b) = appt_id b"
  by (simp add: mark_missed_def)

lemma mark_ids_insert: "map (\<lambda>b. if appt_id b = i then mark_missed b else b) (mark_ids I xs) = mark_ids (insert i I) xs"
  by (auto simp: mark_ids_def)

lemma mark_ids_empty [simp]: "mark_ids {} xs = xs"
  by (simp add: mark_ids_def)

lemma wf_mark: "wf_db s \<Longrightarrow> wf_db (save_appointment i (\<lambda>b. b\<lparr>status := ''missed''\<rparr>) s)"
  by (rule wf_save_appointment) simp_all

lemma process_missed_ok:
  assumes "wf_db (store w)" "sms_client_ok e"
  shows "snd (process_missed e as w) = None \<and>
         appointments (store (fst (process_missed e as w))) = mark_ids (appt_id ` set as) (appointments (store w)) \<and>
         doctorSchedules (store (fst (process_missed e as w))) = doctorSchedules (store w) \<and>
         map notice_of (outbox (fst (process_missed e as w))) =
           map notice_of (outbox w) @ concat (map (expected_notices e (store w)) as)"
  using assms(1)
proof (induction as arbitrary: w)
  case Nil
  then show ?case by simp
next
  case (Cons a as)
  let ?w1 = "w\<lparr>store := save_appointment (appt_id a) (\<lambda>b. b\<lparr>status := ''missed''\<rparr>) (store w)\<rparr>"
  let ?w2 = "fst (notify_patient e a ?w1)"
  have n: "snd (notify_patient e a ?w1) = None"
    and ob: "map notice_of (outbox ?w2) = map notice_of (outbox w) @ expected_notices e (store w) a"
    using notify_patient_ok[OF assms(2), of a ?w1] find_schedule_cong[of "store ?w1" "store w"]
    by (simp_all add: expected_notices_def)
  have wf2: "wf_db (store ?w2)" using Cons.prems by (simp add: wf_mark)
  have eq: "process_missed e (a # as) w = process_missed e as ?w2"
    using n by (cases "notify_patient e a ?w1") simp
  have st: "appointments (store ?w2) = mark_ids {appt_id a} (appointments (store w))"
    using Cons.prems by (simp add: appointments_save_wf mark_ids_def mark_missed_def)
  have ns: "expected_notices e (store ?w2) = expected_notices e (store w)"
    using find_schedule_cong[of "store ?w2" "store w"] by (simp add: fun_eq_iff expected_notices_def)
  have "mark_ids (appt_id ` set as) (mark_ids {appt_id a} xs) = mark_ids (appt_id ` set (a # as)) xs" for xs
    by (auto simp: mark_ids_def)
  then show ?case
    using Cons.IH[OF wf2] eq st ob ns by simp
qed

lemma mark_ids_filter:
  assumes "distinct (map appt_id xs)"
  shows "mark_ids (appt_id ` set (filter P xs)) xs = map (\<lambda>b. if P b then mark_missed b else b) xs"
proof -
  have inj: "inj_on appt_id (set xs)" using assms by (simp add: distinct_map)
  have "appt_id b \<in> appt_id ` set (filter P xs) \<longleftrightarrow> P b" if "b \<in> set xs" for b
    using that inj by (auto simp: inj_on_eq_iff)
  then show ?thesis by (simp add: mark_ids_def)
qed

text \<open>
  C2: With a constructible SMS client, one tick of the no-show detector completes, marks exactly the appointments that are 'scheduled' and due before now minus the 15-minute grace period as 'missed', and leaves every other appointment and every schedule as it was: the per-document loop equals one bulk update.
\<close>

theorem tick_marks_overdue:
  assumes "wf_db (store w)" "sms_client_ok e"
  shows "snd (tick e now w) = None \<and>
         appointments (store (fst (tick e now w))) =
           map (\<lambda>a. if overdue (now - GRACE_PERIOD) a then a\<lparr>status := ''missed''\<rparr> else a)
               (appointments (store w)) \<and>
         doctorSchedules (store (fst (tick e now w))) = doctorSchedules (store w)"
proof -
  let ?c = "now - GRACE_PERIOD"
  have m: "mark_ids (appt_id ` set (find_overdue ?c (store w))) (appointments (store w)) =
           map (\<lambda>a. if overdue ?c a then a\<lparr>status := ''missed''\<rparr> else a) (appointments (store w))"
    using mark_ids_filter[of "appointments (store w)" "overdue ?c"] assms(1)
    by (simp add: wf_db_def find_overdue_def mark_missed_def)
  show ?thesis
    using process_missed_ok[OF assms, of "find_overdue ?c (store w)"] m by (simp add: tick_def)
qed

text \<open>
  C7: With a constructible SMS client, the provider calls of one tick are, for each overdue appointment in query order whose doctor has a schedule with slots, one e-mail and then one SMS to the hard-wired empty address carrying the message that lists the slots, and nothing else.
\<close>

theorem tick_notices:
  assumes "wf_db (store w)" "sms_client_ok e"
  shows "map notice_of (outbox (fst (tick e now w))) =
           map notice_of (outbox w) @
           concat (map (expected_notices e (store w)) (find_overdue (now - GRACE_PERIOD) (store w)))"
  using process_missed_ok[OF assms] by (simp add: tick_def)

lemma notify_patient_delivery:
  assumes "store w' = store w"
  shows "store (fst (notify_patient (e\<lparr>mail_delivers := m, sms_delivers := d\<rparr>) a w')) = store w' \<and>
         snd (notify_patient (e\<lparr>mail_delivers := m, sms_delivers := d\<rparr>) a w') = snd (notify_patient e a w)"
  using assms
  by (auto simp: notify_patient_def Let_def sendSMS_def split: option.split)

lemma process_missed_delivery:
  "store w' = store w \<Longrightarrow>
   store (fst (process_missed (e\<lparr>mail_delivers := m, sms_delivers := d\<rparr>) as w')) = store (fst (process_missed e as w)) \<and>
   snd (process_missed (e\<lparr>mail_delivers := m, sms_delivers := d\<rparr>) as w') = snd (process_missed e as w)"
proof (induction as arbitrary: w w')
  case Nil
  then show ?case by simp
next
  case (Cons a as)
  let ?e' = "e\<lparr>mail_delivers := m, sms_delivers := d\<rparr>"
  let ?f = "\<lambda>w. w\<lparr>store := save_appointment (appt_id a) (\<lambda>b. b\<lparr>status := ''missed''\<rparr>) (store w)\<rparr>"
  have s1: "store (?f w') = store (?f w)" using Cons.prems by simp
  obtain v r where v: "notify_patient e a (?f w) = (v, r)" by fastforce
  obtain v' r' where v': "notify_patient ?e' a (?f w') = (v', r')" by fastforce
  have "store v' = store v" "r' = r"
    using notify_patient_delivery[OF s1, where m = m and d = d and a = a and e = e] v v' store_notify_patient[of e a "?f w"] s1 by auto
  then show ?case
    using Cons.IH[of v' v] v v' by (cases r) auto
qed

text \<open>
  C6: What a tick persists, and whether it completes, do not depend on whether the e-mail and SMS providers accept the messages: a failed delivery is caught and never undoes or prevents a status change.
\<close>

theorem tick_store_independent_of_delivery:
  "store (fst (tick (e\<lparr>mail_delivers := m, sms_delivers := d\<rparr>) now w)) = store (fst (tick e now w)) \<and>
   snd (tick (e\<lparr>mail_delivers := m, sms_delivers := d\<rparr>) now w) = snd (tick e now w)"
  by (simp add: tick_def process_missed_delivery)

lemma notificationSent_process_missed:
  "map notificationSent (appointments (store (fst (process_missed e as w)))) =
   map notificationSent (appointments (store w))"
proof (induction as arbitrary: w)
  case Nil
  then show ?case by simp
next
  case (Cons a as)
  let ?w1 = "w\<lparr>store := save_appointment (appt_id a) (\<lambda>b. b\<lparr>status := ''missed''\<rparr>) (store w)\<rparr>"
  have "map notificationSent (appointments (store ?w1)) = map notificationSent (appointments (store w))"
    by (simp add: save_appointment_def map_update_first_keep)
  then show ?case
    using Cons.IH[of "fst (notify_patient e a ?w1)"] store_notify_patient[of e a ?w1]
    by (cases "notify_patient e a ?w1" rule: prod.exhaust) (auto split: option.split)
qed

text \<open>
  C12: No tick changes the notificationSent flag of any appointment: the flag of the data model is never written by the detector that sends the notifications.
\<close>

theorem tick_never_sets_notificationSent:
  "map notificationSent (appointments (store (fst (tick e now w)))) = map notificationSent (appointments (store w))"
  by (simp add: tick_def notificationSent_process_missed)

lemma expected_notices_save [simp]:
  "expected_notices e (save_appointment i f s) = expected_notices e s"
  by (simp add: fun_eq_iff expected_notices_def)

lemma process_missed_client_fails:
  assumes "wf_db (store w)" "\<not> sms_client_ok e"
    and "\<forall>x\<in>set xs. expected_notices e (store w) x = []" "expected_notices e (store w) a \<noteq> []"
  shows "snd (process_missed e (xs @ a # ys) w) = Some ClientInitError \<and>
         appointments (store (fst (process_missed e (xs @ a # ys) w))) =
           mark_ids (appt_id ` set (xs @ [a])) (appointments (store w)) \<and>
         map notice_of (outbox (fst (process_missed e (xs @ a # ys) w))) =
           map notice_of (outbox w) @ take 1 (expected_notices e (store w) a)"
  using assms(1,3,4)
proof (induction xs arbitrary: w)
  case Nil
  let ?w1 = "w\<lparr>store := save_appointment (appt_id a) (\<lambda>b. b\<lparr>status := ''missed''\<rparr>) (store w)\<rparr>"
  have ne: "expected_notices e (store ?w1) a \<noteq> []" using Nil.prems(3) by simp
  have f: "snd (notify_patient e a ?w1) = Some ClientInitError \<and>
           store (fst (notify_patient e a ?w1)) = store ?w1 \<and>
           map notice_of (outbox (fst (notify_patient e a ?w1))) =
             map notice_of (outbox w) @ take 1 (expected_notices e (store w) a)"
    using notify_patient_client_fails[OF assms(2) ne] by simp
  have "appointments (store ?w1) = mark_ids {appt_id a} (appointments (store w))"
    using Nil.prems by (simp add: appointments_save_wf mark_ids_def mark_missed_def)
  with f show ?case
    by (cases "notify_patient e a ?w1" rule: prod.exhaust) auto
next
  case (Cons x xs)
  let ?w1 = "w\<lparr>store := save_appointment (appt_id x) (\<lambda>b. b\<lparr>status := ''missed''\<rparr>) (store w)\<rparr>"
  have silent: "notify_patient e x ?w1 = (?w1, None)"
    using Cons.prems(2) by (intro notify_patient_silent) simp
  have wf1: "wf_db (store ?w1)" using Cons.prems(1) by (simp add: wf_mark)
  have st: "appointments (store ?w1) = mark_ids {appt_id x} (appointments (store w))"
    using Cons.prems(1) by (simp add: appointments_save_wf mark_ids_def mark_missed_def)
  have "mark_ids (appt_id ` set (xs @ [a])) (mark_ids {appt_id x} zs) = mark_ids (appt_id ` set ((x # xs) @ [a])) zs" for zs
    by (auto simp: mark_ids_def)
  with Cons.IH[OF wf1] Cons.prems(2,3) silent st show ?case by simp
qed

text \<open>
  C8: When the SMS client cannot be constructed (twilio('', '') is evaluated outside the try), the tick rejects at the first overdue appointment whose doctor offers slots, and the overdue appointments after it in the query result stay 'scheduled' in this tick.
\<close>

theorem tick_client_failure:
  assumes "wf_db (store w)" "\<not> sms_client_ok e"
    and "find_overdue (now - GRACE_PERIOD) (store w) = xs @ a # ys"
    and "\<forall>x\<in>set xs. expected_notices e (store w) x = []" "expected_notices e (store w) a \<noteq> []"
  shows "snd (tick e now w) = Some ClientInitError \<and>
         (\<forall>b\<in>set ys. b \<in> set (appointments (store (fst (tick e now w)))) \<and> status b = ''scheduled'')"
proof -
  let ?I = "appt_id ` set (xs @ [a])"
  have r: "snd (tick e now w) = Some ClientInitError"
    and st: "appointments (store (fst (tick e now w))) = mark_ids ?I (appointments (store w))"
    using process_missed_client_fails[OF assms(1,2,4,5), of ys] assms(3) by (simp_all add: tick_def)
  have d: "distinct (map appt_id (xs @ a # ys))"
    using assms(1,3) unfolding wf_db_def find_overdue_def by (metis distinct_map_filter)
  have "b \<in> set (appointments (store (fst (tick e now w)))) \<and> status b = ''scheduled''" if b: "b \<in> set ys" for b
  proof -
    have mem: "b \<in> set (appointments (store w)) \<and> overdue (now - GRACE_PERIOD) b"
      using b assms(3) find_overdue_iff[of b "now - GRACE_PERIOD" "store w"] by auto
    have "appt_id b \<notin> ?I" using d b by (auto simp: image_iff)
    then have "b \<in> set (mark_ids ?I (appointments (store w)))"
      using mem unfolding mark_ids_def by (auto intro: rev_image_eqI)
    with mem st show ?thesis by (simp add: overdue_def)
  qed
  with r show ?thesis by blast
qed

text \<open>
  A property of the store that marking any appointment of the list missed keeps holds
  after a run of the loop over that list.
\<close>

lemma process_missed_store_inv:
  assumes "\<And>s a. a \<in> set as \<Longrightarrow> P s \<Longrightarrow> P (save_appointment (appt_id a) (\<lambda>b. b\<lparr>status := ''missed''\<rparr>) s)"
    and "P (store w)"
  shows "P (store (fst (process_missed e as w)))"
  using assms
proof (induction as arbitrary: w)
  case Nil
  then show ?case by simp
next
  case (Cons a as)
  let ?w1 = "w\<lparr>store := save_appointment (appt_id a) (\<lambda>b. b\<lparr>status := ''missed''\<rparr>) (store w)\<rparr>"
  have step: "\<And>x s. x \<in> set as \<Longrightarrow> P s \<Longrightarrow> P (save_appointment (appt_id x) (\<lambda>b. b\<lparr>status := ''missed''\<rparr>) s)"
    using Cons.prems(1) by simp
  have "P (store (fst (notify_patient e a ?w1)))" using Cons.prems by simp
  then show ?case
    using Cons.IH[OF step] by (cases "notify_patient e a ?w1" rule: prod.exhaust) (auto split: option.split)
qed

lemma wf_process_missed: "wf_db (store w) \<Longrightarrow> wf_db (store (fst (process_missed e as w)))"
  by (rule process_missed_store_inv) (simp_all add: wf_mark)

text \<open>A tick saves appointments only, and only their status.\<close>

lemma tick_schedules: "doctorSchedules (store (fst (tick e now w))) = doctorSchedules (store w)"
  unfolding tick_def by (rule process_missed_store_inv) simp_all

lemma tick_ids: "map appt_id (appointments (store (fst (tick e now w)))) = map appt_id (appointments (store w))"
  unfolding tick_def by (rule process_missed_store_inv) simp_all

text \<open>A tick keeps the _id of the documents of both collections unique.\<close>

lemma tick_preserves_wf: "wf_db (store w) \<Longrightarrow> wf_db (store (fst (tick e now w)))"
  by (simp add: tick_def wf_process_missed)

end
