(* ===== verification/Rebook.thy ===== *)
theory Rebook
  imports Store
begin

text \<open>
  The rebooking endpoint \<^verbatim>\<open>POST /api/rebook\<close> of \<^verbatim>\<open>src/backend/index.js\<close>
  (lines 114--137).  The handler reads \<^verbatim>\<open>appointmentId\<close> and \<^verbatim>\<open>newSlot\<close>
  from the JSON body, loads the appointment, rejects it unless it is \<^verbatim>\<open>'missed'\<close>,
  loads the doctor's schedule, rejects a slot that Mongoose's \<^verbatim>\<open>includes\<close> does not
  find, then sets the appointment's time and status and saves it, and finally saves the
  schedule with the slots that are \<^verbatim>\<open>!== newSlot\<close>.  The model returns the reply (or
  the exception that rejects the handler) with the database after the handler.
\<close>

section \<open>The handler\<close>

definition invalid_appointment_reply :: http_reply where
  "invalid_appointment_reply = Reply 400 (JObj [(''message'', JStr ''Invalid or non-missed appointment'')])"

definition slot_unavailable_reply :: http_reply where
  "slot_unavailable_reply = Reply 400 (JObj [(''message'', JStr ''Slot not available'')])"

text \<open>Lines 128--129: the fields the handler sets on the loaded document.\<close>

definition rebooked :: "time_ms \<Rightarrow> appointment \<Rightarrow> appointment" where
  "rebooked t a = a\<lparr>scheduledTime := Some t, status := ''scheduled''\<rparr>"

definition rebook :: "'a store_env_scheme \<Rightarrow> jsval \<Rightarrow> db \<Rightarrow> http_reply completion \<times> db" where
  "rebook e body s =
     (let appointmentId = js_get body ''appointmentId''; newSlot = js_get body ''newSlot'' in
      case find_by_id e s appointmentId of
        Thrown err \<Rightarrow> (Thrown err, s)
      | Normal None \<Rightarrow> (Normal invalid_appointment_reply, s)
      | Normal (Some appointment) \<Rightarrow>
          (if status appointment \<noteq> ''missed'' then (Normal invalid_appointment_reply, s)
           else
             (case find_schedule s (doctorId appointment) of
                None \<Rightarrow> (Thrown TypeError, s)
              | Some doctorSchedule \<Rightarrow>
                  (if \<not> mongoose_includes e (availableSlots doctorSchedule) newSlot
                   then (Normal slot_unavailable_reply, s)
                   else
                     (case js_new_date e newSlot of
                        None \<Rightarrow> (Thrown ValidationError, s)
                      | Some t \<Rightarrow>
                          (let s1 = save_appointment (appt_id appointment) (rebooked t) s;
                               slots' = filter (\<lambda>slot. date_strict_neq slot newSlot)
                                          (availableSlots doctorSchedule);
                               s2 = save_schedule (sched_id doctorSchedule)
                                      (\<lambda>x. x\<lparr>availableSlots := slots'\<rparr>) s1
                           in (Normal (Reply 200 (JObj
                                 [(''message'', JStr ''Appointment rescheduled successfully''),
                                  (''appointment'', appointment_json (rebooked t appointment))])),
                               s2)))))))"

section \<open>Lemmas\<close>

lemmas rebook_unfold [handler_defs] = rebook_def rebooked_def

text \<open>
  Saving a schedule document with the slot list it already has changes nothing, on a
  store whose \<^verbatim>\<open>_id\<close>s are unique.
\<close>

lemma save_schedule_same_slots:
  assumes "wf_db s" "x \<in> set (doctorSchedules s)"
  shows "doctorSchedules (save_schedule (sched_id x) (\<lambda>y. y\<lparr>availableSlots := availableSlots x\<rparr>) s) =
         doctorSchedules s"
proof -
  have "\<forall>y\<in>set (doctorSchedules s). sched_id y = sched_id x \<longrightarrow> y = x"
    using assms unfolding wf_db_def by (auto simp: distinct_map inj_on_eq_iff)
  then show ?thesis
    using assms(1) by (auto simp: schedules_save_wf intro!: map_idI)
qed

text \<open>
  Every run of the handler ends in one of two ways: it changes nothing and does not reply
  200, or it finds a missed appointment, its doctor's schedule and an offered slot whose
  \<^verbatim>\<open>toString\<close> rendering is \<^verbatim>\<open>newSlot\<close>, and performs both saves.
\<close>

lemma rebook_outcome:
  "(snd (rebook e body s) = s \<and> (\<forall>b. fst (rebook e body s) \<noteq> Normal (Reply 200 b))) \<or>
   (\<exists>a sch t0 t.
      find_by_id e s (js_get body ''appointmentId'') = Normal (Some a) \<and> status a = ''missed'' \<and>
      find_schedule s (doctorId a) = Some sch \<and> t0 \<in> set (availableSlots sch) \<and>
      js_get body ''newSlot'' = JStr (date_to_string e t0) \<and>
      date_parse e (date_to_string e t0) = Some t \<and>
      fst (rebook e body s) =
        Normal (Reply 200 (JObj [(''message'', JStr ''Appointment rescheduled successfully''),
                                 (''appointment'', appointment_json (rebooked t a))])) \<and>
      snd (rebook e body s) =
        save_schedule (sched_id sch) (\<lambda>x. x\<lparr>availableSlots := availableSlots sch\<rparr>)
          (save_appointment (appt_id a) (rebooked t) s))"
proof (cases "find_by_id e s (js_get body ''appointmentId'')")
  case (Normal ao)
  show ?thesis
  proof (cases "\<exists>a sch. ao = Some a \<and> status a = ''missed'' \<and> find_schedule s (doctorId a) = Some sch
                  \<and> mongoose_includes e (availableSlots sch) (js_get body ''newSlot'')
                  \<and> js_new_date e (js_get body ''newSlot'') \<noteq> None")
    case True
    then obtain a sch t where a: "ao = Some a" "status a = ''missed''" "find_schedule s (doctorId a) = Some sch"
      and inc: "mongoose_includes e (availableSlots sch) (js_get body ''newSlot'')"
      and t: "js_new_date e (js_get body ''newSlot'') = Some t" by blast
    from inc obtain t0 where t0: "t0 \<in> set (availableSlots sch)"
      and ns: "js_get body ''newSlot'' = JStr (date_to_string e t0)"
      using mongoose_includes_JStr by blast
    have "date_parse e (date_to_string e t0) = Some t" using t ns by simp
    with Normal a inc t t0 ns show ?thesis by (simp add: rebook_def Let_def) blast
  next
    case False
    with Normal show ?thesis
      by (auto simp: rebook_def Let_def invalid_appointment_reply_def slot_unavailable_reply_def
               split: option.splits if_splits)
  qed
next
  case (Thrown err)
  then show ?thesis by (simp add: rebook_def)
qed

text \<open>The success branch, read off \<open>rebook_outcome\<close>: the store after both saves.\<close>

lemma rebook_reply_200:
  "fst (rebook e body s) = Normal (Reply 200 b) \<Longrightarrow>
   \<exists>a sch t0 t.
      find_by_id e s (js_get body ''appointmentId'') = Normal (Some a) \<and> status a = ''missed'' \<and>
      find_schedule s (doctorId a) = Some sch \<and> t0 \<in> set (availableSlots sch) \<and>
      js_get body ''newSlot'' = JStr (date_to_string e t0) \<and>
      date_parse e (date_to_string e t0) = Some t \<and>
      snd (rebook e body s) =
        save_schedule (sched_id sch) (\<lambda>x. x\<lparr>availableSlots := availableSlots sch\<rparr>)
          (save_appointment (appt_id a) (rebooked t) s)"
  using rebook_outcome[of e body s] by blast

text \<open>
  C4: Every call of POST /api/rebook that does not reply 200 (a 400 reply, or a CastError, TypeError or ValidationError that rejects the handler) leaves the database unchanged.
\<close>

lemma rebook_no_mutation:
  "(\<forall>b. fst (rebook e body s) \<noteq> Normal (Reply 200 b)) \<Longrightarrow> snd (rebook e body s) = s"
  using rebook_outcome[of e body s] by blast

text \<open>
  The two saves of the success branch leave every schedule as it was and change only the
  rebooked appointment.
\<close>

lemma rebook_saves:
  assumes "wf_db s" "find_schedule s (doctorId a) = Some sch"
  shows "doctorSchedules (save_schedule (sched_id sch) (\<lambda>x. x\<lparr>availableSlots := availableSlots sch\<rparr>)
            (save_appointment (appt_id a) (rebooked t) s)) = doctorSchedules s"
    and "appointments (save_schedule (sched_id sch) (\<lambda>x. x\<lparr>availableSlots := availableSlots sch\<rparr>)
            (save_appointment (appt_id a) (rebooked t) s)) =
         map (\<lambda>x. if appt_id x = appt_id a then rebooked t x else x) (appointments s)"
proof -
  have wf1: "wf_db (save_appointment (appt_id a) (rebooked t) s)"
    using assms(1) by (rule wf_save_appointment) (simp add: rebooked_def)
  have "sch \<in> set (doctorSchedules (save_appointment (appt_id a) (rebooked t) s))"
    using find_schedule_Some[OF assms(2)] by simp
  from save_schedule_same_slots[OF wf1 this]
  show "doctorSchedules (save_schedule (sched_id sch) (\<lambda>x. x\<lparr>availableSlots := availableSlots sch\<rparr>)
            (save_appointment (appt_id a) (rebooked t) s)) = doctorSchedules s" by simp
  show "appointments (save_schedule (sched_id sch) (\<lambda>x. x\<lparr>availableSlots := availableSlots sch\<rparr>)
            (save_appointment (appt_id a) (rebooked t) s)) =
         map (\<lambda>x. if appt_id x = appt_id a then rebooked t x else x) (appointments s)"
    using assms(1) by (simp add: appointments_save_wf)
qed

text \<open>No run of the handler adds, removes or renames an appointment.\<close>

lemma rebook_ids: "map appt_id (appointments (snd (rebook e body s))) = map appt_id (appointments s)"
  by (auto simp: rebook_def Let_def rebooked_def split: completion.splits option.splits)

text \<open>
  C3: A 200 reply of POST /api/rebook means that the appointment was found and was 'missed', that newSlot is the toString rendering of a slot its doctor offers, that the appointment is now 'scheduled' at the parsed time with every other appointment unchanged, and that no schedule changed.
\<close>

lemma rebook_success:
  assumes "rebook e body s = (Normal (Reply 200 b), s')" "wf_db s"
  shows "\<exists>a sch t0 t.
           find_by_id e s (js_get body ''appointmentId'') = Normal (Some a) \<and> status a = ''missed'' \<and>
           find_schedule s (doctorId a) = Some sch \<and> t0 \<in> set (availableSlots sch) \<and>
           js_get body ''newSlot'' = JStr (date_to_string e t0) \<and>
           date_parse e (date_to_string e t0) = Some t \<and>
           appointments s' = map (\<lambda>x. if appt_id x = appt_id a then rebooked t x else x) (appointments s) \<and>
           doctorSchedules s' = doctorSchedules s"
proof -
  have "fst (rebook e body s) = Normal (Reply 200 b)" using assms(1) by simp
  then obtain a sch t0 t where fa: "find_by_id e s (js_get body ''appointmentId'') = Normal (Some a)"
    and st: "status a = ''missed''" and fs: "find_schedule s (doctorId a) = Some sch"
    and t0: "t0 \<in> set (availableSlots sch)" and ns: "js_get body ''newSlot'' = JStr (date_to_string e t0)"
    and pt: "date_parse e (date_to_string e t0) = Some t"
    and r: "snd (rebook e body s) = save_schedule (sched_id sch) (\<lambda>x. x\<lparr>availableSlots := availableSlots sch\<rparr>)
                   (save_appointment (appt_id a) (rebooked t) s)"
    by (blast dest: rebook_reply_200)
  have "s' = snd (rebook e body s)" using assms(1) by simp
  with r rebook_saves[OF assms(2) fs, of t] fa st fs t0 ns pt show ?thesis by auto
qed

text \<open>
  C1: On a store whose ids are unique, POST /api/rebook never changes any doctor's schedule: the filter on slot !== newSlot compares each stored Date with a string from the request, keeps every slot, and the booked slot stays offered.
\<close>

theorem rebook_keeps_schedules:
  assumes "wf_db s"
  shows "doctorSchedules (snd (rebook e body s)) = doctorSchedules s"
proof (cases "\<exists>b. fst (rebook e body s) = Normal (Reply 200 b)")
  case True
  then obtain b where "fst (rebook e body s) = Normal (Reply 200 b)" by blast
  from rebook_reply_200[OF this] obtain a :: appointment and sch t
    where fs: "find_schedule s (doctorId a) = Some sch"
    and r: "snd (rebook e body s) = save_schedule (sched_id sch) (\<lambda>x. x\<lparr>availableSlots := availableSlots sch\<rparr>)
                   (save_appointment (appt_id a) (rebooked t) s)"
    by blast
  with rebook_saves(1)[OF assms fs, of t] show ?thesis by simp
next
  case False
  then have "snd (rebook e body s) = s" using rebook_outcome[of e body s] by blast
  then show ?thesis by simp
qed

text \<open>
  C5: A newSlot given as the ISO string of a date (the form in which the slot finder serialises slots) never gets a 200 reply from POST /api/rebook.
\<close>

theorem rebook_rejects_iso_slot:
  assumes "js_get body ''newSlot'' = JStr (date_to_iso t)"
  shows "fst (rebook e body s) \<noteq> Normal (Reply 200 b)"
proof
  assume ok: "fst (rebook e body s) = Normal (Reply 200 b)"
  have "\<exists>slots. mongoose_includes e slots (js_get body ''newSlot'')"
    using ok
    by (auto simp: rebook_def Let_def invalid_appointment_reply_def slot_unavailable_reply_def
             split: completion.splits option.splits if_splits)
  then obtain slots where "mongoose_includes e slots (JStr (date_to_iso t))"
    using assms by auto
  then obtain t0 where "JStr (date_to_iso t) = JStr (date_to_string e t0)"
    using mongoose_includes_JStr by blast
  then show False using date_to_iso_neq_date_to_string[of t e t0] by simp
qed

text \<open>
  C9: Rebooking a missed appointment whose doctor has no schedule document throws a TypeError (doctorSchedule is null), so the request gets no reply, and nothing is written.
\<close>

theorem rebook_missing_schedule:
  assumes "find_by_id e s (js_get body ''appointmentId'') = Normal (Some a)"
    and "status a = ''missed''" and "find_schedule s (doctorId a) = None"
  shows "rebook e body s = (Thrown TypeError, s)"
  using assms by (simp add: rebook_def Let_def)

text \<open>
  C10: Rebooking an appointment that does not exist, or that is not 'missed', replies 400 'Invalid or non-missed appointment' and writes nothing.
\<close>

theorem rebook_invalid_appointment:
  assumes "find_by_id e s (js_get body ''appointmentId'') = Normal ao"
    and "ao = None \<or> status (the ao) \<noteq> ''missed''"
  shows "rebook e body s = (Normal invalid_appointment_reply, s)"
  using assms by (cases ao) (auto simp: rebook_def Let_def)

text \<open>
  C11: Rebooking a missed appointment to a value that is not the toString rendering of a slot its doctor offers replies 400 'Slot not available' and writes nothing.
\<close>

theorem rebook_slot_unavailable:
  assumes "find_by_id e s (js_get body ''appointmentId'') = Normal (Some a)"
    and "status a = ''missed''" and "find_schedule s (doctorId a) = Some sch"
    and "\<forall>t\<in>set (availableSlots sch). js_get body ''newSlot'' \<noteq> JStr (date_to_string e t)"
  shows "rebook e body s = (Normal slot_unavailable_reply, s)"
proof -
  have "\<not> mongoose_includes e (availableSlots sch) (js_get body ''newSlot'')"
    using assms(4) mongoose_includes_JStr by blast
  then show ?thesis using assms(1-3) by (simp add: rebook_def Let_def)
qed

text \<open>POST /api/rebook keeps the _id of the documents of both collections unique.\<close>

lemma rebook_wf: "wf_db s \<Longrightarrow> wf_db (snd (rebook e body s))"
  by (auto simp: rebook_def Let_def rebooked_def intro!: wf_save_schedule wf_save_appointment
           split: completion.splits option.splits)
end
