(* ===== verification/Queries.thy ===== *)
theory Queries
  imports Notify
begin

text \<open>
  The three other endpoints of \<^verbatim>\<open>src/backend/index.js\<close>: the slot finder
  \<^verbatim>\<open>GET /api/slots/:doctorId\<close> (lines 102--112), the missed-appointment list
  \<^verbatim>\<open>GET /api/missedAppointments/:patientId\<close> (lines 139--157) and the diagnostic
  \<^verbatim>\<open>POST /api/test-notification\<close> (lines 159--175).  The two reads change nothing;
  the diagnostic endpoint calls both providers.
\<close>

section \<open>Handlers\<close>

text \<open>
  Lines 103--112.  \<^verbatim>\<open>res.json\<close> serialises each \<^verbatim>\<open>Date\<close> of the array with
  \<^verbatim>\<open>toJSON\<close>, i.e. as its ISO string.
\<close>

definition get_slots :: "db \<Rightarrow> string \<Rightarrow> http_reply" where
  "get_slots s doctor =
     (case find_schedule s doctor of
        None \<Rightarrow> Reply 404 (JObj [(''message'', JStr ''No schedule found for this doctor'')])
      | Some schedule \<Rightarrow>
          Reply 200 (JObj [(''availableSlots'', JArr (map (\<lambda>t. JStr (date_to_iso t)) (availableSlots schedule)))]))"

text \<open>
  Lines 141--156, given the completion of the query of lines 143--146: a rejected query
  is caught and answered 500.
\<close>

definition missed_reply :: "appointment list completion \<Rightarrow> http_reply" where
  "missed_reply q =
     (case q of
        Thrown err \<Rightarrow> Reply 500 (JObj [(''message'', JStr ''Server error'')])
      | Normal missedAppointments \<Rightarrow>
          (if length missedAppointments = 0
           then Reply 404 (JObj [(''message'', JStr ''No missed appointments found for this patient'')])
           else Reply 200 (JObj [(''missedAppointments'', JArr (map appointment_json missedAppointments))])))"

definition get_missed :: "db \<Rightarrow> string \<Rightarrow> http_reply" where
  "get_missed s patient = missed_reply (Normal (find_missed_of s patient))"

text \<open>
  Lines 160--175: both sends inside one \<^verbatim>\<open>try\<close>; the catch answers 500 with the
  error, which \<^verbatim>\<open>JSON.stringify\<close> renders as \<^verbatim>\<open>{}\<close>.
\<close>

definition test_notification :: "'a runtime_scheme \<Rightarrow> jsval \<Rightarrow> outbox \<Rightarrow> http_reply \<times> outbox" where
  "test_notification e body ob =
     (let email = js_get body ''email''; phoneNumber = js_get body ''phoneNumber'';
          message = js_get body ''message'';
          (emailResponse, ob1) = sendEmail e email ''Test Subject'' message ob
      in case sendSMS e phoneNumber message ob1 of
           Thrown err \<Rightarrow>
             (Reply 500 (JObj [(''message'', JStr ''Error sending notifications''), (''error'', JObj [])]), ob1)
         | Normal (smsResponse, ob2) \<Rightarrow>
             (Reply 200 (JObj [(''emailResponse'', result_json emailResponse),
                               (''smsResponse'', result_json smsResponse),
                               (''message'', JStr ''Test notifications sent'')]), ob2))"

section \<open>Lemmas\<close>

lemmas query_defs [handler_defs] = get_slots_def missed_reply_def get_missed_def test_notification_def

text \<open>A 200 reply of the slot finder lists the ISO strings of the schedule's slots.\<close>

lemma get_slots_200:
  "get_slots s d = Reply 200 body \<Longrightarrow>
   \<exists>sch. find_schedule s d = Some sch \<and>
     body = JObj [(''availableSlots'', JArr (map (\<lambda>t. JStr (date_to_iso t)) (availableSlots sch)))]"
  by (auto simp: get_slots_def split: option.splits)

text \<open>
  The diagnostic endpoint always replies: a failing SMS client is caught by its
  \<^verbatim>\<open>try\<close> and answered 500, whereas the same failure rejects the tick.
\<close>

text \<open>
  C16: POST /api/test-notification always replies: 500 exactly when the SMS client cannot be constructed, 200 otherwise. It calls the e-mail provider once and then, if the SMS client can be constructed, the SMS provider once, and makes no other provider call.
\<close>

theorem test_notification_outcome:
  "((\<exists>b. fst (test_notification e body ob) = Reply 500 b) \<longleftrightarrow> \<not> sms_client_ok e) \<and>
   (\<exists>c b. fst (test_notification e body ob) = Reply c b \<and> (c = 200 \<or> c = 500)) \<and>
   map att_channel (snd (test_notification e body ob)) =
     map att_channel ob @ (if sms_client_ok e then [EmailChannel, SmsChannel] else [EmailChannel])"
  by (auto simp: test_notification_def sendSMS_def sendEmail_def Let_def split: prod.split)

end
