(* ===== verification/Server.thy ===== *)
theory Server
  imports Reconcile Rebook Queries
begin

text \<open>
  The Express application of \<^verbatim>\<open>src/backend/index.js\<close> as a request handler:
  the four routes registered at lines 103, 115, 140 and 160, matched in registration
  order the way Express 4 matches them (\<^verbatim>\<open>path-to-regexp\<close> with the default
  options: literal segments compared without regard to ASCII case, a \<^verbatim>\<open>:param\<close>
  matching one non-empty segment, one optional trailing slash), and the final handler's
  404 for a request that no route matches.  \<open>serve\<close> runs the handler of the matched
  route on the world (database and provider outbox); a handler whose promise is rejected
  sends nothing, since Express 4 does not catch the rejection of an \<^verbatim>\<open>async\<close>
  handler.  The body is the one \<^verbatim>\<open>bodyParser.json()\<close> (line 10) produced.
\<close>

section \<open>Requests and routes\<close>

datatype http_method = GET | POST

record request =
  req_method :: http_method
  req_path :: string
  req_body :: jsval

definition method_name :: "http_method \<Rightarrow> string" where
  "method_name m = (case m of GET \<Rightarrow> ''GET'' | POST \<Rightarrow> ''POST'')"

text \<open>A segment of a route path: a literal, or a named parameter \<^verbatim>\<open>:name\<close>.\<close>

datatype seg = Lit string | Param

datatype route = SlotsRoute string | RebookRoute | MissedRoute string | TestNotificationRoute

text \<open>The router's stack: method, path and the handler each registration names.\<close>

definition routes :: "(http_method \<times> seg list \<times> (string list \<Rightarrow> route)) list" where
  "routes =
     [(GET, [Lit [], Lit ''api'', Lit ''slots'', Param], \<lambda>ps. SlotsRoute (hd ps)),
      (POST, [Lit [], Lit ''api'', Lit ''rebook''], \<lambda>_. RebookRoute),
      (GET, [Lit [], Lit ''api'', Lit ''missedAppointments'', Param], \<lambda>ps. MissedRoute (hd ps)),
      (POST, [Lit [], Lit ''api'', Lit ''test-notification''], \<lambda>_. TestNotificationRoute)]"

section \<open>Matching a path\<close>

fun split_slash :: "string \<Rightarrow> string list" where
  "split_slash [] = [[]]"
| "split_slash (c # cs) =
     (let r = split_slash cs in if c = CHR ''/'' then [] # r else (c # hd r) # tl r)"

text \<open>The trailing \<^verbatim>\<open>\/?$\<close> of the compiled pattern: one final slash is ignored.\<close>

definition path_segments :: "string \<Rightarrow> string list" where
  "path_segments p =
     (let xs = split_slash p in if 1 < length xs \<and> last xs = [] then butlast xs else xs)"

text \<open>
  The pattern is compiled with the flag \<^verbatim>\<open>i\<close>; without the \<^verbatim>\<open>u\<close> flag only
  ASCII letters are identified with their other case.
\<close>

definition ascii_lower :: "char \<Rightarrow> char" where
  "ascii_lower c = (let n = of_char c :: nat in if 65 \<le> n \<and> n \<le> 90 then char_of (n + 32) else c)"

fun match_pattern :: "seg list \<Rightarrow> string list \<Rightarrow> string list option" where
  "match_pattern [] [] = Some []"
| "match_pattern (Lit l # ps) (x # xs) =
     (if map ascii_lower x = map ascii_lower l then match_pattern ps xs else None)"
| "match_pattern (Param # ps) (x # xs) =
     (if x = [] then None else map_option (Cons x) (match_pattern ps xs))"
| "match_pattern _ _ = None"

fun first_route :: "(http_method \<times> seg list \<times> (string list \<Rightarrow> route)) list \<Rightarrow> http_method \<Rightarrow>
                     string list \<Rightarrow> route option" where
  "first_route [] m xs = None"
| "first_route ((m', pat, mk) # rs) m xs =
     (case match_pattern pat xs of
        Some ps \<Rightarrow> if m' = m then Some (mk ps) else first_route rs m xs
      | None \<Rightarrow> first_route rs m xs)"

definition match_route :: "http_method \<Rightarrow> string \<Rightarrow> route option" where
  "match_route m p = first_route routes m (path_segments p)"

section \<open>Serving a request\<close>

text \<open>
  Express's final handler: 404 with an HTML page whose text is
  \<^verbatim>\<open>Cannot GET /path\<close>; the reply body is that text, not JSON.
\<close>

definition not_found :: "request \<Rightarrow> http_reply" where
  "not_found req = Reply 404 (JStr (''Cannot '' @ method_name (req_method req) @ '' '' @ req_path req))"

definition serve :: "'a runtime_scheme \<Rightarrow> request \<Rightarrow> world \<Rightarrow> http_reply option \<times> world" where
  "serve e req w =
     (case match_route (req_method req) (req_path req) of
        None \<Rightarrow> (Some (not_found req), w)
      | Some (SlotsRoute d) \<Rightarrow> (Some (get_slots (store w) d), w)
      | Some RebookRoute \<Rightarrow>
          (case rebook e (req_body req) (store w) of
             (Normal r, s') \<Rightarrow> (Some r, w\<lparr>store := s'\<rparr>)
           | (Thrown err, s') \<Rightarrow> (None, w\<lparr>store := s'\<rparr>))
      | Some (MissedRoute p) \<Rightarrow> (Some (get_missed (store w) p), w)
      | Some TestNotificationRoute \<Rightarrow>
          (case test_notification e (req_body req) (outbox w) of
             (r, ob) \<Rightarrow> (Some r, w\<lparr>outbox := ob\<rparr>)))"

section \<open>How a status may change\<close>

text \<open>
  The life cycle the code gives an appointment's status: the detector moves
  \<^verbatim>\<open>'scheduled'\<close> to \<^verbatim>\<open>'missed'\<close> (line 88), the rebook handler
  \<^verbatim>\<open>'missed'\<close> to \<^verbatim>\<open>'scheduled'\<close> (line 129); a document keeps its \<^verbatim>\<open>_id\<close>.
\<close>

definition status_move :: "appointment \<Rightarrow> appointment \<Rightarrow> bool" where
  "status_move a b \<longleftrightarrow> appt_id b = appt_id a \<and>
     (status b = status a \<or> (status a = ''scheduled'' \<and> status b = ''missed'') \<or>
      (status a = ''missed'' \<and> status b = ''scheduled''))"

section \<open>The shapes of the replies\<close>

text \<open>
  JSON types, and the status codes and body types each route answers with: the contract
  the page relies on when it reads \<^verbatim>\<open>response.data.availableSlots\<close> and
  \<^verbatim>\<open>response.data.message\<close>.  An object type lists the properties that must be
  present; an unmatched path gets Express's HTML text.
\<close>

datatype jtype = TAny | TBool | TStr | TArr jtype | TObj "(string \<times> jtype) list"

fun has_type :: "jtype \<Rightarrow> jsval \<Rightarrow> bool" where
  "has_type TAny v = True"
| "has_type TBool v = (case v of JBool b \<Rightarrow> True | _ \<Rightarrow> False)"
| "has_type TStr v = (case v of JStr s \<Rightarrow> True | _ \<Rightarrow> False)"
| "has_type (TArr t) v = (case v of JArr xs \<Rightarrow> (\<forall>x\<in>set xs. has_type t x) | _ \<Rightarrow> False)"
| "has_type (TObj fs) v =
     (case v of JObj kvs \<Rightarrow> (\<forall>kt\<in>set fs. has_type (snd kt) (js_get v (fst kt))) | _ \<Rightarrow> False)"

definition message_type :: jtype where
  "message_type = TObj [(''message'', TStr)]"

definition appointment_type :: jtype where
  "appointment_type = TObj [(''_id'', TStr), (''patientId'', TStr), (''doctorId'', TStr),
                            (''status'', TStr), (''notificationSent'', TBool)]"

definition result_type :: jtype where
  "result_type = TObj [(''status'', TStr), (''message'', TStr)]"

fun api_type :: "route option \<Rightarrow> nat \<Rightarrow> jtype option" where
  "api_type None c = (if c = 404 then Some TStr else None)"
| "api_type (Some (SlotsRoute d)) c =
     (if c = 200 then Some (TObj [(''availableSlots'', TArr TStr)])
      else if c = 404 then Some message_type else None)"
| "api_type (Some RebookRoute) c =
     (if c = 200 then Some (TObj [(''message'', TStr), (''appointment'', appointment_type)])
      else if c = 400 then Some message_type else None)"
| "api_type (Some (MissedRoute p)) c =
     (if c = 200 then Some (TObj [(''missedAppointments'', TArr appointment_type)])
      else if c = 404 \<or> c = 500 then Some message_type else None)"
| "api_type (Some TestNotificationRoute) c =
     (if c = 200 then Some (TObj [(''emailResponse'', result_type), (''smsResponse'', result_type),
                                  (''message'', TStr)])
      else if c = 500 then Some message_type else None)"

section \<open>Lemmas\<close>

lemmas server_defs [handler_defs] = serve_def match_route_def routes_def

lemma split_slash_nonempty [simp]: "split_slash s \<noteq> []"
  by (induction s) (auto simp: Let_def)

lemma split_slash_append_seg:
  "CHR ''/'' \<notin> set x \<Longrightarrow> split_slash (x @ rest) = (x @ hd (split_slash rest)) # tl (split_slash rest)"
  by (induction x) (auto simp: Let_def)

lemma split_slash_slash_prefix:
  "CHR ''/'' \<notin> set x \<Longrightarrow> split_slash (x @ CHR ''/'' # rest) = x # split_slash rest"
  using split_slash_append_seg[of x "CHR ''/'' # rest"] by (simp add: Let_def)

lemma split_slash_no_slash:
  "CHR ''/'' \<notin> set x \<Longrightarrow> split_slash x = [x]"
  using split_slash_append_seg[of x "[]"] by simp

lemma path_segments_under:
  assumes "CHR ''/'' \<notin> set d" "d \<noteq> []" "CHR ''/'' \<notin> set a" "CHR ''/'' \<notin> set b"
  shows "path_segments (CHR ''/'' # a @ CHR ''/'' # b @ CHR ''/'' # d) = [[], a, b, d]"
  using assms by (simp add: path_segments_def split_slash_slash_prefix split_slash_no_slash)

lemma first_route_GET:
  "first_route routes GET xs = Some r \<Longrightarrow> (\<exists>d. r = SlotsRoute d) \<or> (\<exists>p. r = MissedRoute p)"
  by (auto simp: routes_def split: option.splits if_splits)

lemma first_route_POST:
  "first_route routes POST xs = Some r \<Longrightarrow> r = RebookRoute \<or> r = TestNotificationRoute"
  by (auto simp: routes_def split: option.splits if_splits)

lemma serve_GET:
  "req_method req = GET \<Longrightarrow>
   serve e req w = (Some (case match_route GET (req_path req) of
                            Some (SlotsRoute d) \<Rightarrow> get_slots (store w) d
                          | Some (MissedRoute p) \<Rightarrow> get_missed (store w) p
                          | _ \<Rightarrow> not_found req), w)"
  using first_route_GET[of "path_segments (req_path req)"]
  by (auto simp: serve_def match_route_def split: option.splits route.splits)

lemma match_route_slots:
  "d \<noteq> [] \<Longrightarrow> CHR ''/'' \<notin> set d \<Longrightarrow> match_route GET (''/api/slots/'' @ d) = Some (SlotsRoute d)"
  using path_segments_under[of d "''api''" "''slots''"] by (simp add: match_route_def routes_def ascii_lower_def)

lemma path_segments_prefix:
  assumes "CHR ''/'' \<notin> set a" "CHR ''/'' \<notin> set b"
  shows "\<exists>zs. path_segments (CHR ''/'' # a @ CHR ''/'' # b @ CHR ''/'' # d) = [] # a # b # zs"
proof -
  have "split_slash (CHR ''/'' # a @ CHR ''/'' # b @ CHR ''/'' # d) = [] # a # b # split_slash d"
    using assms by (simp add: split_slash_slash_prefix Let_def)
  then show ?thesis by (auto simp: path_segments_def Let_def)
qed

lemma slots_request_route:
  "match_route GET (''/api/slots/'' @ d) = Some r \<Longrightarrow> \<exists>d'. r = SlotsRoute d'"
  using path_segments_prefix[of "''api''" "''slots''" d]
  by (auto simp: match_route_def routes_def ascii_lower_def split: option.splits if_splits)

lemma missed_route_roundtrip:
  assumes "p \<noteq> []" "CHR ''/'' \<notin> set p"
  shows "match_route GET (''/api/missedAppointments/'' @ p) = Some (MissedRoute p)"
  using assms path_segments_under[of p "''api''" "''missedAppointments''"]
  by (simp add: match_route_def routes_def ascii_lower_def)

lemma match_missed_noparam: "match_route GET ''/api/missedAppointments'' = None"
  by (simp add: match_route_def routes_def path_segments_def ascii_lower_def Let_def)

lemma match_slots_empty: "match_route GET ''/api/slots/'' = None"
  by (simp add: match_route_def routes_def path_segments_def ascii_lower_def Let_def)

text \<open>Route paths are matched without regard to ASCII case, and one trailing slash is ignored.\<close>

lemma match_route_case_insensitive: "match_route POST ''/API/Rebook/'' = Some RebookRoute"
  by code_simp

text \<open>
  The database changes only through \<^verbatim>\<open>POST /api/rebook\<close>; the diagnostic endpoint
  touches the outbox only.
\<close>

lemma serve_store:
  "store (snd (serve e req w)) =
   (if match_route (req_method req) (req_path req) = Some RebookRoute
    then snd (rebook e (req_body req) (store w)) else store w)"
  by (auto simp: serve_def split: option.splits route.splits prod.splits completion.splits)

lemma serve_wf: "wf_db (store w) \<Longrightarrow> wf_db (store (snd (serve e req w)))"
  by (auto simp: serve_store rebook_def Let_def rebooked_def intro!: wf_save_schedule wf_save_appointment
           split: completion.splits option.splits)

lemma serve_schedules:
  assumes "wf_db (store w)"
  shows "doctorSchedules (store (snd (serve e req w))) = doctorSchedules (store w)"
  using rebook_outcome[of e "req_body req" "store w"] rebook_saves(1)[OF assms] by (auto simp: serve_store)

lemma serve_ids: "map appt_id (appointments (store (snd (serve e req w)))) = map appt_id (appointments (store w))"
  by (simp add: serve_store rebook_ids)

text \<open>
  The detector saves only documents it found \<^verbatim>\<open>'scheduled'\<close>, the rebook handler only
  one it found \<^verbatim>\<open>'missed'\<close>: a document with any other status is left as it is.
\<close>

lemma tick_untouched:
  assumes "wf_db (store w)" "k < length (appointments (store w))" "status (appointments (store w) ! k) \<noteq> ''scheduled''"
  shows "k < length (appointments (store (fst (tick e now w)))) \<and>
         appointments (store (fst (tick e now w))) ! k = appointments (store w) ! k"
proof -
  let ?d = "appointments (store w) ! k"
  have ids: "appt_id ?d \<noteq> appt_id a" if "a \<in> set (find_overdue (now - GRACE_PERIOD) (store w))" for a
    using that assms wf_same_id[OF assms(1), of a ?d] by (auto simp: find_overdue_iff overdue_def)
  show ?thesis
    unfolding tick_def
    by (rule process_missed_store_inv[where P = "\<lambda>s. k < length (appointments s) \<and> appointments s ! k = ?d"])
       (auto simp: save_appointment_other assms(2) ids)
qed

lemma serve_untouched:
  assumes "wf_db (store w)" "k < length (appointments (store w))" "status (appointments (store w) ! k) \<noteq> ''missed''"
  shows "k < length (appointments (store (snd (serve e req w)))) \<and>
         appointments (store (snd (serve e req w))) ! k = appointments (store w) ! k"
proof -
  let ?s = "store w" and ?b = "req_body req"
  let ?d = "appointments ?s ! k"
  have "appointments (snd (rebook e ?b ?s)) ! k = ?d"
  proof (cases "\<exists>b. fst (rebook e ?b ?s) = Normal (Reply 200 b)")
    case True
    then obtain b where "fst (rebook e ?b ?s) = Normal (Reply 200 b)" by blast
    from rebook_reply_200[OF this] obtain a :: appointment and sch :: doctor_schedule and t
      where fa: "find_by_id e ?s (js_get ?b ''appointmentId'') = Normal (Some a)"
      and st: "status a = ''missed''"
      and r: "snd (rebook e ?b ?s) = save_schedule (sched_id sch) (\<lambda>x. x\<lparr>availableSlots := availableSlots sch\<rparr>)
                   (save_appointment (appt_id a) (rebooked t) ?s)"
      by blast
    have "appt_id ?d \<noteq> appt_id a"
      using wf_same_id[OF assms(1), of ?d a] find_by_id_Some[OF fa] assms(2,3) st by auto
    then show ?thesis using r assms(2) by (simp add: save_appointment_other)
  next
    case False
    then have "snd (rebook e ?b ?s) = ?s" using rebook_outcome[of e ?b ?s] by blast
    then show ?thesis by simp
  qed
  moreover have "length (appointments (snd (rebook e ?b ?s))) = length (appointments ?s)"
    using rebook_ids[of e ?b ?s, THEN arg_cong[where f = length]] by simp
  ultimately show ?thesis using assms(2) by (simp add: serve_store)
qed

text \<open>
  C18: GET /api/slots/ followed by a non-empty doctor id without a slash (the URL the page builds in fetchAvailableSlots) is answered by the slot finder for exactly that doctor id, and changes nothing.
\<close>

theorem slots_request_served:
  "d \<noteq> [] \<Longrightarrow> CHR ''/'' \<notin> set d \<Longrightarrow>
   serve e \<lparr>req_method = GET, req_path = ''/api/slots/'' @ d, req_body = b\<rparr> w = (Some (get_slots (store w) d), w)"
  using match_route_slots[of d] by (simp add: serve_def)

text \<open>A save that sets one allowed status on the documents of one id keeps every status move allowed.\<close>

lemma save_appointment_moves:
  assumes all: "list_all2 status_move xs0 (appointments s)"
    and fid: "\<And>c. appt_id (f c) = appt_id c" and fst: "\<And>c. status (f c) = st'"
    and allowed: "\<And>b. b \<in> set xs0 \<Longrightarrow> appt_id b = i \<Longrightarrow> status b = st' \<or>
                     (status b = ''scheduled'' \<and> st' = ''missed'') \<or> (status b = ''missed'' \<and> st' = ''scheduled'')"
  shows "list_all2 status_move xs0 (appointments (save_appointment i f s))"
  unfolding list_all2_conv_all_nth
proof (intro conjI allI impI)
  show "length xs0 = length (appointments (save_appointment i f s))"
    using all by (simp add: list_all2_lengthD)
next
  fix k assume k: "k < length xs0"
  let ?c = "appointments s ! k"
  have m: "status_move (xs0 ! k) ?c" using all k by (simp add: list_all2_conv_all_nth)
  have kl: "k < length (appointments s)" using all k by (simp add: list_all2_lengthD)
  from nth_update_first_cases[OF kl, of "\<lambda>a. appt_id a = i" f]
  show "status_move (xs0 ! k) (appointments (save_appointment i f s) ! k)"
  proof
    assume "update_first (\<lambda>a. appt_id a = i) f (appointments s) ! k = ?c"
    with m show ?thesis by (simp add: save_appointment_def)
  next
    assume u: "appt_id ?c = i \<and> update_first (\<lambda>a. appt_id a = i) f (appointments s) ! k = f ?c"
    have id: "appt_id (xs0 ! k) = i" using m u by (simp add: status_move_def)
    have "status (xs0 ! k) = st' \<or>
          (status (xs0 ! k) = ''scheduled'' \<and> st' = ''missed'') \<or> (status (xs0 ! k) = ''missed'' \<and> st' = ''scheduled'')"
      using allowed[OF nth_mem[OF k] id] .
    then show ?thesis using u id fid[of ?c] fst[of ?c] by (auto simp: save_appointment_def status_move_def)
  qed
qed

lemma status_move_refl [simp]: "status_move a a"
  by (simp add: status_move_def)

lemma tick_status_moves:
  assumes "wf_db (store w)"
  shows "list_all2 status_move (appointments (store w)) (appointments (store (fst (tick e now w))))"
proof -
  let ?xs = "appointments (store w)"
  have allowed: "status b = ''scheduled''"
    if "a \<in> set (find_overdue (now - GRACE_PERIOD) (store w))" "b \<in> set ?xs" "appt_id b = appt_id a" for a b
    using that wf_same_id[OF assms, of b a] by (auto simp: find_overdue_iff overdue_def)
  show ?thesis
    unfolding tick_def
  proof (rule process_missed_store_inv[where P = "\<lambda>s. list_all2 status_move ?xs (appointments s)"])
    fix s :: db and a
    assume a: "a \<in> set (find_overdue (now - GRACE_PERIOD) (store w))"
      and p: "list_all2 status_move ?xs (appointments s)"
    show "list_all2 status_move ?xs (appointments (save_appointment (appt_id a) (\<lambda>b. b\<lparr>status := ''missed''\<rparr>) s))"
      by (rule save_appointment_moves[OF p, where st' = "''missed''"]) (auto dest: allowed[OF a])
  qed (simp add: list_all2_refl)
qed

lemma serve_status_moves:
  assumes "wf_db (store w)"
  shows "list_all2 status_move (appointments (store w)) (appointments (store (snd (serve e req w))))"
proof -
  let ?s = "store w" and ?b = "req_body req"
  let ?xs = "appointments ?s"
  have "list_all2 status_move ?xs (appointments (snd (rebook e ?b ?s)))"
  proof (cases "\<exists>b. fst (rebook e ?b ?s) = Normal (Reply 200 b)")
    case True
    then obtain b where "fst (rebook e ?b ?s) = Normal (Reply 200 b)" by blast
    from rebook_reply_200[OF this] obtain a :: appointment and sch :: doctor_schedule and t
      where fa: "find_by_id e ?s (js_get ?b ''appointmentId'') = Normal (Some a)"
      and st: "status a = ''missed''"
      and r: "snd (rebook e ?b ?s) = save_schedule (sched_id sch) (\<lambda>x. x\<lparr>availableSlots := availableSlots sch\<rparr>)
                   (save_appointment (appt_id a) (rebooked t) ?s)"
      by blast
    have allowed: "status c = ''missed''" if "c \<in> set ?xs" "appt_id c = appt_id a" for c
      using that wf_same_id[OF assms, of c a] find_by_id_Some[OF fa] st by auto
    have "list_all2 status_move ?xs (appointments (save_appointment (appt_id a) (rebooked t) ?s))"
      by (rule save_appointment_moves[where st' = "''scheduled''"])
         (auto simp: list_all2_refl rebooked_def dest: allowed)
    then show ?thesis using r by simp
  next
    case False
    then have "snd (rebook e ?b ?s) = ?s" using rebook_outcome[of e ?b ?s] by blast
    then show ?thesis by (simp add: list_all2_refl)
  qed
  then show ?thesis by (simp add: serve_store list_all2_refl)
qed

text \<open>
  The success branch of the handler, read forwards: a missed appointment, its doctor's
  schedule, an offered slot sent as its \<^verbatim>\<open>toString\<close> rendering that the host parses
  back, and both saves run.
\<close>

lemma rebook_accepts:
  assumes "find_by_id e s (js_get body ''appointmentId'') = Normal (Some a)" "status a = ''missed''"
    and "find_schedule s (doctorId a) = Some sch" "t \<in> set (availableSlots sch)"
    and "js_get body ''newSlot'' = JStr (date_to_string e t)" "date_parse e (date_to_string e t) = Some t"
  shows "\<exists>b. rebook e body s = (Normal (Reply 200 b),
           save_schedule (sched_id sch) (\<lambda>x. x\<lparr>availableSlots := availableSlots sch\<rparr>)
             (save_appointment (appt_id a) (rebooked t) s))"
proof -
  have "mongoose_includes e (availableSlots sch) (js_get body ''newSlot'')"
    using assms(4,5) by (auto simp: mongoose_includes_iff date_loose_eq_iff)
  then show ?thesis using assms by (simp add: rebook_def Let_def)
qed

text \<open>
  C35: The rebook handler does not check that the new slot lies in the future: rebooking a missed appointment to a slot its doctor offers that lies more than the grace period in the past is accepted with 200, the rebooked appointment is at once overdue, and the next tick marks it missed again.
\<close>

theorem rebook_past_slot_missed_again:
  assumes "wf_db s" "sms_client_ok e"
    and "find_by_id e s (js_get body ''appointmentId'') = Normal (Some a)" "status a = ''missed''"
    and "find_schedule s (doctorId a) = Some sch" "t \<in> set (availableSlots sch)"
    and "js_get body ''newSlot'' = JStr (date_to_string e t)" "date_parse e (date_to_string e t) = Some t"
    and "t < now - GRACE_PERIOD"
  shows "(\<exists>b. fst (rebook e body s) = Normal (Reply 200 b)) \<and>
         rebooked t a \<in> set (find_overdue (now - GRACE_PERIOD) (snd (rebook e body s))) \<and>
         mark_missed (rebooked t a) \<in>
           set (appointments (store (fst (tick e now \<lparr>store = snd (rebook e body s), outbox = ob\<rparr>))))"
proof -
  obtain b where rb: "rebook e body s = (Normal (Reply 200 b),
           save_schedule (sched_id sch) (\<lambda>x. x\<lparr>availableSlots := availableSlots sch\<rparr>)
             (save_appointment (appt_id a) (rebooked t) s))"
    using rebook_accepts[OF assms(3-8)] by blast
  let ?s' = "snd (rebook e body s)"
  have s': "?s' = save_schedule (sched_id sch) (\<lambda>x. x\<lparr>availableSlots := availableSlots sch\<rparr>)
                   (save_appointment (appt_id a) (rebooked t) s)"
    using rb by simp
  have wf1: "wf_db (save_appointment (appt_id a) (rebooked t) s)"
    using assms(1) by (rule wf_save_appointment) (simp add: rebooked_def)
  have wf': "wf_db ?s'" using wf1 s' by (simp add: wf_save_schedule)
  have mem: "a \<in> set (appointments s)" using find_by_id_Some[OF assms(3)] by simp
  have app': "appointments ?s' = map (\<lambda>x. if appt_id x = appt_id a then rebooked t x else x) (appointments s)"
    using s' assms(1) by (simp add: appointments_save_wf save_schedule_def)
  have in': "rebooked t a \<in> set (appointments ?s')"
    using app' mem by (auto intro: rev_image_eqI)
  have od: "rebooked t a \<in> set (find_overdue (now - GRACE_PERIOD) ?s')"
    using in' assms(9) by (simp add: find_overdue_iff overdue_def rebooked_def)
  let ?w = "\<lparr>store = ?s', outbox = ob\<rparr>"
  have "appointments (store (fst (tick e now ?w))) =
        mark_ids (appt_id ` set (find_overdue (now - GRACE_PERIOD) ?s')) (appointments ?s')"
    using process_missed_ok[of ?w e "find_overdue (now - GRACE_PERIOD) ?s'"] wf' assms(2) by (simp add: tick_def)
  moreover have "appt_id (rebooked t a) \<in> appt_id ` set (find_overdue (now - GRACE_PERIOD) ?s')"
    using od by blast
  ultimately have "mark_missed (rebooked t a) \<in> set (appointments (store (fst (tick e now ?w))))"
    using in' by (auto simp: mark_ids_def intro: rev_image_eqI)
  with od rb show ?thesis by simp
qed

lemma has_type_appointment_json [simp]: "has_type appointment_type (appointment_json a)"
  by (simp add: appointment_type_def appointment_json_def split: option.split)

lemma rebook_replies:
  "fst (rebook e body s) = Normal r \<Longrightarrow>
   r = invalid_appointment_reply \<or> r = slot_unavailable_reply \<or>
   (\<exists>a. r = Reply 200 (JObj [(''message'', JStr ''Appointment rescheduled successfully''), (''appointment'', appointment_json a)]))"
  by (auto simp: rebook_def Let_def split: completion.splits option.splits if_splits)

text \<open>
  C26: Every reply the server sends carries a status code that its route declares and a body of the JSON type declared for that code: the slot finder answers 200 with an array of strings under availableSlots or 404 with a message, the rebook handler 200 with a message and the appointment object or 400 with a message, the missed finder 200, 404 or 500, the test endpoint 200 or 500, and an unmatched path 404 with Express's text.
\<close>

theorem replies_well_typed:
  assumes "fst (serve e req w) = Some (Reply c b)"
  shows "\<exists>T. api_type (match_route (req_method req) (req_path req)) c = Some T \<and> has_type T b"
proof (cases "match_route (req_method req) (req_path req)")
  case None
  then show ?thesis using assms by (auto simp: serve_def not_found_def)
next
  case (Some r)
  show ?thesis
  proof (cases r)
    case (SlotsRoute d)
    then show ?thesis using assms Some
      by (auto simp: serve_def get_slots_def message_type_def split: option.splits)
  next
    case RebookRoute
    then obtain r' where "fst (rebook e (req_body req) (store w)) = Normal (Reply c b)"
      using assms Some by (auto simp: serve_def split: prod.splits completion.splits)
    from rebook_replies[OF this] show ?thesis using Some RebookRoute
      by (auto simp: invalid_appointment_reply_def slot_unavailable_reply_def message_type_def)
  next
    case (MissedRoute p)
    then show ?thesis using assms Some
      by (auto simp: serve_def get_missed_def missed_reply_def message_type_def split: if_splits)
  next
    case TestNotificationRoute
    then show ?thesis using assms Some
      by (auto simp: serve_def test_notification_def message_type_def result_type_def result_json_def Let_def
               split: prod.splits completion.splits)
  qed
qed

end
