(* ===== verification/App.thy ===== *)
theory App
  imports Server
begin

text \<open>
  The React page of \<^verbatim>\<open>src/frontend/src/App.js\<close> against the server of
  \<open>Server\<close>.  The six \<^verbatim>\<open>useState\<close> hooks (lines 5--10) are the fields of
  \<open>app_state\<close>, with the alerts shown so far; the handlers \<^verbatim>\<open>fetchAvailableSlots\<close>,
  \<^verbatim>\<open>fetchMissedAppointments\<close>, \<^verbatim>\<open>handleRebooking\<close> and
  \<^verbatim>\<open>handleDoctorChange\<close> (lines 21--65) take the page state and the server's world
  to the next ones, each axios request being served by \<open>serve\<close> when it is sent.
  What a user can do on the rendered page (lines 115--202) is \<open>ui_enabled\<close>, and
  \<open>page_system\<close> interleaves those events with runs of the server's timer and with
  requests of any other client.
\<close>

section \<open>The JavaScript the page relies on\<close>

text \<open>\<^verbatim>\<open>ToBoolean\<close> (the time value \<open>NaN\<close> does not arise in these values).\<close>

fun js_truthy :: "jsval \<Rightarrow> bool" where
  "js_truthy JUndef = False"
| "js_truthy JNull = False"
| "js_truthy (JBool b) = b"
| "js_truthy (JNum n) = (n \<noteq> 0)"
| "js_truthy (JStr s) = (s \<noteq> [])"
| "js_truthy (JArr xs) = True"
| "js_truthy (JObj kvs) = True"

definition js_or :: "jsval \<Rightarrow> jsval \<Rightarrow> jsval" where
  "js_or a b = (if js_truthy a then a else b)"

text \<open>\<^verbatim>\<open>v.k\<close>: reading a property of \<^verbatim>\<open>undefined\<close> or \<^verbatim>\<open>null\<close> throws.\<close>

fun js_member :: "jsval \<Rightarrow> string \<Rightarrow> jsval completion" where
  "js_member JUndef k = Thrown TypeError"
| "js_member JNull k = Thrown TypeError"
| "js_member v k = Normal (js_get v k)"

text \<open>\<^verbatim>\<open>v.length\<close> of a value the page holds.\<close>

fun js_length :: "jsval \<Rightarrow> jsval" where
  "js_length (JArr xs) = JNum (int (length xs))"
| "js_length (JStr s) = JNum (int (length s))"
| "js_length _ = JUndef"

section \<open>Page state\<close>

record app_state =
  doctors :: "(string \<times> string) list"
  selectedDoctor :: string
  ui_availableSlots :: jsval
  missedAppointments :: jsval
  ui_newSlot :: string
  appointmentId :: jsval
  alerts :: "string list"

text \<open>The state after the first render and the mount effect of lines 13--18.\<close>

definition app_init :: app_state where
  "app_init =
     \<lparr>doctors = [(''doc1'', ''Dr. Smith''), (''doc2'', ''Dr. Johnson'')], selectedDoctor = [],
      ui_availableSlots = JArr [], missedAppointments = JArr [], ui_newSlot = [],
      appointmentId = JStr [], alerts = []\<rparr>"

section \<open>Requests\<close>

text \<open>
  An axios request to \<^verbatim>\<open>http://localhost:3030\<close> (the port of line 178): a reply
  with a status in 200--299 resolves with its body, any other reply rejects with it in
  \<^verbatim>\<open>error.response.data\<close>, and a request the server never answers leaves the
  promise pending.
\<close>

datatype axios_outcome = Resolved jsval | Rejected jsval | Pending

definition axios_request :: "'a runtime_scheme \<Rightarrow> request \<Rightarrow> world \<Rightarrow> axios_outcome \<times> world" where
  "axios_request e req w =
     (case serve e req w of
        (None, w') \<Rightarrow> (Pending, w')
      | (Some (Reply code data), w') \<Rightarrow>
          (if 200 \<le> code \<and> code < 300 then Resolved data else Rejected data, w'))"

definition get_request :: "string \<Rightarrow> request" where
  "get_request p = \<lparr>req_method = GET, req_path = p, req_body = JObj []\<rparr>"

section \<open>Handlers\<close>

text \<open>Lines 21--28; a failure is only logged.\<close>

definition fetchAvailableSlots :: "'a runtime_scheme \<Rightarrow> string \<Rightarrow> app_state \<times> world \<Rightarrow> app_state \<times> world" where
  "fetchAvailableSlots e d sw =
     (case sw of (st, w) \<Rightarrow>
       (case axios_request e (get_request (''/api/slots/'' @ d)) w of
          (Resolved data, w') \<Rightarrow>
            (case js_member data ''availableSlots'' of
               Normal v \<Rightarrow> (st\<lparr>ui_availableSlots := js_or v (JArr [])\<rparr>, w')
             | Thrown err \<Rightarrow> (st, w'))
        | (_, w') \<Rightarrow> (st, w')))"

text \<open>Lines 31--38: the request names no patient.\<close>

definition fetchMissedAppointments :: "'a runtime_scheme \<Rightarrow> app_state \<times> world \<Rightarrow> app_state \<times> world" where
  "fetchMissedAppointments e sw =
     (case sw of (st, w) \<Rightarrow>
       (case axios_request e (get_request ''/api/missedAppointments'') w of
          (Resolved data, w') \<Rightarrow> (st\<lparr>missedAppointments := js_or data (JArr [])\<rparr>, w')
        | (_, w') \<Rightarrow> (st, w')))"

text \<open>Line 57: \<^verbatim>\<open>error.response?.data?.message || "Error during rebooking."\<close>.\<close>

definition rebook_error_message :: "jsval option \<Rightarrow> string" where
  "rebook_error_message r =
     (let m = (case r of None \<Rightarrow> JUndef | Some JUndef \<Rightarrow> JUndef | Some JNull \<Rightarrow> JUndef
                | Some data \<Rightarrow> js_get data ''message'')
      in if js_truthy m then js_to_string m else ''Error during rebooking.'')"

text \<open>
  Lines 41--59.  The two refreshes of lines 53--54 are not awaited; both requests are
  sent at once and their replies applied in the order the requests were sent.
\<close>

definition handleRebooking :: "'a runtime_scheme \<Rightarrow> app_state \<times> world \<Rightarrow> app_state \<times> world" where
  "handleRebooking e sw =
     (case sw of (st, w) \<Rightarrow>
       if \<not> js_truthy (appointmentId st) \<or> ui_newSlot st = []
       then (st\<lparr>alerts := alerts st @ [''Select an appointment and slot for rebooking!'']\<rparr>, w)
       else
         (case axios_request e
                 \<lparr>req_method = POST, req_path = ''/api/rebook'',
                  req_body = JObj [(''appointmentId'', appointmentId st), (''newSlot'', JStr (ui_newSlot st))]\<rparr> w of
            (Resolved data, w1) \<Rightarrow>
              (case js_member data ''message'' of
                 Thrown err \<Rightarrow> (st\<lparr>alerts := alerts st @ [rebook_error_message None]\<rparr>, w1)
               | Normal m \<Rightarrow>
                   fetchAvailableSlots e (selectedDoctor st)
                     (fetchMissedAppointments e (st\<lparr>alerts := alerts st @ [js_to_string m]\<rparr>, w1)))
          | (Rejected data, w1) \<Rightarrow> (st\<lparr>alerts := alerts st @ [rebook_error_message (Some data)]\<rparr>, w1)
          | (Pending, w1) \<Rightarrow> (st, w1)))"

text \<open>Lines 62--65.\<close>

definition handleDoctorChange :: "'a runtime_scheme \<Rightarrow> string \<Rightarrow> app_state \<times> world \<Rightarrow> app_state \<times> world" where
  "handleDoctorChange e d sw = (case sw of (st, w) \<Rightarrow> fetchAvailableSlots e d (st\<lparr>selectedDoctor := d\<rparr>, w))"

section \<open>The rendered page\<close>

text \<open>The values of the slot options (lines 190--194).\<close>

definition slot_options :: "app_state \<Rightarrow> string list" where
  "slot_options st = (case ui_availableSlots st of JArr xs \<Rightarrow> map js_to_string xs | _ \<Rightarrow> [])"

text \<open>
  The \<^verbatim>\<open>_id\<close>s behind the Select buttons (lines 155--172): a list is rendered
  only when \<^verbatim>\<open>missedAppointments.length\<close> is truthy.
\<close>

definition select_buttons :: "app_state \<Rightarrow> jsval list" where
  "select_buttons st =
     (if js_truthy (js_length (missedAppointments st))
      then (case missedAppointments st of JArr xs \<Rightarrow> map (\<lambda>a. js_get a ''_id'') xs | _ \<Rightarrow> [])
      else [])"

datatype ui_event = ChangeDoctor string | ChangeSlot string | ClickSelect jsval | ClickRebook

fun ui_enabled :: "app_state \<Rightarrow> ui_event \<Rightarrow> bool" where
  "ui_enabled st (ChangeDoctor d) = (d \<in> set ([] # map fst (doctors st)))"
| "ui_enabled st (ChangeSlot v) =
     (js_truthy (js_length (ui_availableSlots st)) \<and> v \<in> set ([] # slot_options st))"
| "ui_enabled st (ClickSelect i) = (i \<in> set (select_buttons st))"
| "ui_enabled st ClickRebook = True"

fun ui_step :: "'a runtime_scheme \<Rightarrow> ui_event \<Rightarrow> app_state \<times> world \<Rightarrow> app_state \<times> world" where
  "ui_step e (ChangeDoctor d) sw = handleDoctorChange e d sw"
| "ui_step e (ChangeSlot v) (st, w) = (st\<lparr>ui_newSlot := v\<rparr>, w)"
| "ui_step e (ClickSelect i) (st, w) = (st\<lparr>appointmentId := i\<rparr>, w)"
| "ui_step e ClickRebook sw = handleRebooking e sw"

section \<open>The page beside the server\<close>

text \<open>
  From a world \<open>w0\<close> and the freshly mounted page: user events the page enables, runs of
  the timer at any time, and requests of any other client of the API, in any order.
\<close>

inductive page_system :: "'a runtime_scheme \<Rightarrow> world \<Rightarrow> app_state \<times> world \<Rightarrow> bool"
  for e :: "'a runtime_scheme" and w0 :: world where
  start: "page_system e w0 (app_init, w0)"
| ui: "page_system e w0 (st, w) \<Longrightarrow> ui_enabled st ev \<Longrightarrow> page_system e w0 (ui_step e ev (st, w))"
| timer: "page_system e w0 (st, w) \<Longrightarrow> page_system e w0 (st, fst (tick e now w))"
| client: "page_system e w0 (st, w) \<Longrightarrow> page_system e w0 (st, snd (serve e req w))"

section \<open>The page's invariant\<close>

text \<open>The value \<^verbatim>\<open>res.json\<close> gives an array of stored slots (see \<open>get_slots\<close>).\<close>

definition iso_slots :: "time_ms list \<Rightarrow> jsval" where
  "iso_slots ts = JArr (map (\<lambda>t. JStr (date_to_iso t)) ts)"

text \<open>
  What holds of the page in every reachable state: no missed appointment is listed, none
  is selected, the slot list is the ISO rendering of some slots and the chosen slot is
  empty or one of them.
\<close>

definition page_inv :: "app_state \<Rightarrow> bool" where
  "page_inv st \<longleftrightarrow> missedAppointments st = JArr [] \<and> appointmentId st = JStr [] \<and>
     (\<exists>ts. ui_availableSlots st = iso_slots ts) \<and> (ui_newSlot st = [] \<or> (\<exists>t. ui_newSlot st = date_to_iso t))"

section \<open>Lemmas\<close>

text \<open>The request of \<^verbatim>\<open>fetchMissedAppointments\<close> matches no route, so it changes nothing.\<close>

lemma fetchMissedAppointments_noop [simp]: "fetchMissedAppointments e (st, w) = (st, w)"
  by (simp add: fetchMissedAppointments_def axios_request_def get_request_def serve_GET
                match_missed_noparam not_found_def)

lemma fetchAvailableSlots_route:
  "match_route GET (''/api/slots/'' @ d) = Some (SlotsRoute d') \<Longrightarrow>
   fetchAvailableSlots e d (st, w) =
     (case find_schedule (store w) d' of
        None \<Rightarrow> (st, w)
      | Some sch \<Rightarrow> (st\<lparr>ui_availableSlots := iso_slots (availableSlots sch)\<rparr>, w))"
  by (auto simp: fetchAvailableSlots_def axios_request_def serve_GET get_request_def get_slots_def
                 js_or_def iso_slots_def split: option.splits)

lemma fetchAvailableSlots_unrouted:
  "match_route GET (''/api/slots/'' @ d) = None \<Longrightarrow> fetchAvailableSlots e d (st, w) = (st, w)"
  by (simp add: fetchAvailableSlots_def axios_request_def serve_GET get_request_def not_found_def)

lemma fetchAvailableSlots_cases:
  "fetchAvailableSlots e d (st, w) = (st, w) \<or>
   (\<exists>sch :: doctor_schedule. fetchAvailableSlots e d (st, w) = (st\<lparr>ui_availableSlots := iso_slots (availableSlots sch)\<rparr>, w))"
proof (cases "match_route GET (''/api/slots/'' @ d)")
  case None
  then show ?thesis by (simp add: fetchAvailableSlots_unrouted)
next
  case (Some r)
  then obtain d' where "r = SlotsRoute d'" using slots_request_route by blast
  with Some show ?thesis by (auto simp: fetchAvailableSlots_route split: option.splits)
qed

lemma page_inv_init: "page_inv app_init"
  unfolding page_inv_def app_init_def iso_slots_def by (auto intro: exI[of _ "[]"])

lemma handleRebooking_unselected:
  "appointmentId st = JStr [] \<Longrightarrow>
   handleRebooking e (st, w) = (st\<lparr>alerts := alerts st @ [''Select an appointment and slot for rebooking!'']\<rparr>, w)"
  by (simp add: handleRebooking_def)

lemma handleDoctorChange_cases:
  "handleDoctorChange e d (st, w) = (st\<lparr>selectedDoctor := d\<rparr>, w) \<or>
   (\<exists>sch :: doctor_schedule. handleDoctorChange e d (st, w) =
      (st\<lparr>selectedDoctor := d, ui_availableSlots := iso_slots (availableSlots sch)\<rparr>, w))"
  using fetchAvailableSlots_cases[of e d "st\<lparr>selectedDoctor := d\<rparr>" w] by (simp add: handleDoctorChange_def)

lemma slot_options_iso: "ui_availableSlots st = iso_slots ts \<Longrightarrow> slot_options st = map date_to_iso ts"
  by (simp add: slot_options_def iso_slots_def)

text \<open>Every event the page enables keeps the invariant and leaves the server's world alone.\<close>

lemma ui_step_inv:
  assumes "page_inv st" "ui_enabled st ev"
  shows "page_inv (fst (ui_step e ev (st, w))) \<and> snd (ui_step e ev (st, w)) = w"
proof (cases ev)
  case (ChangeDoctor d)
  then show ?thesis using assms(1) handleDoctorChange_cases[of e d st w] by (auto simp: page_inv_def)
next
  case (ChangeSlot v)
  then show ?thesis using assms by (auto simp: page_inv_def slot_options_iso)
next
  case (ClickSelect i)
  then show ?thesis using assms by (simp add: page_inv_def select_buttons_def)
next
  case ClickRebook
  then show ?thesis using assms by (simp add: page_inv_def handleRebooking_unselected)
qed

lemma page_system_inv: "page_system e w0 sw \<Longrightarrow> page_inv (fst sw)"
proof (induction rule: page_system.induct)
  case start
  then show ?case by (simp add: page_inv_init)
next
  case (ui st w ev)
  then show ?case using ui_step_inv[of st ev e w] by simp
qed simp_all

lemma page_system_ui_world: "page_system e w0 (st, w) \<Longrightarrow> ui_enabled st ev \<Longrightarrow> snd (ui_step e ev (st, w)) = w"
  using page_system_inv[of e w0 "(st, w)"] ui_step_inv by auto

lemma get_missed_resolves:
  "get_missed s p = Reply 200 data \<Longrightarrow> \<exists>xs. data = JObj [(''missedAppointments'', JArr xs)]"
  by (auto simp: get_missed_def missed_reply_def split: if_splits)

text \<open>
  C20: In every state the page reaches, interleaved with timer runs and other clients in any order, its list of missed appointments is empty and no appointment is selected: fetchMissedAppointments requests /api/missedAppointments, which no route matches.
\<close>

theorem page_never_lists_missed:
  "page_system e w0 (st, w) \<Longrightarrow> missedAppointments st = JArr [] \<and> appointmentId st = JStr []"
  using page_system_inv[of e w0 "(st, w)"] by (simp add: page_inv_def)

text \<open>
  C21: An appointment that is neither 'scheduled' nor 'missed' (completed, cancelled, ...) is never changed by any interleaving of page events, timer runs and requests of any client: the detector only saves documents it found scheduled, the rebook handler only one it found missed.
\<close>

theorem page_system_untouched:
  assumes "page_system e w0 sw" "wf_db (store w0)" "k < length (appointments (store w0))"
    and "status (appointments (store w0) ! k) \<noteq> ''scheduled''" "status (appointments (store w0) ! k) \<noteq> ''missed''"
  shows "appointments (store (snd sw)) ! k = appointments (store w0) ! k"
proof -
  let ?d = "appointments (store w0) ! k"
  have "wf_db (store (snd sw)) \<and> k < length (appointments (store (snd sw))) \<and> appointments (store (snd sw)) ! k = ?d"
    using assms(1)
  proof (induction rule: page_system.induct)
    case start
    then show ?case using assms(2,3) by simp
  next
    case (ui st w ev)
    then show ?case by (simp add: page_system_ui_world)
  next
    case (timer st w now)
    then show ?case using tick_untouched[of w k e now] assms(4) by (simp add: tick_def wf_process_missed)
  next
    case (client st w req)
    then show ?case using serve_untouched[of w k e req] assms(5) by (simp add: serve_wf)
  qed
  then show ?thesis by simp
qed

text \<open>
  C22: In every reachable state the Rebook button only shows the alert 'Select an appointment and slot for rebooking!' and sends no request.
\<close>

theorem page_rebook_button:
  "page_system e w0 (st, w) \<Longrightarrow>
   ui_step e ClickRebook (st, w) = (st\<lparr>alerts := alerts st @ [''Select an appointment and slot for rebooking!'']\<rparr>, w)"
  using page_system_inv[of e w0 "(st, w)"] by (simp add: page_inv_def handleRebooking_unselected)

text \<open>
  C23: The slot the page lets the user choose (an ISO string from /api/slots, or empty) is never accepted by POST /api/rebook, whatever appointment id and database it is sent with.
\<close>

theorem page_slot_never_accepted:
  assumes "page_system e w0 (st, w)"
  shows "fst (rebook e' (JObj [(''appointmentId'', i), (''newSlot'', JStr (ui_newSlot st))]) s) \<noteq> Normal (Reply 200 b)"
proof
  assume "fst (rebook e' (JObj [(''appointmentId'', i), (''newSlot'', JStr (ui_newSlot st))]) s) = Normal (Reply 200 b)"
  from rebook_reply_200[OF this] obtain t0 where "ui_newSlot st = date_to_string e' t0" by auto
  moreover have "ui_newSlot st = [] \<or> (\<exists>t. ui_newSlot st = date_to_iso t)"
    using page_system_inv[OF assms] by (simp add: page_inv_def)
  ultimately show False using date_to_string_nonempty date_to_iso_neq_date_to_string by metis
qed

text \<open>
  C25: Choosing an entry of the doctor select requests that doctor's slots: for a doctor with a schedule the page shows the ISO strings of its slots; for the placeholder '--Select Doctor--' (path /api/slots/, which no route matches) or a doctor without a schedule (a 404) it keeps showing the slots of the previously selected doctor.
\<close>

theorem change_doctor:
  "CHR ''/'' \<notin> set d \<Longrightarrow>
   ui_step e (ChangeDoctor d) (st, w) =
     (case (if d = [] then None else find_schedule (store w) d) of
        None \<Rightarrow> (st\<lparr>selectedDoctor := d\<rparr>, w)
      | Some sch \<Rightarrow> (st\<lparr>selectedDoctor := d, ui_availableSlots := iso_slots (availableSlots sch)\<rparr>, w))"
proof (cases "d = []")
  case True
  then show ?thesis by (simp add: handleDoctorChange_def fetchAvailableSlots_unrouted match_slots_empty)
next
  case False
  assume "CHR ''/'' \<notin> set d"
  with False show ?thesis
    by (simp add: handleDoctorChange_def fetchAvailableSlots_route[OF match_route_slots] split: option.split)
qed

text \<open>
  C27: A 200 reply of GET /api/missedAppointments/:patientId is an object {missedAppointments: [...]}; stored as the page's missedAppointments it has no length, so the page would render no Select button even if it requested that route.
\<close>

theorem missed_reply_renders_nothing:
  "get_missed s p = Reply 200 b \<Longrightarrow> select_buttons (st\<lparr>missedAppointments := js_or b (JArr [])\<rparr>) = []"
  by (auto simp: select_buttons_def js_or_def dest!: get_missed_resolves)

lemma page_system_wf: "page_system e w0 sw \<Longrightarrow> wf_db (store w0) \<Longrightarrow> wf_db (store (snd sw))"
  by (induction rule: page_system.induct) (simp_all add: page_system_ui_world tick_def wf_process_missed serve_wf)

text \<open>
  C28: However page events, timer runs and requests of any client interleave, from a store with unique _ids the _ids stay unique, no doctor's schedule ever changes (a slot, once offered, stays offered) and no appointment is added, removed or renamed.
\<close>

theorem page_system_store:
  assumes "page_system e w0 sw" "wf_db (store w0)"
  shows "wf_db (store (snd sw)) \<and> doctorSchedules (store (snd sw)) = doctorSchedules (store w0) \<and>
         map appt_id (appointments (store (snd sw))) = map appt_id (appointments (store w0))"
  using assms
proof (induction rule: page_system.induct)
  case (client st w req)
  then show ?case using page_system_wf[OF client.hyps(1)] by (simp add: serve_wf serve_schedules serve_ids)
next
  case (timer st w now)
  then show ?case using tick_schedules[of e now w] tick_ids[of e now w] wf_process_missed[of w e]
    by (simp add: tick_def)
qed (simp_all add: page_system_ui_world)

end
