(* ===== verification/Concurrency.thy ===== *)
theory Concurrency
  imports Server
begin

text \<open>
  The handlers of \<^verbatim>\<open>src/backend/index.js\<close> cut at their \<^verbatim>\<open>await\<close>s, so that
  requests and timer runs interleave the way Node runs them.  \<^verbatim>\<open>POST /api/rebook\<close>
  reads and checks (lines 116--127: \<^verbatim>\<open>findById\<close>, \<^verbatim>\<open>findOne\<close>,
  \<^verbatim>\<open>includes\<close>, \<^verbatim>\<open>new Date\<close>) and then writes (lines 128--136: the two
  \<^verbatim>\<open>save\<close>s and the reply); a timer run queries once (lines 82--85) and then handles
  one appointment per loop iteration (lines 87--99).  \<open>conc_step\<close> lets any pending
  write or loop iteration run between the steps of other requests.  Each read phase, each
  write phase and each iteration is one step, so the relation has fewer interleavings than
  Node; \<open>Await\<close> cuts the same handlers at every await and shows that nothing is lost.
  A timer run queries at any time \<open>now\<close>: the spacing of the runs by the interval is
  the subject of \<open>Timer\<close>, not of this theory.
\<close>

section \<open>The rebook handler at its awaits\<close>

text \<open>
  The outcome of the read phase: a reply (or exception) with nothing written, or the
  writes still to do: the appointment document as loaded and its new time, the schedule
  document as loaded and the slot list computed from it, and the reply.  An invalid
  \<^verbatim>\<open>Date\<close> is rejected by the validation of the first \<^verbatim>\<open>save\<close>, before
  anything is written.
\<close>

datatype rb_phase =
    RbDone "http_reply completion"
  | RbWrite appointment time_ms doctor_schedule "time_ms list" http_reply

definition rebook_read :: "'a store_env_scheme \<Rightarrow> jsval \<Rightarrow> db \<Rightarrow> rb_phase" where
  "rebook_read e body s =
     (let appointmentId = js_get body ''appointmentId''; newSlot = js_get body ''newSlot'' in
      case find_by_id e s appointmentId of
        Thrown err \<Rightarrow> RbDone (Thrown err)
      | Normal None \<Rightarrow> RbDone (Normal invalid_appointment_reply)
      | Normal (Some appointment) \<Rightarrow>
          (if status appointment \<noteq> ''missed'' then RbDone (Normal invalid_appointment_reply)
           else
             (case find_schedule s (doctorId appointment) of
                None \<Rightarrow> RbDone (Thrown TypeError)
              | Some doctorSchedule \<Rightarrow>
                  (if \<not> mongoose_includes e (availableSlots doctorSchedule) newSlot
                   then RbDone (Normal slot_unavailable_reply)
                   else
                     (case js_new_date e newSlot of
                        None \<Rightarrow> RbDone (Thrown ValidationError)
                      | Some t \<Rightarrow>
                          RbWrite appointment t doctorSchedule
                            (filter (\<lambda>slot. date_strict_neq slot newSlot) (availableSlots doctorSchedule))
                            (Reply 200 (JObj
                               [(''message'', JStr ''Appointment rescheduled successfully''),
                                (''appointment'', appointment_json (rebooked t appointment))])))))))"

text \<open>
  Lines 128--130: the assignments mark a path modified only when the new value differs
  from the loaded one (Mongoose compares with \<open>deepEqual\<close>, two Dates by their time
  values), and \<^verbatim>\<open>save\<close> \<^verbatim>\<open>$set\<close>s the modified paths on the document with
  the same \<^verbatim>\<open>_id\<close> as it is at the time of the write.  \<open>a\<close> is the document as
  loaded, \<open>b\<close> as stored when the save runs.
\<close>

definition rebook_set :: "appointment \<Rightarrow> time_ms \<Rightarrow> appointment \<Rightarrow> appointment" where
  "rebook_set a t b =
     b\<lparr>scheduledTime := (if scheduledTime a = Some t then scheduledTime b else Some t),
       status := (if status a = ''scheduled'' then status b else ''scheduled'')\<rparr>"

text \<open>
  Lines 128--134: the two saves.  The schedule's save writes the filtered list only if it
  differs from the loaded one: a save with no modified path writes nothing.
\<close>

definition rebook_write :: "appointment \<Rightarrow> time_ms \<Rightarrow> doctor_schedule \<Rightarrow> time_ms list \<Rightarrow> db \<Rightarrow> db" where
  "rebook_write a t sch slots s =
     (let s1 = save_appointment (appt_id a) (rebook_set a t) s
      in if slots = availableSlots sch then s1
         else save_schedule (sched_id sch) (\<lambda>x. x\<lparr>availableSlots := slots\<rparr>) s1)"

section \<open>A timer run at its awaits\<close>

text \<open>One iteration of the loop of lines 87--99.\<close>

definition missed_step :: "'a runtime_scheme \<Rightarrow> appointment \<Rightarrow> world \<Rightarrow> run" where
  "missed_step e a w =
     notify_patient e a (w\<lparr>store := save_appointment (appt_id a) (\<lambda>b. b\<lparr>status := ''missed''\<rparr>) (store w)\<rparr>)"

section \<open>The server with requests in flight\<close>

text \<open>
  A job is a rebook waiting to write, or a timer run with the appointments of its query
  still to handle.  \<open>sent\<close> lists the outcomes of the rebook requests in the order they
  were answered.
\<close>

datatype job = RebookJob appointment time_ms doctor_schedule "time_ms list" http_reply | TickJob "appointment list"

record server =
  srv_world :: world
  jobs :: "job list"
  sent :: "http_reply completion list"

definition remove_nth :: "nat \<Rightarrow> 'a list \<Rightarrow> 'a list" where
  "remove_nth k xs = take k xs @ drop (Suc k) xs"

definition server_of :: "world \<Rightarrow> server" where
  "server_of w = \<lparr>srv_world = w, jobs = [], sent = []\<rparr>"

text \<open>
  The steps that only advance work already in flight: a pending rebook writes, or a
  pending timer run handles its next appointment (or ends).  No request arrives and no
  timer run starts.
\<close>

inductive drain_step :: "'a runtime_scheme \<Rightarrow> server \<Rightarrow> server \<Rightarrow> bool" for e :: "'a runtime_scheme" where
  rebook_write:
    "k < length (jobs S) \<Longrightarrow> jobs S ! k = RebookJob i t sid sl r \<Longrightarrow>
     drain_step e S (S\<lparr>srv_world := (srv_world S)\<lparr>store := rebook_write i t sid sl (store (srv_world S))\<rparr>,
                       jobs := remove_nth k (jobs S), sent := sent S @ [Normal r]\<rparr>)"
| tick_next:
    "k < length (jobs S) \<Longrightarrow> jobs S ! k = TickJob (a # as) \<Longrightarrow> missed_step e a (srv_world S) = (w', None) \<Longrightarrow>
     drain_step e S (S\<lparr>srv_world := w', jobs := (jobs S)[k := TickJob as]\<rparr>)"
| tick_fail:
    "k < length (jobs S) \<Longrightarrow> jobs S ! k = TickJob (a # as) \<Longrightarrow> missed_step e a (srv_world S) = (w', Some err) \<Longrightarrow>
     drain_step e S (S\<lparr>srv_world := w', jobs := remove_nth k (jobs S)\<rparr>)"
| tick_end:
    "k < length (jobs S) \<Longrightarrow> jobs S ! k = TickJob [] \<Longrightarrow> drain_step e S (S\<lparr>jobs := remove_nth k (jobs S)\<rparr>)"

text \<open>
  A step of the server: a rebook request runs its read phase (answering at once or
  leaving its writes pending), a timer run queries, another request is served in one
  step, or work in flight advances.
\<close>

inductive conc_step :: "'a runtime_scheme \<Rightarrow> server \<Rightarrow> server \<Rightarrow> bool" for e :: "'a runtime_scheme" where
  rebook_done:
    "rebook_read e body (store (srv_world S)) = RbDone r \<Longrightarrow>
     conc_step e S (S\<lparr>sent := sent S @ [r]\<rparr>)"
| rebook_read:
    "rebook_read e body (store (srv_world S)) = RbWrite i t sid sl r \<Longrightarrow>
     conc_step e S (S\<lparr>jobs := jobs S @ [RebookJob i t sid sl r]\<rparr>)"
| tick_query:
    "conc_step e S (S\<lparr>jobs := jobs S @ [TickJob (find_overdue (now - GRACE_PERIOD) (store (srv_world S)))]\<rparr>)"
| other:
    "match_route (req_method req) (req_path req) \<noteq> Some RebookRoute \<Longrightarrow>
     conc_step e S (S\<lparr>srv_world := snd (serve e req (srv_world S))\<rparr>)"
| drain: "drain_step e S S' \<Longrightarrow> conc_step e S S'"

text \<open>
  What a pending job may assume: a rebook waiting to write computed a slot list equal to
  the one it loaded (the filter of line 133 removes nothing), so its second save writes
  nothing.
\<close>

fun job_ok :: "job \<Rightarrow> bool" where
  "job_ok (RebookJob a t sch sl r) = (sl = availableSlots sch)"
| "job_ok (TickJob as) = True"

definition conc_inv :: "db \<Rightarrow> server \<Rightarrow> bool" where
  "conc_inv s0 S \<longleftrightarrow>
     wf_db (store (srv_world S)) \<and> doctorSchedules (store (srv_world S)) = doctorSchedules s0 \<and>
     map appt_id (appointments (store (srv_world S))) = map appt_id (appointments s0) \<and>
     (\<forall>j\<in>set (jobs S). job_ok j)"

text \<open>
  What a pending job may assume of the statuses: the documents it will save are still
  \<^verbatim>\<open>'scheduled'\<close> or \<^verbatim>\<open>'missed'\<close> (a rebook read its document missed, a timer
  run its documents scheduled, and both statuses only move between the two).  A pending
  rebook loaded its document missed, so its save sets the status.
\<close>

definition live_id :: "db \<Rightarrow> oid \<Rightarrow> bool" where
  "live_id s i \<longleftrightarrow> (\<forall>b\<in>set (appointments s). appt_id b = i \<longrightarrow> status b = ''scheduled'' \<or> status b = ''missed'')"

fun job_live :: "db \<Rightarrow> job \<Rightarrow> bool" where
  "job_live s (RebookJob a t sch sl r) = (status a = ''missed'' \<and> live_id s (appt_id a))"
| "job_live s (TickJob as) = (\<forall>a\<in>set as. live_id s (appt_id a))"

definition status_inv :: "server \<Rightarrow> bool" where
  "status_inv S \<longleftrightarrow> (\<forall>j\<in>set (jobs S). job_live (store (srv_world S)) j)"

section \<open>Lemmas\<close>

lemmas conc_rebook_write = drain_step.rebook_write[THEN conc_step.drain]
lemmas conc_tick_next = drain_step.tick_next[THEN conc_step.drain]
lemmas conc_tick_end = drain_step.tick_end[THEN conc_step.drain]

subsection \<open>Saves\<close>

text \<open>A save through an id changes only the first document with that id.\<close>

lemma update_first_cong: "find P xs = Some x \<Longrightarrow> f x = g x \<Longrightarrow> update_first P f xs = update_first P g xs"
  by (induction xs) (auto split: if_split_asm)

lemma save_appointment_cong:
  assumes "find (\<lambda>b. appt_id b = i) (appointments s) = Some x" "f x = g x"
  shows "save_appointment i f s = save_appointment i g s"
  using update_first_cong[where P = "\<lambda>b. appt_id b = i" and f = f and g = g, OF assms]
  by (simp add: save_appointment_def)

lemma find_save_appointment:
  assumes "wf_db s" "find (\<lambda>b. appt_id b = i) (appointments s) = Some b" "\<And>x. appt_id (f x) = appt_id x"
  shows "find (\<lambda>b. appt_id b = i) (appointments (save_appointment i f s)) = Some (f b)"
proof -
  have "appt_id b = i" using assms(2) by (auto dest: find_Some_iff[THEN iffD1])
  moreover have "(\<lambda>x. appt_id x = i) \<circ> (\<lambda>x. if appt_id x = i then f x else x) = (\<lambda>x. appt_id x = i)"
    using assms(3) by (auto simp: fun_eq_iff)
  ultimately show ?thesis using assms(1,2) by (simp add: appointments_save_wf find_map_option)
qed

text \<open>Saving a schedule with the slot list it has changes nothing, on a store with unique ids.\<close>

lemma save_schedule_noop:
  assumes "wf_db s" "sch \<in> set (doctorSchedules s)"
  shows "save_schedule (sched_id sch) (\<lambda>x. x\<lparr>availableSlots := availableSlots sch\<rparr>) s = s"
  using save_schedule_same_slots[OF assms] by (simp add: save_schedule_def)

text \<open>On the document as loaded, the paths the rebook modifies are the fields it assigns.\<close>

lemma rebook_set_loaded: "rebook_set a t a = rebooked t a"
  by (auto simp: rebook_set_def rebooked_def)

lemma rebook_set_id [simp]: "appt_id (rebook_set a t b) = appt_id b"
  by (simp add: rebook_set_def)

subsection \<open>The two phases of a rebook\<close>

lemma rebook_read_write:
  assumes "rebook_read e body s = RbWrite a t sch sl r"
  shows "(\<exists>b. r = Reply 200 b) \<and> sch \<in> set (doctorSchedules s) \<and> sl = availableSlots sch \<and>
         find_by_id e s (js_get body ''appointmentId'') = Normal (Some a) \<and> status a = ''missed'' \<and>
         find (\<lambda>b. appt_id b = appt_id a) (appointments s) = Some a"
  using assms
  by (auto simp: rebook_read_def Let_def find_by_id_def split: completion.splits option.splits if_splits
           id_cast.splits dest!: find_schedule_Some dest: find_Some_iff[THEN iffD1])

lemma rebook_read_atomic:
  "rebook_read e body s = RbWrite a t sch sl r \<Longrightarrow>
   rebook e body s = (Normal r, save_schedule (sched_id sch) (\<lambda>x. x\<lparr>availableSlots := sl\<rparr>)
                                  (save_appointment (appt_id a) (rebooked t) s))"
  by (auto simp: rebook_def rebook_read_def Let_def split: completion.splits option.splits if_splits)

lemma rebook_write_ok: "rebook_write a t sch (availableSlots sch) s = save_appointment (appt_id a) (rebook_set a t) s"
  by (simp add: rebook_write_def)

text \<open>
  A read phase that leaves writes to do stands for a 200 run of the atomic handler: on
  the store it read, the loaded document is the stored one, so the modified paths are
  all the atomic handler writes, and its schedule save writes back what is stored.
\<close>

lemma rebook_read_RbWrite:
  assumes "wf_db s" "rebook_read e body s = RbWrite a t sch sl r"
  shows "rebook e body s = (Normal r, rebook_write a t sch sl s)"
proof -
  have rw: "sch \<in> set (doctorSchedules s)" "sl = availableSlots sch"
    "find (\<lambda>b. appt_id b = appt_id a) (appointments s) = Some a"
    using rebook_read_write[OF assms(2)] by blast+
  let ?s1 = "save_appointment (appt_id a) (rebooked t) s"
  have s1: "?s1 = save_appointment (appt_id a) (rebook_set a t) s"
    by (rule save_appointment_cong[OF rw(3)]) (simp add: rebook_set_loaded)
  have wf1: "wf_db ?s1" using assms(1) by (rule wf_save_appointment) (simp add: rebooked_def)
  have "save_schedule (sched_id sch) (\<lambda>x. x\<lparr>availableSlots := sl\<rparr>) ?s1 = ?s1"
    using save_schedule_noop[OF wf1] rw(1,2) by simp
  then show ?thesis using rebook_read_atomic[OF assms(2)] s1 rw(2) by (simp add: rebook_write_ok)
qed

lemma process_missed_step:
  "process_missed e (a # as) w =
     (case missed_step e a w of (w2, None) \<Rightarrow> process_missed e as w2 | (w2, Some err) \<Rightarrow> (w2, Some err))"
  by (simp add: missed_step_def)

lemma rebook_write_wf: "wf_db s \<Longrightarrow> wf_db (rebook_write a t sch sl s)"
  by (simp add: rebook_write_def Let_def wf_save_appointment wf_save_schedule)

lemma rebook_write_ids: "map appt_id (appointments (rebook_write a t sch sl s)) = map appt_id (appointments s)"
  by (simp add: rebook_write_def Let_def save_schedule_def)

lemma missed_step_store:
  "store (fst (missed_step e a w)) = save_appointment (appt_id a) (\<lambda>b. b\<lparr>status := ''missed''\<rparr>) (store w)"
  by (simp add: missed_step_def)

lemma set_remove_nth: "set (remove_nth k xs) \<subseteq> set xs"
  by (auto simp: remove_nth_def dest: in_set_takeD in_set_dropD)

subsection \<open>The store invariant\<close>

lemma conc_inv_init: "wf_db (store w) \<Longrightarrow> conc_inv (store w) (server_of w)"
  by (simp add: conc_inv_def server_of_def)

lemma drain_inv_step:
  assumes "drain_step e S S'" "conc_inv s0 S"
  shows "conc_inv s0 S'"
  using assms
proof (induction rule: drain_step.induct)
  case (rebook_write k S a t sch sl r)
  let ?s = "store (srv_world S)"
  have "job_ok (RebookJob a t sch sl r)"
    using rebook_write.hyps rebook_write.prems nth_mem unfolding conc_inv_def by metis
  then have w: "rebook_write a t sch sl ?s = save_appointment (appt_id a) (rebook_set a t) ?s"
    by (simp add: rebook_write_ok)
  have wf: "wf_db ?s" using rebook_write.prems by (simp add: conc_inv_def)
  show ?case
    using rebook_write.prems set_remove_nth[of k "jobs S"] rebook_write_wf[OF wf, of a t sch sl]
      rebook_write_ids[of a t sch sl ?s] w
    by (auto simp: conc_inv_def)
next
  case (tick_next k S a as w')
  then show ?case using missed_step_store[of e a "srv_world S"] set_update_subset_insert[of "jobs S" k]
    by (fastforce simp: conc_inv_def wf_mark)
next
  case (tick_fail k S a as w' err)
  then show ?case using missed_step_store[of e a "srv_world S"] set_remove_nth[of k "jobs S"]
    by (auto simp: conc_inv_def wf_mark)
next
  case (tick_end k S)
  then show ?case using set_remove_nth[of k "jobs S"] by (auto simp: conc_inv_def)
qed

lemma conc_inv_step:
  assumes "conc_step e S S'" "conc_inv s0 S"
  shows "conc_inv s0 S'"
  using assms
proof (induction rule: conc_step.induct)
  case (rebook_done body S r)
  then show ?case by (simp add: conc_inv_def)
next
  case (rebook_read body S a t sch sl r)
  then show ?case using rebook_read_write[OF rebook_read.hyps] by (auto simp: conc_inv_def)
next
  case (tick_query S now)
  then show ?case by (simp add: conc_inv_def)
next
  case (other req S)
  then show ?case by (simp add: conc_inv_def serve_store)
next
  case (drain S S')
  then show ?case by (rule drain_inv_step)
qed

text \<open>The invariant holds along every run from a server with nothing in flight.\<close>

lemma conc_inv_reach: "(conc_step e)\<^sup>*\<^sup>* S0 S \<Longrightarrow> conc_inv s0 S0 \<Longrightarrow> conc_inv s0 S"
  by (induction rule: rtranclp_induct) (auto intro: conc_inv_step)

subsection \<open>Timer runs\<close>

lemma missed_step_ok:
  assumes "sms_client_ok e"
  shows "snd (missed_step e a w) = None \<and>
         store (fst (missed_step e a w)) = save_appointment (appt_id a) (\<lambda>b. b\<lparr>status := ''missed''\<rparr>) (store w) \<and>
         map notice_of (outbox (fst (missed_step e a w))) = map notice_of (outbox w) @ expected_notices e (store w) a"
  using notify_patient_ok[OF assms, of a "w\<lparr>store := save_appointment (appt_id a) (\<lambda>b. b\<lparr>status := ''missed''\<rparr>) (store w)\<rparr>"]
  by (simp add: missed_step_def)

lemma find_overdue_after_mark:
  assumes "wf_db s" "find_overdue c s = [a]"
  shows "find_overdue c (save_appointment (appt_id a) (\<lambda>b. b\<lparr>status := ''missed''\<rparr>) s) = []"
proof -
  have "b = a" if "b \<in> set (appointments s)" "overdue c b" for b
  proof -
    have "b \<in> set (find_overdue c s)" using that by (simp add: find_overdue_iff)
    with assms(2) show ?thesis by simp
  qed
  then show ?thesis
    using assms(1) by (auto simp: find_overdue_def appointments_save_wf filter_empty_conv overdue_def)
qed

text \<open>
  C31: However the read and write phases of rebook requests, the loop iterations of overlapping timer runs and other requests interleave, the _ids stay unique, no doctor's schedule ever changes, and no appointment is added or removed.
\<close>

theorem conc_store_invariant:
  assumes "(conc_step e)\<^sup>*\<^sup>* (server_of w0) S" "wf_db (store w0)"
  shows "wf_db (store (srv_world S)) \<and> doctorSchedules (store (srv_world S)) = doctorSchedules (store w0) \<and>
         map appt_id (appointments (store (srv_world S))) = map appt_id (appointments (store w0))"
  using conc_inv_reach[OF assms(1) conc_inv_init[OF assms(2)]] by (simp add: conc_inv_def)

text \<open>
  C32: Two rebook requests for the same missed appointment that both read before either writes both get a 200 reply. The later save decides the appointment's time unless its slot is the time the appointment had when both requests loaded it: Mongoose then finds scheduledTime unmodified and does not write it, so the earlier slot stays. Run one after the other, the second request would be refused with 400.
\<close>

theorem concurrent_rebooks_both_succeed:
  assumes "wf_db (store w)"
    and r1: "rebook_read e b1 (store w) = RbWrite a t1 sch1 sl1 r1"
    and r2: "rebook_read e b2 (store w) = RbWrite a t2 sch2 sl2 r2"
  shows "(\<exists>S'. (conc_step e)\<^sup>*\<^sup>* (server_of w) S' \<and> jobs S' = [] \<and> sent S' = [Normal r1, Normal r2] \<and>
            (\<exists>c1 c2. r1 = Reply 200 c1 \<and> r2 = Reply 200 c2) \<and>
            map_option scheduledTime (find (\<lambda>b. appt_id b = appt_id a) (appointments (store (srv_world S')))) =
              Some (Some (if scheduledTime a = Some t2 then t1 else t2))) \<and>
         fst (rebook e b2 (snd (rebook e b1 (store w)))) = Normal invalid_appointment_reply"
proof -
  have sl1: "sl1 = availableSlots sch1" and sa: "status a = ''missed''"
    and fi: "find (\<lambda>b. appt_id b = appt_id a) (appointments (store w)) = Some a" and c1: "\<exists>c. r1 = Reply 200 c"
    using rebook_read_write[OF r1] by blast+
  have sl2: "sl2 = availableSlots sch2" and c2: "\<exists>c. r2 = Reply 200 c"
    and fa2: "find_by_id e (store w) (js_get b2 ''appointmentId'') = Normal (Some a)"
    using rebook_read_write[OF r2] by blast+
  let ?J1 = "RebookJob a t1 sch1 sl1 r1" and ?J2 = "RebookJob a t2 sch2 sl2 r2"
  let ?s1 = "rebook_write a t1 sch1 sl1 (store w)"
  let ?S1 = "(server_of w)\<lparr>jobs := [?J1]\<rparr>"
  let ?S2 = "(server_of w)\<lparr>jobs := [?J1, ?J2]\<rparr>"
  let ?S3 = "\<lparr>srv_world = w\<lparr>store := ?s1\<rparr>, jobs = [?J2], sent = [Normal r1]\<rparr>"
  let ?S4 = "\<lparr>srv_world = w\<lparr>store := rebook_write a t2 sch2 sl2 ?s1\<rparr>, jobs = [], sent = [Normal r1, Normal r2]\<rparr>"
  have "conc_step e (server_of w) ?S1"
    using conc_step.rebook_read[of e b1 "server_of w"] r1 by (simp add: server_of_def)
  moreover have "conc_step e ?S1 ?S2"
    using conc_step.rebook_read[of e b2 ?S1] r2 by (simp add: server_of_def)
  moreover have "conc_step e ?S2 ?S3"
    using conc_rebook_write[where e = e and k = 0 and S = ?S2] by (simp add: server_of_def remove_nth_def)
  moreover have "conc_step e ?S3 ?S4"
    using conc_rebook_write[where e = e and k = 0 and S = ?S3] by (simp add: remove_nth_def)
  ultimately have run: "(conc_step e)\<^sup>*\<^sup>* (server_of w) ?S4" by (meson rtranclp.rtrancl_into_rtrancl rtranclp.rtrancl_refl)
  have s1: "?s1 = save_appointment (appt_id a) (rebook_set a t1) (store w)" using sl1 by (simp add: rebook_write_ok)
  have f1: "find (\<lambda>b. appt_id b = appt_id a) (appointments ?s1) = Some (rebook_set a t1 a)"
    unfolding s1 by (rule find_save_appointment[OF assms(1) fi]) simp
  have wf1: "wf_db ?s1" using assms(1) by (rule rebook_write_wf)
  have "find (\<lambda>b. appt_id b = appt_id a) (appointments (rebook_write a t2 sch2 sl2 ?s1)) =
        Some (rebook_set a t2 (rebook_set a t1 a))"
    using sl2 find_save_appointment[OF wf1 f1, of "rebook_set a t2"] by (simp add: rebook_write_ok)
  then have last: "map_option scheduledTime (find (\<lambda>b. appt_id b = appt_id a) (appointments (store (srv_world ?S4)))) =
                   Some (Some (if scheduledTime a = Some t2 then t1 else t2))"
    by (auto simp: rebook_set_def)
  have x: "cast_oid e (js_get b2 ''appointmentId'') = CastId (appt_id a)" using find_by_id_Some[OF fa2] by simp
  have "find_by_id e ?s1 (js_get b2 ''appointmentId'') = Normal (Some (rebook_set a t1 a))"
    using x f1 by (simp add: find_by_id_def)
  then have "fst (rebook e b2 ?s1) = Normal invalid_appointment_reply"
    using sa by (simp add: rebook_def rebook_set_def)
  moreover have "snd (rebook e b1 (store w)) = ?s1" using rebook_read_RbWrite[OF assms(1) r1] by simp
  ultimately show ?thesis using run last c1 c2 by auto
qed

text \<open>
  C33: Two timer runs, at times at which the overdue query returns the same appointment, that both query before either handles it notify its patient twice; had the first run finished before the second queried, the patient would be notified once.
\<close>

theorem overlapping_ticks_notify_twice:
  assumes "wf_db (store w)" "sms_client_ok e"
    and "find_overdue (now1 - GRACE_PERIOD) (store w) = [a]" "find_overdue (now2 - GRACE_PERIOD) (store w) = [a]"
  shows "(\<exists>S'. (conc_step e)\<^sup>*\<^sup>* (server_of w) S' \<and> jobs S' = [] \<and>
            map notice_of (outbox (srv_world S')) =
              map notice_of (outbox w) @ expected_notices e (store w) a @ expected_notices e (store w) a) \<and>
         map notice_of (outbox (fst (tick e now2 (fst (tick e now1 w))))) =
           map notice_of (outbox w) @ expected_notices e (store w) a"
proof -
  obtain w1 where m1: "missed_step e a w = (w1, None)"
    using missed_step_ok[OF assms(2), of a w] by (cases "missed_step e a w") auto
  obtain w2 where m2: "missed_step e a w1 = (w2, None)"
    using missed_step_ok[OF assms(2), of a w1] by (cases "missed_step e a w1") auto
  let ?S1 = "(server_of w)\<lparr>jobs := [TickJob [a]]\<rparr>"
  let ?S2 = "(server_of w)\<lparr>jobs := [TickJob [a], TickJob [a]]\<rparr>"
  let ?S3 = "\<lparr>srv_world = w1, jobs = [TickJob [], TickJob [a]], sent = []\<rparr>"
  let ?S4 = "\<lparr>srv_world = w2, jobs = [TickJob [], TickJob []], sent = []\<rparr>"
  let ?S5 = "\<lparr>srv_world = w2, jobs = [TickJob []], sent = []\<rparr>"
  let ?S6 = "\<lparr>srv_world = w2, jobs = [], sent = []\<rparr>"
  have "conc_step e (server_of w) ?S1"
    using conc_step.tick_query[of e "server_of w" now1] assms(3) by (simp add: server_of_def)
  moreover have "conc_step e ?S1 ?S2"
    using conc_step.tick_query[of e ?S1 now2] assms(4) by (simp add: server_of_def)
  moreover have "conc_step e ?S2 ?S3"
    using conc_tick_next[where e = e and k = 0 and S = ?S2 and a = a and as = "[]" and w' = w1] m1 by (simp add: server_of_def)
  moreover have "conc_step e ?S3 ?S4"
    using conc_tick_next[where e = e and k = 1 and S = ?S3 and a = a and as = "[]" and w' = w2] m2 by simp
  moreover have "conc_step e ?S4 ?S5"
    using conc_tick_end[where e = e and k = 0 and S = ?S4] by (simp add: remove_nth_def)
  moreover have "conc_step e ?S5 ?S6"
    using conc_tick_end[where e = e and k = 0 and S = ?S5] by (simp add: remove_nth_def)
  ultimately have run: "(conc_step e)\<^sup>*\<^sup>* (server_of w) ?S6"
    by (meson rtranclp.rtrancl_into_rtrancl rtranclp.rtrancl_refl)
  have o2: "map notice_of (outbox w2) =
            map notice_of (outbox w) @ expected_notices e (store w) a @ expected_notices e (store w) a"
    using missed_step_ok[OF assms(2), of a w] missed_step_ok[OF assms(2), of a w1] m1 m2 by simp
  have t1: "tick e now1 w = (w1, None)"
    by (simp only: tick_def assms(3) process_missed_step m1) simp
  have "find_overdue (now2 - GRACE_PERIOD) (store w1) = []"
    using find_overdue_after_mark[OF assms(1,4)] missed_step_ok[OF assms(2), of a w] m1 by simp
  then have "tick e now2 w1 = (w1, None)" by (simp add: tick_def)
  then show ?thesis using run o2 t1 missed_step_ok[OF assms(2), of a w] m1 by auto
qed

section \<open>How statuses move under interleaving\<close>

lemma live_id_moves:
  assumes "list_all2 status_move (appointments s) (appointments s')" "live_id s i"
  shows "live_id s' i"
  unfolding live_id_def
proof (intro ballI impI)
  fix b assume b: "b \<in> set (appointments s')" "appt_id b = i"
  then obtain k where k: "k < length (appointments s')" "appointments s' ! k = b" by (auto simp: in_set_conv_nth)
  have kl: "k < length (appointments s)" using k assms(1) by (simp add: list_all2_lengthD)
  have m: "status_move (appointments s ! k) b" using assms(1) k kl by (auto simp: list_all2_conv_all_nth)
  then have "appt_id (appointments s ! k) = i" using b by (simp add: status_move_def)
  then have "status (appointments s ! k) = ''scheduled'' \<or> status (appointments s ! k) = ''missed''"
    using assms(2) nth_mem[OF kl] by (simp add: live_id_def)
  then show "status b = ''scheduled'' \<or> status b = ''missed''" using m by (auto simp: status_move_def)
qed

lemma job_live_moves:
  "list_all2 status_move (appointments s) (appointments s') \<Longrightarrow> job_live s j \<Longrightarrow> job_live s' j"
  by (cases j) (auto intro: live_id_moves)

lemma rebook_write_moves:
  assumes "status a = ''missed''" "live_id s (appt_id a)"
  shows "list_all2 status_move (appointments s) (appointments (rebook_write a t sch sl s))"
proof -
  have "list_all2 status_move (appointments s) (appointments (save_appointment (appt_id a) (rebook_set a t) s))"
    by (rule save_appointment_moves[where st' = "''scheduled''"])
       (use assms in \<open>auto simp: list_all2_refl rebook_set_def live_id_def\<close>)
  then show ?thesis by (simp add: rebook_write_def Let_def save_schedule_def)
qed

lemma missed_step_moves:
  assumes "live_id (store w) (appt_id a)"
  shows "list_all2 status_move (appointments (store w)) (appointments (store (fst (missed_step e a w))))"
  unfolding missed_step_store
  by (rule save_appointment_moves[where st' = "''missed''"])
     (use assms in \<open>auto simp: list_all2_refl live_id_def\<close>)

lemma drain_step_moves:
  "drain_step e S S' \<Longrightarrow> status_inv S \<Longrightarrow>
   list_all2 status_move (appointments (store (srv_world S))) (appointments (store (srv_world S'))) \<and> status_inv S'"
proof (induction rule: drain_step.induct)
  case (rebook_write k S a t sch sl r)
  let ?s = "store (srv_world S)"
  have "status a = ''missed''" "live_id ?s (appt_id a)"
    using rebook_write.prems rebook_write.hyps nth_mem[OF rebook_write.hyps(1)]
    unfolding status_inv_def by fastforce+
  note m = rebook_write_moves[OF this, of t sch sl]
  then show ?case using rebook_write.prems set_remove_nth[of k "jobs S"]
    by (auto simp: status_inv_def intro: job_live_moves)
next
  case (tick_next k S a as w')
  have l: "live_id (store (srv_world S)) (appt_id a)" and las: "\<forall>x\<in>set as. live_id (store (srv_world S)) (appt_id x)"
    using tick_next.prems tick_next.hyps nth_mem[OF tick_next.hyps(1)] unfolding status_inv_def by fastforce+
  have m: "list_all2 status_move (appointments (store (srv_world S))) (appointments (store w'))"
    using missed_step_moves[OF l, of e] tick_next.hyps(3) by simp
  have "job_live (store w') (TickJob as)" using las live_id_moves[OF m] by simp
  moreover have "\<forall>j\<in>set (jobs S). job_live (store w') j"
    using tick_next.prems job_live_moves[OF m] by (simp add: status_inv_def)
  ultimately have "\<forall>j\<in>set ((jobs S)[k := TickJob as]). job_live (store w') j"
    using set_update_subset_insert[of "jobs S" k "TickJob as"] by blast
  with m show ?case by (simp add: status_inv_def)
next
  case (tick_fail k S a as w' err)
  have l: "live_id (store (srv_world S)) (appt_id a)"
    using tick_fail.prems tick_fail.hyps nth_mem[OF tick_fail.hyps(1)] unfolding status_inv_def by fastforce
  have m: "list_all2 status_move (appointments (store (srv_world S))) (appointments (store w'))"
    using missed_step_moves[OF l, of e] tick_fail.hyps(3) by simp
  then show ?case using tick_fail.prems set_remove_nth[of k "jobs S"]
    by (auto simp: status_inv_def intro: job_live_moves)
next
  case (tick_end k S)
  then show ?case using set_remove_nth[of k "jobs S"] by (auto simp: status_inv_def list_all2_refl)
qed

lemma conc_step_moves:
  assumes "conc_step e S S'" "conc_inv s0 S" "status_inv S"
  shows "list_all2 status_move (appointments (store (srv_world S))) (appointments (store (srv_world S')))
         \<and> status_inv S'"
  using assms
proof (induction rule: conc_step.induct)
  case (rebook_done body S r)
  then show ?case by (simp add: status_inv_def list_all2_refl)
next
  case (rebook_read body S a t sch sl r)
  have a: "find (\<lambda>b. appt_id b = appt_id a) (appointments (store (srv_world S))) = Some a" "status a = ''missed''"
    using rebook_read_write[OF rebook_read.hyps] by blast+
  have wf: "wf_db (store (srv_world S))" using rebook_read.prems by (simp add: conc_inv_def)
  have "live_id (store (srv_world S)) (appt_id a)"
    using a find_Some_in_set[OF a(1)] wf_same_id[OF wf] by (fastforce simp: live_id_def)
  then show ?case using rebook_read.prems a(2) by (simp add: status_inv_def list_all2_refl)
next
  case (tick_query S now)
  have wf: "wf_db (store (srv_world S))" using tick_query.prems by (simp add: conc_inv_def)
  have "live_id (store (srv_world S)) (appt_id a)"
    if "a \<in> set (find_overdue (now - GRACE_PERIOD) (store (srv_world S)))" for a
    using that wf_same_id[OF wf] by (fastforce simp: live_id_def find_overdue_iff overdue_def)
  then show ?case using tick_query.prems by (simp add: status_inv_def list_all2_refl)
next
  case (other req S)
  have wf: "wf_db (store (srv_world S))" using other.prems by (simp add: conc_inv_def)
  note m = serve_status_moves[OF wf, of e req]
  then show ?case using other.prems by (auto simp: status_inv_def intro: job_live_moves)
next
  case (drain S S')
  then show ?case by (simp add: drain_step_moves)
qed

lemma status_inv_reach:
  "(conc_step e)\<^sup>*\<^sup>* S0 S \<Longrightarrow> conc_inv s0 S0 \<Longrightarrow> status_inv S0 \<Longrightarrow> status_inv S"
  by (induction rule: rtranclp_induct) (auto dest: conc_step_moves conc_inv_reach)

text \<open>
  C34: In every run of the server from a store with unique ids, however rebook phases, timer-loop iterations and other requests interleave, each step keeps every appointment at its position with its _id and changes a status only from 'scheduled' to 'missed' or from 'missed' to 'scheduled': a completed or cancelled appointment is never changed and no other status ever appears.
\<close>

theorem conc_status_moves:
  assumes "(conc_step e)\<^sup>*\<^sup>* (server_of w0) S" "wf_db (store w0)" "conc_step e S S'"
  shows "list_all2 status_move (appointments (store (srv_world S))) (appointments (store (srv_world S')))"
proof -
  have i0: "conc_inv (store w0) (server_of w0)" by (rule conc_inv_init[OF assms(2)])
  have "status_inv (server_of w0)" by (simp add: status_inv_def server_of_def)
  then have "status_inv S" using status_inv_reach[OF assms(1) i0] by blast
  then show ?thesis using conc_step_moves[OF assms(3) conc_inv_reach[OF assms(1) i0]] by blast
qed

end
