(* ===== verification/Await.thy ===== *)
theory Await
  imports Concurrency "HOL-Library.Multiset"
begin

text \<open>
  The server of \<^verbatim>\<open>src/backend/index.js\<close> at the granularity of its
  \<^verbatim>\<open>await\<close>s.  Each step runs one handler or timer run from one \<^verbatim>\<open>await\<close> to the
  next, so any other work may run between any two awaits, as under Node's event loop:
  the rebook handler awaits \<^verbatim>\<open>findById\<close> (line 117), \<^verbatim>\<open>findOne\<close> (line 123)
  and the two \<^verbatim>\<open>save\<close>s (lines 130 and 134); an iteration of the detector loop awaits
  the \<^verbatim>\<open>save\<close> (line 89), \<^verbatim>\<open>findOne\<close> (line 92), \<^verbatim>\<open>sendEmail\<close> (line 96) and
  \<^verbatim>\<open>sendSMS\<close> (line 97); the test endpoint awaits its two sends (lines 164--165); the
  two GET handlers await one query each.  A step that starts a request or a timer run
  takes it to its first resolved await.  The simulation lemmas show that the coarser
  \<open>conc_step\<close> of \<open>Concurrency\<close> reaches every database this model reaches,
  with the same work pending and the same rebook replies sent, so the invariants proved
  there hold here.
\<close>

section \<open>The rebook handler between its awaits\<close>

text \<open>Lines 116--121: the appointment found by \<^verbatim>\<open>findById\<close>, or the reply or rejection.\<close>

definition rebook_find :: "'a store_env_scheme \<Rightarrow> jsval \<Rightarrow> db \<Rightarrow> http_reply completion + appointment" where
  "rebook_find e body s =
     (case find_by_id e s (js_get body ''appointmentId'') of
        Thrown err \<Rightarrow> Inl (Thrown err)
      | Normal None \<Rightarrow> Inl (Normal invalid_appointment_reply)
      | Normal (Some appointment) \<Rightarrow>
          (if status appointment \<noteq> ''missed'' then Inl (Normal invalid_appointment_reply)
           else Inr appointment))"

text \<open>
  Lines 123--136 once \<^verbatim>\<open>findOne\<close> has resolved: the reply or rejection, or the two
  saves still to do.  An invalid \<^verbatim>\<open>Date\<close> fails the validation of the first save
  before it writes.
\<close>

definition rebook_sched_phase :: "'a store_env_scheme \<Rightarrow> jsval \<Rightarrow> appointment \<Rightarrow> db \<Rightarrow> rb_phase" where
  "rebook_sched_phase e body appointment s =
     (let newSlot = js_get body ''newSlot'' in
      case find_schedule s (doctorId appointment) of
        None \<Rightarrow> RbDone (Thrown TypeError)
      | Some doctorSchedule \<Rightarrow>
          (if \<not> mongoose_includes e (availableSlots doctorSchedule) newSlot
           then RbDone (Normal slot_unavailable_reply)
           else
             (case js_new_date e newSlot of
                None \<Rightarrow> RbDone (Thrown ValidationError)
              | Some t \<Rightarrow>
                  RbWrite appointment t doctorSchedule
                    (filter (\<lambda>slot. date_strict_neq slot newSlot) (availableSlots doctorSchedule))
                    (Reply 200 (JObj
                       [(''message'', JStr ''Appointment rescheduled successfully''),
                        (''appointment'', appointment_json (rebooked t appointment))])))))"

section \<open>Work suspended at an await\<close>

text \<open>
  A rebook waiting for \<^verbatim>\<open>findOne\<close>, for the appointment's \<^verbatim>\<open>save\<close> or for the
  schedule's \<^verbatim>\<open>save\<close>; a timer run at the head of its loop, or waiting for
  \<^verbatim>\<open>findOne\<close>, \<^verbatim>\<open>sendEmail\<close> or \<^verbatim>\<open>sendSMS\<close>; the test endpoint waiting for
  \<^verbatim>\<open>sendSMS\<close>.
\<close>

datatype ajob =
    ARbSchedule jsval appointment
  | ARbSaveAppt appointment time_ms doctor_schedule "time_ms list" http_reply
  | ARbSaveSched doctor_schedule "time_ms list" http_reply
  | ATick "appointment list"
  | ATickLookup appointment "appointment list"
  | ATickEmail string "appointment list"
  | ATickSms string "appointment list"
  | ATestSms jsval send_result

record aserver =
  aworld :: world
  ajobs :: "ajob list"
  asent :: "http_reply completion list"

definition await_of :: "world \<Rightarrow> aserver" where
  "await_of w = \<lparr>aworld = w, ajobs = [], asent = []\<rparr>"

text \<open>Lines 92--94 once \<^verbatim>\<open>findOne\<close> has resolved: send the message, or go on with the loop.\<close>

definition lookup_next :: "'a js_env_scheme \<Rightarrow> db \<Rightarrow> appointment \<Rightarrow> appointment list \<Rightarrow> ajob" where
  "lookup_next e s a as =
     (case find_schedule s (doctorId a) of
        None \<Rightarrow> ATick as
      | Some rescheduleOptions \<Rightarrow>
          (if 0 < length (availableSlots rescheduleOptions)
           then ATickEmail (compose_message e (availableSlots rescheduleOptions)) as
           else ATick as))"

text \<open>The outbox after the \<^verbatim>\<open>sendSMS\<close> of the test endpoint (line 165), caught or not.\<close>

definition sms_outbox :: "'a runtime_scheme \<Rightarrow> jsval \<Rightarrow> jsval \<Rightarrow> outbox \<Rightarrow> outbox" where
  "sms_outbox e phoneNumber message ob =
     (case sendSMS e phoneNumber message ob of Thrown err \<Rightarrow> ob | Normal (r, ob') \<Rightarrow> ob')"

section \<open>Steps\<close>

inductive await_step :: "'a runtime_scheme \<Rightarrow> aserver \<Rightarrow> aserver \<Rightarrow> bool" for e :: "'a runtime_scheme" where
  rb_refused:
    "rebook_find e body (store (aworld F)) = Inl r \<Longrightarrow> await_step e F (F\<lparr>asent := asent F @ [r]\<rparr>)"
| rb_found:
    "rebook_find e body (store (aworld F)) = Inr a \<Longrightarrow>
     await_step e F (F\<lparr>ajobs := ajobs F @ [ARbSchedule body a]\<rparr>)"
| rb_schedule_done:
    "k < length (ajobs F) \<Longrightarrow> ajobs F ! k = ARbSchedule body a \<Longrightarrow>
     rebook_sched_phase e body a (store (aworld F)) = RbDone r \<Longrightarrow>
     await_step e F (F\<lparr>ajobs := remove_nth k (ajobs F), asent := asent F @ [r]\<rparr>)"
| rb_schedule_ok:
    "k < length (ajobs F) \<Longrightarrow> ajobs F ! k = ARbSchedule body a \<Longrightarrow>
     rebook_sched_phase e body a (store (aworld F)) = RbWrite b t sch sl r \<Longrightarrow>
     await_step e F (F\<lparr>ajobs := (ajobs F)[k := ARbSaveAppt b t sch sl r]\<rparr>)"
| rb_save_appt:
    "k < length (ajobs F) \<Longrightarrow> ajobs F ! k = ARbSaveAppt b t sch sl r \<Longrightarrow>
     await_step e F (F\<lparr>aworld := (aworld F)\<lparr>store := save_appointment (appt_id b) (rebook_set b t) (store (aworld F))\<rparr>,
                       ajobs := (ajobs F)[k := ARbSaveSched sch sl r]\<rparr>)"
| rb_save_sched:
    "k < length (ajobs F) \<Longrightarrow> ajobs F ! k = ARbSaveSched sch sl r \<Longrightarrow>
     await_step e F (F\<lparr>aworld := (aworld F)\<lparr>store :=
                         (if sl = availableSlots sch then store (aworld F)
                          else save_schedule (sched_id sch) (\<lambda>x. x\<lparr>availableSlots := sl\<rparr>) (store (aworld F)))\<rparr>,
                       ajobs := remove_nth k (ajobs F), asent := asent F @ [Normal r]\<rparr>)"
| tick_query:
    "await_step e F (F\<lparr>ajobs := ajobs F @ [ATick (find_overdue (now - GRACE_PERIOD) (store (aworld F)))]\<rparr>)"
| tick_mark:
    "k < length (ajobs F) \<Longrightarrow> ajobs F ! k = ATick (a # as) \<Longrightarrow>
     await_step e F (F\<lparr>aworld := (aworld F)\<lparr>store := save_appointment (appt_id a) (\<lambda>b. b\<lparr>status := ''missed''\<rparr>) (store (aworld F))\<rparr>,
                       ajobs := (ajobs F)[k := ATickLookup a as]\<rparr>)"
| tick_lookup:
    "k < length (ajobs F) \<Longrightarrow> ajobs F ! k = ATickLookup a as \<Longrightarrow>
     await_step e F (F\<lparr>ajobs := (ajobs F)[k := lookup_next e (store (aworld F)) a as]\<rparr>)"
| tick_email:
    "k < length (ajobs F) \<Longrightarrow> ajobs F ! k = ATickEmail m as \<Longrightarrow>
     await_step e F (F\<lparr>aworld := (aworld F)\<lparr>outbox := snd (sendEmail e (JStr '''') ''Missed Appointment'' (JStr m) (outbox (aworld F)))\<rparr>,
                       ajobs := (ajobs F)[k := ATickSms m as]\<rparr>)"
| tick_sms_ok:
    "k < length (ajobs F) \<Longrightarrow> ajobs F ! k = ATickSms m as \<Longrightarrow>
     sendSMS e (JStr '''') (JStr m) (outbox (aworld F)) = Normal (r, ob) \<Longrightarrow>
     await_step e F (F\<lparr>aworld := (aworld F)\<lparr>outbox := ob\<rparr>, ajobs := (ajobs F)[k := ATick as]\<rparr>)"
| tick_sms_fail:
    "k < length (ajobs F) \<Longrightarrow> ajobs F ! k = ATickSms m as \<Longrightarrow>
     sendSMS e (JStr '''') (JStr m) (outbox (aworld F)) = Thrown err \<Longrightarrow>
     await_step e F (F\<lparr>ajobs := remove_nth k (ajobs F)\<rparr>)"
| tick_end:
    "k < length (ajobs F) \<Longrightarrow> ajobs F ! k = ATick [] \<Longrightarrow> await_step e F (F\<lparr>ajobs := remove_nth k (ajobs F)\<rparr>)"
| test_email:
    "match_route (req_method (req :: request)) (req_path req) = Some TestNotificationRoute \<Longrightarrow>
     sendEmail e (js_get (req_body req) ''email'') ''Test Subject'' (js_get (req_body req) ''message'')
       (outbox (aworld F)) = (er, ob) \<Longrightarrow>
     await_step e F (F\<lparr>aworld := (aworld F)\<lparr>outbox := ob\<rparr>, ajobs := ajobs F @ [ATestSms (req_body req) er]\<rparr>)"
| test_sms:
    "k < length (ajobs F) \<Longrightarrow> ajobs F ! k = ATestSms body er \<Longrightarrow>
     await_step e F (F\<lparr>aworld := (aworld F)\<lparr>outbox :=
        sms_outbox e (js_get body ''phoneNumber'') (js_get body ''message'') (outbox (aworld F))\<rparr>,
                       ajobs := remove_nth k (ajobs F)\<rparr>)"
| other:
    "match_route (req_method (req :: request)) (req_path req) \<noteq> Some RebookRoute \<Longrightarrow>
     match_route (req_method req) (req_path req) \<noteq> Some TestNotificationRoute \<Longrightarrow>
     await_step e F (F\<lparr>aworld := snd (serve e req (aworld F))\<rparr>)"

section \<open>The coarse jobs the suspended work stands for\<close>

text \<open>
  Whether the notification of \<open>a\<close> rejects: its doctor offers slots and the SMS
  client cannot be built.
\<close>

definition notify_throws :: "'a runtime_scheme \<Rightarrow> db \<Rightarrow> appointment \<Rightarrow> bool" where
  "notify_throws e s a \<longleftrightarrow> expected_notices e s a \<noteq> [] \<and> \<not> sms_client_ok e"

text \<open>
  A rebook that will write stands for its pending \<open>RebookJob\<close> until its first save;
  a timer run stands for the \<open>TickJob\<close> of the appointments it has left, unless its
  current notification will reject.
\<close>

fun abs_ajob :: "'a runtime_scheme \<Rightarrow> db \<Rightarrow> ajob \<Rightarrow> job option" where
  "abs_ajob e s (ARbSchedule body a) =
     (case rebook_sched_phase e body a s of RbWrite b t sch sl r \<Rightarrow> Some (RebookJob b t sch sl r) | RbDone r \<Rightarrow> None)"
| "abs_ajob e s (ARbSaveAppt b t sch sl r) = Some (RebookJob b t sch sl r)"
| "abs_ajob e s (ARbSaveSched sch sl r) = None"
| "abs_ajob e s (ATick as) = Some (TickJob as)"
| "abs_ajob e s (ATickLookup a as) = (if notify_throws e s a then None else Some (TickJob as))"
| "abs_ajob e s (ATickEmail m as) = (if sms_client_ok e then Some (TickJob as) else None)"
| "abs_ajob e s (ATickSms m as) = (if sms_client_ok e then Some (TickJob as) else None)"
| "abs_ajob e s (ATestSms body er) = None"

text \<open>
  The rebook replies a suspended handler is committed to: a rebook past
  \<^verbatim>\<open>findOne\<close> that will not write replies (or rejects) with what it read, and one
  between its two saves replies 200 after the second.
\<close>

fun pend_reply :: "'a runtime_scheme \<Rightarrow> db \<Rightarrow> ajob \<Rightarrow> http_reply completion list" where
  "pend_reply e s (ARbSchedule body a) =
     (case rebook_sched_phase e body a s of RbDone r \<Rightarrow> [r] | RbWrite b t sch sl r \<Rightarrow> [])"
| "pend_reply e s (ARbSaveSched sch sl r) = [Normal r]"
| "pend_reply e s j = []"

text \<open>A pending save of a schedule has the slot list it loaded, so it writes nothing.\<close>

fun ajob_ok :: "ajob \<Rightarrow> bool" where
  "ajob_ok (ARbSaveAppt b t sch sl r) = (sl = availableSlots sch)"
| "ajob_ok (ARbSaveSched sch sl r) = (sl = availableSlots sch)"
| "ajob_ok j = True"

definition ainv :: "db \<Rightarrow> aserver \<Rightarrow> bool" where
  "ainv s0 F \<longleftrightarrow> wf_db (store (aworld F)) \<and> doctorSchedules (store (aworld F)) = doctorSchedules s0 \<and>
     (\<forall>j\<in>set (ajobs F). ajob_ok j)"

definition sim :: "'a runtime_scheme \<Rightarrow> aserver \<Rightarrow> server \<Rightarrow> bool" where
  "sim e F S \<longleftrightarrow> store (srv_world S) = store (aworld F) \<and>
     mset (jobs S) = mset (List.map_filter (abs_ajob e (store (aworld F))) (ajobs F)) \<and>
     mset (sent S) = mset (asent F) + mset (concat (map (pend_reply e (store (aworld F))) (ajobs F)))"

section \<open>Lemmas\<close>

lemmas conc_tick_fail = drain_step.tick_fail[THEN conc_step.drain]

subsection \<open>Lists of jobs as multisets\<close>

lemma mset_remove_nth: "k < length xs \<Longrightarrow> mset (remove_nth k xs) + {#xs ! k#} = mset xs"
  by (auto dest!: split_at_nth simp: remove_nth_def nth_append)

lemma map_filter_remove_nth:
  "k < length xs \<Longrightarrow>
   mset (List.map_filter f (remove_nth k xs)) + mset (List.map_filter f [xs ! k]) = mset (List.map_filter f xs)"
  by (auto dest!: split_at_nth simp: remove_nth_def nth_append map_filter_simps split: option.split)

lemma map_filter_update:
  "k < length xs \<Longrightarrow>
   mset (List.map_filter f (xs[k := y])) + mset (List.map_filter f [xs ! k]) =
   mset (List.map_filter f xs) + mset (List.map_filter f [y])"
  by (auto dest!: split_at_nth simp: list_update_append nth_append map_filter_simps split: option.split)

lemma concat_remove_nth:
  "k < length xs \<Longrightarrow> mset (concat (map g xs)) = mset (concat (map g (remove_nth k xs))) + mset (g (xs ! k))"
  by (auto dest!: split_at_nth simp: remove_nth_def nth_append)

lemma concat_update:
  "k < length xs \<Longrightarrow>
   mset (concat (map g (xs[k := y]))) + mset (g (xs ! k)) = mset (concat (map g xs)) + mset (g y)"
  by (auto dest!: split_at_nth simp: list_update_append nth_append)

subsection \<open>The phases of the handlers\<close>

lemma rebook_read_find:
  "rebook_read e body s =
     (case rebook_find e body s of Inl r \<Rightarrow> RbDone r | Inr a \<Rightarrow> rebook_sched_phase e body a s)"
  by (simp add: rebook_read_def rebook_find_def rebook_sched_phase_def Let_def
           split: completion.split option.split)

lemma date_strict_neq_True [simp]: "date_strict_neq t v"
  by (cases v) simp_all

lemma rebook_sched_phase_write:
  "rebook_sched_phase e body a s = RbWrite b t sch sl r \<Longrightarrow> sl = availableSlots sch"
  by (auto simp: rebook_sched_phase_def Let_def split: option.splits if_splits)

lemma rebook_sched_phase_cong:
  "doctorSchedules s = doctorSchedules s' \<Longrightarrow> rebook_sched_phase e body a s = rebook_sched_phase e body a s'"
  using find_schedule_cong[of s s'] by (simp add: rebook_sched_phase_def)

lemma notify_throws_cong:
  "doctorSchedules s = doctorSchedules s' \<Longrightarrow> notify_throws e s a = notify_throws e s' a"
  using find_schedule_cong[of s s'] by (simp add: notify_throws_def expected_notices_def)

lemma abs_ajob_cong:
  "doctorSchedules s = doctorSchedules s' \<Longrightarrow> abs_ajob e s = abs_ajob e s'"
proof
  fix j assume h: "doctorSchedules s = doctorSchedules s'"
  show "abs_ajob e s j = abs_ajob e s' j"
    by (cases j) (simp_all add: rebook_sched_phase_cong[OF h] notify_throws_cong[OF h])
qed

lemma pend_reply_cong:
  "doctorSchedules s = doctorSchedules s' \<Longrightarrow> pend_reply e s = pend_reply e s'"
proof
  fix j assume h: "doctorSchedules s = doctorSchedules s'"
  show "pend_reply e s j = pend_reply e s' j"
    by (cases j) (simp_all add: rebook_sched_phase_cong[OF h])
qed

lemma pend_lookup_next [simp]: "pend_reply e s (lookup_next e' s' a as) = []"
  by (simp add: lookup_next_def Let_def split: option.split)

text \<open>A loop iteration rejects exactly when its notification does.\<close>

lemma missed_step_throws:
  "snd (missed_step e a w) = (if notify_throws e (store w) a then Some ClientInitError else None)"
proof -
  let ?w1 = "w\<lparr>store := save_appointment (appt_id a) (\<lambda>b. b\<lparr>status := ''missed''\<rparr>) (store w)\<rparr>"
  have x: "expected_notices e (store ?w1) a = expected_notices e (store w) a" by simp
  show ?thesis
  proof (cases "expected_notices e (store w) a = []")
    case True
    then show ?thesis using notify_patient_silent[of e ?w1 a] x by (simp add: missed_step_def notify_throws_def)
  next
    case False
    then show ?thesis
      using notify_patient_ok[of e a ?w1] notify_patient_client_fails[of e ?w1 a] x
      by (cases "sms_client_ok e") (simp_all add: missed_step_def notify_throws_def)
  qed
qed

lemma abs_lookup_next: "abs_ajob e s (lookup_next e s a as) = abs_ajob e s (ATickLookup a as)"
  by (auto simp: lookup_next_def notify_throws_def expected_notices_def Let_def split: option.split)

lemma sendSMS_Normal_ok: "sendSMS e p m ob = Normal x \<Longrightarrow> sms_client_ok e"
  by (simp add: sendSMS_def split: if_splits)

lemma sendSMS_Thrown_not_ok: "sendSMS e p m ob = Thrown err \<Longrightarrow> \<not> sms_client_ok e"
  by (simp add: sendSMS_def Let_def split: if_splits)

subsection \<open>The invariant of the await-level server\<close>

lemma ainv_nth_ok: "ainv s0 F \<Longrightarrow> k < length (ajobs F) \<Longrightarrow> ajob_ok (ajobs F ! k)"
  by (simp add: ainv_def)

text \<open>Under the invariant the two saves of a rebook are the single write of the coarse model.\<close>

lemma ainv_rebook_write:
  assumes "ainv s0 F" "k < length (ajobs F)" "ajobs F ! k = ARbSaveAppt b t sch sl r"
  shows "rebook_write b t sch sl (store (aworld F)) = save_appointment (appt_id b) (rebook_set b t) (store (aworld F))"
  using ainv_nth_ok[OF assms(1,2)] assms(3) by (simp add: rebook_write_ok)

lemma ainv_step:
  assumes "await_step e F F'" "ainv s0 F"
  shows "ainv s0 F' \<and> doctorSchedules (store (aworld F')) = doctorSchedules (store (aworld F))"
  using assms
proof (induction rule: await_step.induct)
  case (rb_schedule_done k F body a r)
  then show ?case using set_remove_nth[of k "ajobs F"] by (auto simp: ainv_def)
next
  case (rb_schedule_ok k F body a b t sch sl r)
  then show ?case using set_update_subset_insert[of "ajobs F" k] rebook_sched_phase_write[OF rb_schedule_ok.hyps(3)]
    by (fastforce simp: ainv_def)
next
  case (rb_save_appt k F b t sch sl r)
  have "ajob_ok (ARbSaveSched sch sl r)"
    using ainv_nth_ok[OF rb_save_appt.prems rb_save_appt.hyps(1)] rb_save_appt.hyps(2) by simp
  then have "\<forall>j\<in>set ((ajobs F)[k := ARbSaveSched sch sl r]). ajob_ok j"
    using rb_save_appt.prems set_update_subset_insert[of "ajobs F" k "ARbSaveSched sch sl r"]
    unfolding ainv_def by blast
  then show ?case using rb_save_appt.prems by (simp add: ainv_def wf_save_appointment)
next
  case (rb_save_sched k F sch sl r)
  then show ?case using ainv_nth_ok[OF rb_save_sched.prems rb_save_sched.hyps(1)] set_remove_nth[of k "ajobs F"]
    by (auto simp: ainv_def)
next
  case (tick_mark k F a as)
  let ?s = "store (aworld F)" and ?f = "\<lambda>b. b\<lparr>status := ''missed''\<rparr>"
  have "\<forall>j\<in>set ((ajobs F)[k := ATickLookup a as]). ajob_ok j"
    using tick_mark.prems set_update_subset_insert[of "ajobs F" k "ATickLookup a as"]
    by (auto simp: ainv_def)
  then show ?case using tick_mark.prems by (simp add: ainv_def wf_mark)
next
  case (tick_lookup k F a as)
  then show ?case using set_update_subset_insert[of "ajobs F" k]
    by (auto simp: ainv_def lookup_next_def split: option.split) (fastforce+)
next
  case (tick_email k F m as)
  then show ?case using set_update_subset_insert[of "ajobs F" k] by (fastforce simp: ainv_def)
next
  case (tick_sms_ok k F m as r ob)
  then show ?case using set_update_subset_insert[of "ajobs F" k] by (fastforce simp: ainv_def)
next
  case (tick_sms_fail k F m as err)
  then show ?case using set_remove_nth[of k "ajobs F"] by (auto simp: ainv_def)
next
  case (tick_end k F)
  then show ?case using set_remove_nth[of k "ajobs F"] by (auto simp: ainv_def)
next
  case (test_sms k F body er)
  then show ?case using set_remove_nth[of k "ajobs F"] by (auto simp: ainv_def)
next
  case (other req F)
  then show ?case by (simp add: ainv_def serve_store)
qed (auto simp: ainv_def)

subsection \<open>The simulation\<close>

lemma map_filter_remove_None:
  "k < length xs \<Longrightarrow> f (xs ! k) = None \<Longrightarrow>
   mset (List.map_filter f (remove_nth k xs)) = mset (List.map_filter f xs)"
  using map_filter_remove_nth[of k xs f] by (simp add: map_filter_simps)

lemma map_filter_update_same:
  "k < length xs \<Longrightarrow> f y = f (xs ! k) \<Longrightarrow>
   mset (List.map_filter f (xs[k := y])) = mset (List.map_filter f xs)"
  using map_filter_update[of k xs f y] by simp

lemma map_filter_nth_in:
  assumes "mset ys = mset (List.map_filter f xs)" "k < length xs" "f (xs ! k) = Some j"
  obtains k' where "k' < length ys" "ys ! k' = j"
proof -
  have "j \<in> set (List.map_filter f xs)"
    using assms(2,3) nth_mem[OF assms(2)] by (force simp: map_filter_def)
  then have "j \<in> set ys" using mset_eq_setD[OF assms(1)] by simp
  then show ?thesis using that by (auto simp: in_set_conv_nth)
qed

lemma concat_remove_Nil:
  "k < length xs \<Longrightarrow> g (xs ! k) = [] \<Longrightarrow> mset (concat (map g (remove_nth k xs))) = mset (concat (map g xs))"
  using concat_remove_nth[of k xs g] by simp

lemma concat_update_same:
  "k < length xs \<Longrightarrow> g y = g (xs ! k) \<Longrightarrow> mset (concat (map g (xs[k := y]))) = mset (concat (map g xs))"
  using concat_update[of k xs g y] by simp

lemma add_single_cancel: "A + {#x#} = M \<Longrightarrow> B + {#x#} = M \<Longrightarrow> B = A"
  by (metis add_right_cancel)

text \<open>The last premise comes last so that \<open>simp_all\<close>, which works from the last
  subgoal back, fixes \<open>F\<close> before it rewrites the others.\<close>

lemma sim_stutter:
  assumes "store (aworld F') = store (aworld F)"
    and "mset (List.map_filter (abs_ajob e (store (aworld F))) (ajobs F')) =
         mset (List.map_filter (abs_ajob e (store (aworld F))) (ajobs F))"
    and "mset (asent F') + mset (concat (map (pend_reply e (store (aworld F))) (ajobs F'))) =
         mset (asent F) + mset (concat (map (pend_reply e (store (aworld F))) (ajobs F)))"
    and "sim e F S"
  shows "\<exists>S'. (conc_step e)\<^sup>*\<^sup>* S S' \<and> sim e F' S'"
  using assms by (auto simp: sim_def)

lemma sim_one: "conc_step e S S' \<Longrightarrow> sim e F' S' \<Longrightarrow> \<exists>S'. (conc_step e)\<^sup>*\<^sup>* S S' \<and> sim e F' S'"
  by blast

lemma await_sim_step:
  assumes "await_step e F F'" "ainv s0 F" "sim e F S"
  shows "\<exists>S'. (conc_step e)\<^sup>*\<^sup>* S S' \<and> sim e F' S'"
  using assms
proof (induction rule: await_step.induct)
  case (rb_refused body F r)
  have "rebook_read e body (store (srv_world S)) = RbDone r"
    using rebook_read_find[of e body "store (aworld F)"] rb_refused.hyps rb_refused.prems(2) by (simp add: sim_def)
  then have "conc_step e S (S\<lparr>sent := sent S @ [r]\<rparr>)" by (rule conc_step.rebook_done)
  then show ?case by (rule sim_one) (insert rb_refused.prems(2), simp add: sim_def)
next
  case (rb_found body F a)
  let ?s = "store (aworld F)"
  have sim: "store (srv_world S) = ?s" "mset (jobs S) = mset (List.map_filter (abs_ajob e ?s) (ajobs F))"
    "mset (sent S) = mset (asent F) + mset (concat (map (pend_reply e ?s) (ajobs F)))"
    using rb_found.prems(2) by (simp_all add: sim_def)
  have rd: "rebook_read e body (store (srv_world S)) = rebook_sched_phase e body a ?s"
    using rebook_read_find[of e body ?s] rb_found.hyps sim(1) by simp
  show ?case
  proof (cases "rebook_sched_phase e body a ?s")
    case (RbDone r)
    then have "conc_step e S (S\<lparr>sent := sent S @ [r]\<rparr>)" using rd by (intro conc_step.rebook_done) simp
    then show ?thesis by (rule sim_one) (insert sim RbDone, simp add: sim_def map_filter_simps)
  next
    case (RbWrite b t sch sl r)
    then have "conc_step e S (S\<lparr>jobs := jobs S @ [RebookJob b t sch sl r]\<rparr>)" using rd
      by (intro conc_step.rebook_read) simp
    then show ?thesis by (rule sim_one) (insert sim RbWrite, simp add: sim_def map_filter_simps)
  qed
next
  case (rb_schedule_done k F body a r)
  have "mset (concat (map (pend_reply e (store (aworld F))) (ajobs F))) =
        mset (concat (map (pend_reply e (store (aworld F))) (remove_nth k (ajobs F)))) + {#r#}"
    using concat_remove_nth[OF rb_schedule_done.hyps(1), of "pend_reply e (store (aworld F))"] rb_schedule_done.hyps
    by simp
  then show ?case using rb_schedule_done by (intro sim_stutter) (simp_all add: map_filter_remove_None)
next
  case (rb_schedule_ok k F body a b t sch sl r)
  then show ?case by (intro sim_stutter) (simp_all add: map_filter_update_same concat_update_same)
next
  case (rb_save_appt k F b t sch sl r)
  let ?s = "store (aworld F)" and ?xs = "ajobs F" and ?y = "ARbSaveSched sch sl r"
  let ?s1 = "save_appointment (appt_id b) (rebook_set b t) ?s" and ?j = "RebookJob b t sch sl r"
  have sim: "store (srv_world S) = ?s" "mset (jobs S) = mset (List.map_filter (abs_ajob e ?s) ?xs)"
    "mset (sent S) = mset (asent F) + mset (concat (map (pend_reply e ?s) ?xs))"
    using rb_save_appt.prems(2) by (simp_all add: sim_def)
  obtain k' where k': "k' < length (jobs S)" "jobs S ! k' = ?j"
    using map_filter_nth_in[OF sim(2) rb_save_appt.hyps(1)] rb_save_appt.hyps(2) by auto
  have w: "rebook_write b t sch sl ?s = ?s1"
    using ainv_rebook_write[OF rb_save_appt.prems(1) rb_save_appt.hyps] .
  have a: "mset (List.map_filter (abs_ajob e ?s) (?xs[k := ?y])) + {#?j#} = mset (List.map_filter (abs_ajob e ?s) ?xs)"
    using map_filter_update[OF rb_save_appt.hyps(1), of "abs_ajob e ?s" ?y] rb_save_appt.hyps(2) by simp
  have b: "mset (remove_nth k' (jobs S)) + {#?j#} = mset (List.map_filter (abs_ajob e ?s) ?xs)"
    using mset_remove_nth[OF k'(1)] k'(2) sim(2) by simp
  have c: "abs_ajob e ?s1 = abs_ajob e ?s" by (rule abs_ajob_cong) simp
  have pc: "pend_reply e ?s1 = pend_reply e ?s" by (rule pend_reply_cong) simp
  have m: "mset (remove_nth k' (jobs S)) = mset (List.map_filter (abs_ajob e ?s1) (?xs[k := ?y]))"
    unfolding c by (rule add_single_cancel[OF a b])
  have p: "mset (concat (map (pend_reply e ?s) (?xs[k := ?y]))) = mset (concat (map (pend_reply e ?s) ?xs)) + {#Normal r#}"
    using concat_update[OF rb_save_appt.hyps(1), of "pend_reply e ?s" ?y] rb_save_appt.hyps(2) by simp
  have "conc_step e S (S\<lparr>srv_world := (srv_world S)\<lparr>store := ?s1\<rparr>, jobs := remove_nth k' (jobs S),
                   sent := sent S @ [Normal r]\<rparr>)"
    using conc_rebook_write[OF k', of e] sim(1) w by simp
  then show ?case by (rule sim_one) (simp add: sim_def m pc p sim(3))
next
  case (rb_save_sched k F sch sl r)
  let ?g = "pend_reply e (store (aworld F))"
  have "sl = availableSlots sch"
    using ainv_nth_ok[OF rb_save_sched.prems(1) rb_save_sched.hyps(1)] rb_save_sched.hyps(2) by simp
  moreover have "mset (concat (map ?g (ajobs F))) = mset (concat (map ?g (remove_nth k (ajobs F)))) + {#Normal r#}"
    using concat_remove_nth[OF rb_save_sched.hyps(1), of ?g] rb_save_sched.hyps by simp
  ultimately show ?case using rb_save_sched.hyps rb_save_sched.prems(2)
    by (intro sim_stutter) (simp_all add: map_filter_remove_None)
next
  case (tick_query F now)
  let ?j = "TickJob (find_overdue (now - GRACE_PERIOD) (store (srv_world S)))"
  have "conc_step e S (S\<lparr>jobs := jobs S @ [?j]\<rparr>)" by (rule conc_step.tick_query)
  then show ?case by (rule sim_one) (insert tick_query.prems(2), simp add: sim_def)
next
  case (tick_mark k F a as)
  let ?s = "store (aworld F)" and ?xs = "ajobs F" and ?y = "ATickLookup a as"
  let ?s1 = "save_appointment (appt_id a) (\<lambda>b. b\<lparr>status := ''missed''\<rparr>) ?s"
  let ?w = "fst (missed_step e a (srv_world S))" and ?j = "TickJob (a # as)"
  have sim: "store (srv_world S) = ?s" "mset (jobs S) = mset (List.map_filter (abs_ajob e ?s) ?xs)"
    "mset (sent S) = mset (asent F) + mset (concat (map (pend_reply e ?s) ?xs))"
    using tick_mark.prems(2) by (simp_all add: sim_def)
  obtain k' where k': "k' < length (jobs S)" "jobs S ! k' = ?j"
    using map_filter_nth_in[OF sim(2) tick_mark.hyps(1)] tick_mark.hyps(2) by auto
  have st: "store ?w = ?s1" using sim(1) by (simp add: missed_step_store)
  have c: "abs_ajob e ?s1 = abs_ajob e ?s" by (rule abs_ajob_cong) simp
  have pc: "pend_reply e ?s1 = pend_reply e ?s" by (rule pend_reply_cong) simp
  have p: "mset (concat (map (pend_reply e ?s) (?xs[k := ?y]))) = mset (concat (map (pend_reply e ?s) ?xs))"
    using tick_mark.hyps by (intro concat_update_same) simp_all
  have a: "mset (List.map_filter (abs_ajob e ?s) (?xs[k := ?y])) + {#?j#} =
           mset (List.map_filter (abs_ajob e ?s) ?xs) + mset (List.map_filter (abs_ajob e ?s) [?y])"
    using map_filter_update[OF tick_mark.hyps(1), of "abs_ajob e ?s" ?y] tick_mark.hyps(2) by simp
  have b: "mset (remove_nth k' (jobs S)) + {#?j#} = mset (List.map_filter (abs_ajob e ?s) ?xs)"
    using mset_remove_nth[OF k'(1)] k'(2) sim(2) by simp
  have ms: "snd (missed_step e a (srv_world S)) = (if notify_throws e ?s a then Some ClientInitError else None)"
    using missed_step_throws[of e a "srv_world S"] sim(1) by simp
  show ?case
  proof (cases "notify_throws e ?s a")
    case True
    then have "missed_step e a (srv_world S) = (?w, Some ClientInitError)" using ms by (simp add: prod_eq_iff)
    then have conc: "conc_step e S (S\<lparr>srv_world := ?w, jobs := remove_nth k' (jobs S)\<rparr>)"
      by (rule conc_tick_fail[OF k'])
    have "mset (List.map_filter (abs_ajob e ?s) (?xs[k := ?y])) + {#?j#} = mset (List.map_filter (abs_ajob e ?s) ?xs)"
      using a True by simp
    then have "mset (remove_nth k' (jobs S)) = mset (List.map_filter (abs_ajob e ?s) (?xs[k := ?y]))"
      using b by (rule add_single_cancel)
    with conc show ?thesis by (elim sim_one) (simp add: sim_def st c pc p sim(3))
  next
    case False
    then have "missed_step e a (srv_world S) = (?w, None)" using ms by (simp add: prod_eq_iff)
    then have conc: "conc_step e S (S\<lparr>srv_world := ?w, jobs := (jobs S)[k' := TickJob as]\<rparr>)"
      by (rule conc_tick_next[OF k'])
    have "mset ((jobs S)[k' := TickJob as]) + {#?j#} = mset (remove_nth k' (jobs S)) + {#?j#} + {#TickJob as#}"
      using mset_update[OF k'(1), of "TickJob as"] mset_remove_nth[OF k'(1), symmetric] k'(2) by simp
    moreover have "mset (List.map_filter (abs_ajob e ?s) (?xs[k := ?y])) + {#?j#} =
                   mset (remove_nth k' (jobs S)) + {#?j#} + {#TickJob as#}"
      using a b False by simp
    ultimately have "mset ((jobs S)[k' := TickJob as]) = mset (List.map_filter (abs_ajob e ?s) (?xs[k := ?y]))"
      by simp
    with conc show ?thesis by (elim sim_one) (simp add: sim_def st c pc p sim(3))
  qed
next
  case (tick_lookup k F a as)
  then show ?case
    by (intro sim_stutter) (simp_all add: map_filter_update_same concat_update_same abs_lookup_next)
next
  case (tick_email k F m as)
  then show ?case by (intro sim_stutter) (simp_all add: map_filter_update_same concat_update_same)
next
  case (tick_sms_ok k F m as r ob)
  then show ?case using sendSMS_Normal_ok[OF tick_sms_ok.hyps(3)]
    by (intro sim_stutter) (simp_all add: map_filter_update_same concat_update_same)
next
  case (tick_sms_fail k F m as err)
  then show ?case using sendSMS_Thrown_not_ok[OF tick_sms_fail.hyps(3)]
    by (intro sim_stutter) (simp_all add: map_filter_remove_None concat_remove_Nil)
next
  case (tick_end k F)
  let ?f = "abs_ajob e (store (aworld F))"
  have sim: "store (srv_world S) = store (aworld F)" "mset (jobs S) = mset (List.map_filter ?f (ajobs F))"
    "mset (sent S) = mset (asent F) + mset (concat (map (pend_reply e (store (aworld F))) (ajobs F)))"
    using tick_end.prems(2) by (simp_all add: sim_def)
  obtain k' where k': "k' < length (jobs S)" "jobs S ! k' = TickJob []"
    using map_filter_nth_in[OF sim(2) tick_end.hyps(1)] tick_end.hyps(2) by auto
  have a: "mset (List.map_filter ?f (remove_nth k (ajobs F))) + {#TickJob []#} = mset (List.map_filter ?f (ajobs F))"
    using map_filter_remove_nth[OF tick_end.hyps(1), of ?f] tick_end.hyps(2) by simp
  have b: "mset (remove_nth k' (jobs S)) + {#TickJob []#} = mset (List.map_filter ?f (ajobs F))"
    using mset_remove_nth[OF k'(1)] k'(2) sim(2) by simp
  have p: "mset (concat (map (pend_reply e (store (aworld F))) (remove_nth k (ajobs F)))) =
           mset (concat (map (pend_reply e (store (aworld F))) (ajobs F)))"
    using tick_end.hyps by (intro concat_remove_Nil) simp_all
  show ?case using conc_tick_end[OF k', of e]
    by (rule sim_one) (simp add: sim_def sim(1) sim(3) p add_single_cancel[OF a b])
next
  case (test_email req F er ob)
  then show ?case by (intro sim_stutter) (simp_all add: map_filter_simps)
next
  case (test_sms k F body er)
  then show ?case by (intro sim_stutter) (simp_all add: map_filter_remove_None concat_remove_Nil)
next
  case (other req F)
  then show ?case by (intro sim_stutter) (simp_all add: serve_store)
qed

subsection \<open>Runs of the await-level server\<close>

lemma await_init:
  "wf_db (store w0) \<Longrightarrow> ainv (store w0) (await_of w0) \<and> sim e (await_of w0) (server_of w0)"
  by (simp add: ainv_def sim_def await_of_def server_of_def)

lemma await_sim_reach:
  assumes "(await_step e)\<^sup>*\<^sup>* F0 F" "ainv s0 F0" "sim e F0 S0"
  shows "ainv s0 F \<and> (\<exists>S. (conc_step e)\<^sup>*\<^sup>* S0 S \<and> sim e F S)"
  using assms(1)
proof (induction rule: rtranclp_induct)
  case base
  then show ?case using assms(2,3) by blast
next
  case (step F1 F2)
  then obtain S1 where "(conc_step e)\<^sup>*\<^sup>* S0 S1" "sim e F1 S1" "ainv s0 F1" by blast
  moreover obtain S2 where "(conc_step e)\<^sup>*\<^sup>* S1 S2" "sim e F2 S2"
    using await_sim_step[OF step.hyps(2) \<open>ainv s0 F1\<close> \<open>sim e F1 S1\<close>] by blast
  ultimately show ?case using ainv_step[OF step.hyps(2)] by (meson rtranclp_trans)
qed

lemma status_move_trans: "status_move a b \<Longrightarrow> status_move b c \<Longrightarrow> status_move a c"
  by (auto simp: status_move_def)

lemma conc_star_moves:
  assumes "(conc_step e)\<^sup>*\<^sup>* S S'" "conc_inv s0 S" "status_inv S"
  shows "list_all2 status_move (appointments (store (srv_world S))) (appointments (store (srv_world S'))) \<and>
         conc_inv s0 S' \<and> status_inv S'"
  using assms
proof (induction rule: rtranclp_induct)
  case base
  then show ?case by (simp add: list_all2_refl status_move_def)
next
  case (step S1 S2)
  then have "list_all2 status_move (appointments (store (srv_world S))) (appointments (store (srv_world S1)))"
    "conc_inv s0 S1" "status_inv S1" by blast+
  then show ?case using conc_step_moves[OF step.hyps(2)] conc_inv_step[OF step.hyps(2)]
    by (blast intro: list_all2_trans status_move_trans)
qed

section \<open>The coarse model loses no database behaviour\<close>

text \<open>
  C13: Every run of the server cut at each await of the code (the findById, findOne
  and two saves of a rebook, the find, save, findOne, sendEmail and sendSMS of each
  timer-loop iteration, the two sends of the test endpoint), however these steps of
  concurrent requests and timer runs interleave, is matched by a run of the coarser
  model of Concurrency, whose rebooks read and then write in one step and whose timer
  iterations are atomic: both reach the same database, the coarse server has pending
  exactly the rebook writes and timer runs that the fine one will still complete, and
  it has sent exactly the rebook replies the fine one has sent or is committed to.
\<close>

theorem await_refines_conc:
  assumes "(await_step e)\<^sup>*\<^sup>* (await_of w0) F" "wf_db (store w0)"
  shows "\<exists>S. (conc_step e)\<^sup>*\<^sup>* (server_of w0) S \<and> store (srv_world S) = store (aworld F) \<and>
             mset (jobs S) = mset (List.map_filter (abs_ajob e (store (aworld F))) (ajobs F)) \<and>
             mset (sent S) = mset (asent F) + mset (concat (map (pend_reply e (store (aworld F))) (ajobs F)))"
  using await_sim_reach[OF assms(1)] await_init[OF assms(2)] by (auto simp: sim_def)

text \<open>
  C14: In every run of the await-level server from a store with unique ids, each step
  keeps the ids unique, never changes a doctor's schedule, keeps every appointment at
  its position with its _id, and changes a status only between 'scheduled' and
  'missed', although a rebook's two saves act on documents it read before other
  requests ran.
\<close>

theorem await_status_moves:
  assumes "(await_step e)\<^sup>*\<^sup>* (await_of w0) F" "wf_db (store w0)" "await_step e F F'"
  shows "wf_db (store (aworld F')) \<and> doctorSchedules (store (aworld F')) = doctorSchedules (store w0) \<and>
         list_all2 status_move (appointments (store (aworld F))) (appointments (store (aworld F')))"
proof -
  obtain S where S: "(conc_step e)\<^sup>*\<^sup>* (server_of w0) S" "sim e F S" and inv: "ainv (store w0) F"
    using await_sim_reach[OF assms(1)] await_init[OF assms(2)] by blast
  obtain S' where S': "(conc_step e)\<^sup>*\<^sup>* S S'" "sim e F' S'"
    using await_sim_step[OF assms(3) inv S(2)] by blast
  have i0: "conc_inv (store w0) (server_of w0)" "status_inv (server_of w0)"
    using conc_inv_init[OF assms(2)] by (simp_all add: status_inv_def server_of_def)
  have "conc_inv (store w0) S" "status_inv S" using conc_star_moves[OF S(1) i0] by simp_all
  then have "list_all2 status_move (appointments (store (srv_world S))) (appointments (store (srv_world S')))"
    using conc_star_moves[OF S'(1)] by blast
  moreover have "ainv (store w0) F'" using ainv_step[OF assms(3) inv] by blast
  ultimately show ?thesis using S(2) S'(2) by (simp add: sim_def ainv_def)
qed

end
