(* ===== verification/Timer.thy ===== *)
theory Timer
  imports Reconcile
begin

text \<open>
  The timer of \<^verbatim>\<open>src/backend/index.js\<close> (lines 79--100):
  \<^verbatim>\<open>setInterval(callback, 60000)\<close> started at time \<open>start\<close> runs the callback at
  \<open>start + 60000\<close>, \<open>start + 120000\<close>, and so on.  \<open>timer_runs\<close> is the world after the
  first \<open>k\<close> runs when each run ends before the next begins (overlapping runs are the
  subject of \<open>Concurrency\<close>).  The lemmas show when an overdue appointment is marked:
  with a working SMS client exactly from the first run whose cutoff has passed its time,
  and with any client, even one whose every SMS throws, within as many further runs as
  the store has appointments.  A run that rejects ends here and the timer goes on, which
  is what Node does when it only logs unhandled rejections; \<open>Process\<close> shows that
  under Node's default since version 15 such a run ends the process instead.
\<close>

section \<open>The interval\<close>

text \<open>The delay argument of line 100.\<close>

definition interval_ms :: int where
  "interval_ms = 60000"

text \<open>The world after the first \<open>k\<close> runs; run \<open>k\<close> takes the time \<open>start + k * 60000\<close>.\<close>

fun timer_runs :: "'a runtime_scheme \<Rightarrow> time_ms \<Rightarrow> nat \<Rightarrow> world \<Rightarrow> world" where
  "timer_runs e start 0 w = w"
| "timer_runs e start (Suc k) w = fst (tick e (start + interval_ms * int (Suc k)) (timer_runs e start k w))"

section \<open>Measures of progress\<close>

text \<open>
  A list of documents that differs from an earlier one only in documents marked missed,
  and the number of documents still \<^verbatim>\<open>'scheduled'\<close>.
\<close>

definition marked_from :: "appointment list \<Rightarrow> appointment list \<Rightarrow> bool" where
  "marked_from xs ys \<longleftrightarrow> list_all2 (\<lambda>a b. b = a \<or> b = mark_missed a) xs ys"

definition scheduled_count :: "db \<Rightarrow> nat" where
  "scheduled_count s = length (filter (\<lambda>a. status a = ''scheduled'') (appointments s))"

section \<open>Lemmas\<close>

lemma marked_from_refl [simp]: "marked_from xs xs"
  by (simp add: marked_from_def list_all2_refl)

lemma marked_from_trans:
  "marked_from xs ys \<Longrightarrow> marked_from ys zs \<Longrightarrow> marked_from xs zs"
  unfolding marked_from_def
  by (rule list_all2_trans[rotated], assumption, assumption) auto

lemma marked_from_length: "marked_from xs ys \<Longrightarrow> length ys = length xs"
  by (simp add: marked_from_def list_all2_lengthD)

lemma marked_from_nth:
  "marked_from xs ys \<Longrightarrow> k < length xs \<Longrightarrow> ys ! k = xs ! k \<or> ys ! k = mark_missed (xs ! k)"
  by (simp add: marked_from_def list_all2_conv_all_nth)

lemma marked_from_save:
  assumes "marked_from xs (appointments s)"
  shows "marked_from xs (appointments (save_appointment i (\<lambda>b. b\<lparr>status := ''missed''\<rparr>) s))"
  unfolding marked_from_def list_all2_conv_all_nth
proof (intro conjI allI impI)
  show "length xs = length (appointments (save_appointment i (\<lambda>b. b\<lparr>status := ''missed''\<rparr>) s))"
    using marked_from_length[OF assms] by simp
next
  fix k assume k: "k < length xs"
  have kl: "k < length (appointments s)" using k marked_from_length[OF assms] by simp
  have old: "appointments s ! k = xs ! k \<or> appointments s ! k = mark_missed (xs ! k)"
    using marked_from_nth[OF assms k] .
  show "appointments (save_appointment i (\<lambda>b. b\<lparr>status := ''missed''\<rparr>) s) ! k = xs ! k \<or>
        appointments (save_appointment i (\<lambda>b. b\<lparr>status := ''missed''\<rparr>) s) ! k = mark_missed (xs ! k)"
    using nth_update_first_cases[OF kl, of "\<lambda>a. appt_id a = i" "\<lambda>b. b\<lparr>status := ''missed''\<rparr>"] old
    by (auto simp: save_appointment_def mark_missed_def)
qed

text \<open>A run of the loop only marks documents missed, whatever the notifications do.\<close>

lemma process_missed_marked:
  "marked_from (appointments (store w)) (appointments (store (fst (process_missed e as w))))"
  by (rule process_missed_store_inv[where P = "\<lambda>s. marked_from (appointments (store w)) (appointments s)"])
     (simp_all add: marked_from_save)

lemma tick_marked: "marked_from (appointments (store w)) (appointments (store (fst (tick e now w))))"
  by (simp add: tick_def process_missed_marked)

text \<open>The first appointment of the loop is marked before anything can throw.\<close>

lemma process_missed_marks_head:
  "marked_from (appointments (save_appointment (appt_id a) (\<lambda>b. b\<lparr>status := ''missed''\<rparr>) (store w)))
               (appointments (store (fst (process_missed e (a # as) w))))"
proof -
  let ?w1 = "w\<lparr>store := save_appointment (appt_id a) (\<lambda>b. b\<lparr>status := ''missed''\<rparr>) (store w)\<rparr>"
  obtain w2 r where n: "notify_patient e a ?w1 = (w2, r)" by (cases "notify_patient e a ?w1")
  have s2: "store w2 = store ?w1" using store_notify_patient[of e a ?w1] n by simp
  show ?thesis
  proof (cases r)
    case None
    then show ?thesis using n s2 process_missed_marked[of w2 e as] by simp
  next
    case (Some err)
    then show ?thesis using n s2 by simp
  qed
qed

lemma marked_from_scheduled:
  "marked_from xs ys \<Longrightarrow> k < length xs \<Longrightarrow> status (ys ! k) = ''scheduled'' \<Longrightarrow> ys ! k = xs ! k"
  using marked_from_nth by (fastforce simp: mark_missed_def)

lemma marked_from_missed:
  "marked_from xs ys \<Longrightarrow> k < length xs \<Longrightarrow> status (xs ! k) = ''missed'' \<Longrightarrow> status (ys ! k) = ''missed''"
  using marked_from_nth by (fastforce simp: mark_missed_def)

lemma count_marked_le:
  "marked_from xs ys \<Longrightarrow>
   length (filter (\<lambda>a. status a = ''scheduled'') ys) \<le> length (filter (\<lambda>a. status a = ''scheduled'') xs)"
  unfolding marked_from_def by (induction rule: list_all2_induct) (auto simp: mark_missed_def)

lemma count_marked_less:
  assumes "marked_from xs ys" "k < length xs" "status (xs ! k) = ''scheduled''" "status (ys ! k) \<noteq> ''scheduled''"
  shows "length (filter (\<lambda>a. status a = ''scheduled'') ys) < length (filter (\<lambda>a. status a = ''scheduled'') xs)"
  using assms unfolding marked_from_def
proof (induction arbitrary: k rule: list_all2_induct)
  case Nil
  then show ?case by simp
next
  case (Cons x xs y ys)
  have le: "length (filter (\<lambda>a. status a = ''scheduled'') ys) \<le> length (filter (\<lambda>a. status a = ''scheduled'') xs)"
    using count_marked_le Cons.hyps(2) by (simp add: marked_from_def)
  show ?case
  proof (cases k)
    case 0
    then show ?thesis using Cons.prems Cons.hyps(1) le by (auto simp: mark_missed_def)
  next
    case (Suc k')
    then show ?thesis using Cons.prems Cons.IH[of k'] Cons.hyps(1) by (auto simp: mark_missed_def)
  qed
qed

text \<open>A tick that finds an overdue appointment leaves fewer appointments scheduled.\<close>

lemma tick_progress:
  assumes "wf_db (store w)" "find_overdue (now - GRACE_PERIOD) (store w) \<noteq> []"
  shows "scheduled_count (store (fst (tick e now w))) < scheduled_count (store w)"
proof -
  obtain a as where fo: "find_overdue (now - GRACE_PERIOD) (store w) = a # as"
    using assms(2) by (cases "find_overdue (now - GRACE_PERIOD) (store w)") auto
  have "a \<in> set (appointments (store w))" "status a = ''scheduled''"
    using fo find_overdue_iff[of a "now - GRACE_PERIOD" "store w"] by (auto simp: overdue_def)
  then obtain p where p: "p < length (appointments (store w))" "appointments (store w) ! p = a"
    "status a = ''scheduled''"
    by (auto simp: in_set_conv_nth)
  let ?s1 = "save_appointment (appt_id a) (\<lambda>b. b\<lparr>status := ''missed''\<rparr>) (store w)"
  have m1: "marked_from (appointments (store w)) (appointments ?s1)"
    by (rule marked_from_save) simp
  have "status (appointments ?s1 ! p) = ''missed''"
    using p assms(1) by (simp add: appointments_save_wf)
  then have "length (filter (\<lambda>a. status a = ''scheduled'') (appointments ?s1)) <
             length (filter (\<lambda>a. status a = ''scheduled'') (appointments (store w)))"
    using count_marked_less[OF m1 p(1)] p by simp
  moreover have "length (filter (\<lambda>a. status a = ''scheduled'') (appointments (store (fst (tick e now w))))) \<le>
                 length (filter (\<lambda>a. status a = ''scheduled'') (appointments ?s1))"
    using count_marked_le[OF process_missed_marks_head[of a w e as]] fo by (simp add: tick_def)
  ultimately show ?thesis by (simp add: scheduled_count_def)
qed

section \<open>Runs of the timer\<close>

lemma timer_runs_add:
  "timer_runs e start (j + d) w = timer_runs e (start + interval_ms * int j) d (timer_runs e start j w)"
  by (induction d) (simp_all add: algebra_simps)

lemma timer_runs_marked:
  "marked_from (appointments (store w)) (appointments (store (timer_runs e start k w)))"
  by (induction k) (auto intro: marked_from_trans tick_marked)

lemma timer_runs_wf: "wf_db (store w) \<Longrightarrow> wf_db (store (timer_runs e start k w))"
  by (induction k) (simp_all add: tick_def wf_process_missed)

lemma timer_runs_length:
  "length (appointments (store (timer_runs e start k w))) = length (appointments (store w))"
  using marked_from_length[OF timer_runs_marked] .

text \<open>Every run after the cutoff has passed the appointment's time marks it or marks another.\<close>

lemma timer_countdown:
  assumes wf: "wf_db (store w)" and p: "p < length (appointments (store w))"
    and sch: "status (appointments (store w) ! p) = ''scheduled''"
    and tm: "scheduledTime (appointments (store w) ! p) = Some t"
    and due: "t + GRACE_PERIOD < start + interval_ms * int (Suc k0)"
  shows "status (appointments (store (timer_runs e start (k0 + j) w)) ! p) = ''missed'' \<or>
         scheduled_count (store (timer_runs e start (k0 + j) w)) + j \<le> scheduled_count (store (timer_runs e start k0 w))"
proof (induction j)
  case 0
  then show ?case by simp
next
  case (Suc j)
  let ?w = "timer_runs e start (k0 + j) w" and ?now = "start + interval_ms * int (Suc (k0 + j))"
  have run: "timer_runs e start (k0 + Suc j) w = fst (tick e ?now ?w)" by simp
  have mk: "marked_from (appointments (store ?w)) (appointments (store (fst (tick e ?now ?w))))"
    by (rule tick_marked)
  have pl: "p < length (appointments (store ?w))" using p by (simp add: timer_runs_length)
  show ?case
  proof (cases "status (appointments (store ?w) ! p) = ''scheduled''")
    case True
    have same: "appointments (store ?w) ! p = appointments (store w) ! p"
      using marked_from_scheduled[OF timer_runs_marked p True] .
    have "?now - GRACE_PERIOD > t" using due by (simp add: interval_ms_def)
    then have "appointments (store ?w) ! p \<in> set (find_overdue (?now - GRACE_PERIOD) (store ?w))"
      using same sch tm nth_mem[OF pl] by (simp add: find_overdue_iff overdue_def)
    then have "find_overdue (?now - GRACE_PERIOD) (store ?w) \<noteq> []" by auto
    then have "scheduled_count (store (fst (tick e ?now ?w))) < scheduled_count (store ?w)"
      by (rule tick_progress[OF timer_runs_wf[OF wf]])
    then show ?thesis using Suc.IH True run by simp
  next
    case False
    then have "status (appointments (store ?w) ! p) = ''missed''"
      using marked_from_nth[OF timer_runs_marked[of w e start "k0 + j"] p] sch by (auto simp: mark_missed_def)
    then show ?thesis using marked_from_missed[OF mk pl] run by simp
  qed
qed

text \<open>With a working SMS client a tick marks exactly the overdue appointments.\<close>

lemma tick_ok_map:
  assumes "wf_db (store w)" "sms_client_ok e"
  shows "appointments (store (fst (tick e now w))) =
           map (\<lambda>a. if overdue (now - GRACE_PERIOD) a then mark_missed a else a) (appointments (store w))"
  using process_missed_ok[OF assms, of "find_overdue (now - GRACE_PERIOD) (store w)"]
        mark_ids_filter[of "appointments (store w)" "overdue (now - GRACE_PERIOD)"] assms(1)
  by (simp add: tick_def wf_db_def find_overdue_def)

lemma timer_runs_ok_nth:
  assumes wf: "wf_db (store w)" and ok: "sms_client_ok e" and p: "p < length (appointments (store w))"
    and sch: "status (appointments (store w) ! p) = ''scheduled''"
    and tm: "scheduledTime (appointments (store w) ! p) = Some t"
  shows "appointments (store (timer_runs e start k w)) ! p =
           (if 0 < k \<and> t + GRACE_PERIOD < start + interval_ms * int k
            then mark_missed (appointments (store w) ! p) else appointments (store w) ! p)"
proof (induction k)
  case 0
  then show ?case by simp
next
  case (Suc k)
  let ?b = "appointments (store w) ! p" and ?now = "start + interval_ms * int (Suc k)"
  have pl: "p < length (appointments (store (timer_runs e start k w)))" using p by (simp add: timer_runs_length)
  have earlier: "start + interval_ms * int k < ?now" by (simp add: interval_ms_def)
  have "appointments (store (timer_runs e start (Suc k) w)) ! p =
          (if overdue (?now - GRACE_PERIOD) (appointments (store (timer_runs e start k w)) ! p)
           then mark_missed (appointments (store (timer_runs e start k w)) ! p)
           else appointments (store (timer_runs e start k w)) ! p)"
    using tick_ok_map[OF timer_runs_wf[OF wf, of e start k] ok, of ?now] pl by simp
  then show ?case
    using Suc.IH sch tm earlier by (auto simp: overdue_def mark_missed_def)
qed

section \<open>When an overdue appointment is marked\<close>

text \<open>
  C29: With a working SMS client, an appointment that is 'scheduled' at time t is marked 'missed' by the k-th run of the 60-second timer exactly when k > 0 and the run's time exceeds t plus the 15-minute grace period: it is detected by the first run past t + 15 min, so at most 60 seconds after that, and never earlier.
\<close>

theorem timer_detection_time:
  assumes "wf_db (store w)" "sms_client_ok e" "p < length (appointments (store w))"
    and "status (appointments (store w) ! p) = ''scheduled''"
    and "scheduledTime (appointments (store w) ! p) = Some t"
  shows "status (appointments (store (timer_runs e start k w)) ! p) = ''missed'' \<longleftrightarrow>
         0 < k \<and> t + GRACE_PERIOD < start + interval_ms * int k"
  using timer_runs_ok_nth[OF assms, of start k] assms(4) by (simp add: mark_missed_def)

text \<open>
  C30: Whatever the SMS client does, even when every notification throws and ends its run (the process surviving the rejected run, as under Node before 15 or with --unhandled-rejections=warn), an appointment that is 'scheduled' at time t is 'missed' after every run of the timer from run k0 + n on, where run k0 + 1 is the first whose time exceeds t plus the grace period and n is the number of appointments: each later run marks at least one more appointment before anything can throw.
\<close>

theorem timer_marks_eventually:
  assumes wf: "wf_db (store w)" and p: "p < length (appointments (store w))"
    and sch: "status (appointments (store w) ! p) = ''scheduled''"
    and tm: "scheduledTime (appointments (store w) ! p) = Some t"
    and due: "t + GRACE_PERIOD < start + interval_ms * int (Suc k0)"
    and k: "k0 + length (appointments (store w)) \<le> k"
  shows "status (appointments (store (timer_runs e start k w)) ! p) = ''missed''"
proof -
  let ?N = "length (appointments (store w))"
  let ?W = "timer_runs e start (k0 + ?N) w"
  have pl: "p < length (appointments (store ?W))" using p by (simp add: timer_runs_length)
  have missed: "status (appointments (store ?W) ! p) = ''missed''"
  proof (rule ccontr)
    assume nm: "status (appointments (store ?W) ! p) \<noteq> ''missed''"
    have c: "scheduled_count (store ?W) + ?N \<le> scheduled_count (store (timer_runs e start k0 w))"
      using timer_countdown[OF wf p sch tm due, of e ?N] nm by simp
    have "scheduled_count (store (timer_runs e start k0 w)) \<le> ?N"
      using length_filter_le[of _ "appointments (store (timer_runs e start k0 w))"]
      by (simp add: scheduled_count_def timer_runs_length)
    moreover have "status (appointments (store ?W) ! p) = ''scheduled''"
      using marked_from_nth[OF timer_runs_marked[of w e start "k0 + ?N"] p] sch nm
      by (auto simp: mark_missed_def)
    then have "0 < scheduled_count (store ?W)"
      using nth_mem[OF pl] by (auto simp: scheduled_count_def filter_empty_conv)
    ultimately show False using c by simp
  qed
  obtain d where kd: "k = (k0 + ?N) + d" using k le_Suc_ex by blast
  have "marked_from (appointments (store ?W))
          (appointments (store (timer_runs e (start + interval_ms * int (k0 + ?N)) d ?W)))"
    by (rule timer_runs_marked)
  then show ?thesis using marked_from_missed[OF _ pl missed] kd timer_runs_add[of e start "k0 + ?N" d w] by simp
qed

end
