(* ===== verification/Process.thy ===== *)
theory Process
  imports Server
begin

text \<open>
  The Node process of \<^verbatim>\<open>src/backend/index.js\<close> from module load on.  Loading the
  module creates the Express app (lines 9--11), starts connecting to MongoDB without
  awaiting or catching the promise of \<^verbatim>\<open>mongoose.connect\<close> (line 14), registers
  the connection's \<^verbatim>\<open>'error'\<close> and \<^verbatim>\<open>'open'\<close> handlers (lines 16--20), starts
  the timer (line 79), registers the routes and calls \<^verbatim>\<open>app.listen(3030)\<close>
  (lines 177--181).  From then on the process reacts to events: the connection opens or
  fails, the server starts listening, a request arrives, the timer fires.  While the
  connection is not open Mongoose buffers every operation and rejects it with a
  \<^verbatim>\<open>MongooseError\<close> when the buffer times out.  A promise that rejects with no
  handler (a route handler's or the timer callback's, which neither Express 4 nor
  \<^verbatim>\<open>setInterval\<close> awaits, or the connect promise) is an unhandled rejection:
  since Node 15 the default (\<^verbatim>\<open>--unhandled-rejections=throw\<close>) ends the process,
  before it (or with \<^verbatim>\<open>warn\<close>) Node only logs it.  The code pins no Node version,
  so the flag \<open>exits\<close> chooses.
\<close>

section \<open>Process state\<close>

datatype conn_state = Connecting | Connected | ConnFailed

text \<open>Work waiting for the connection: a request at its first query, or a timer run at its query.\<close>

datatype waiter = WaitReq request | WaitTick time_ms

datatype proc_event = DbOpen | DbError | BufferTimeout | Listening | Req request | TimerRun time_ms

record node_process =
  proc_world :: world
  conn :: conn_state
  listening :: bool
  alive :: bool
  waiting :: "waiter list"
  answered :: "(request \<times> http_reply) list"
  console :: "string list"

section \<open>Start-up\<close>

text \<open>\<^verbatim>\<open>const PORT = 3030\<close> (line 178) and the message the listen callback logs (line 180).\<close>

definition PORT :: nat where
  "PORT = 3030"

definition listen_message :: string where
  "listen_message = ''Server running on http://localhost:'' @ dec PORT"

text \<open>The process right after the module has run: connecting, not yet listening.\<close>

definition boot :: "world \<Rightarrow> node_process" where
  "boot w = \<lparr>proc_world = w, conn = Connecting, listening = False, alive = True, waiting = [],
             answered = [], console = []\<rparr>"

section \<open>Handling an event\<close>

definition unhandled_rejection :: "bool \<Rightarrow> node_process \<Rightarrow> node_process" where
  "unhandled_rejection exits P = (if exits then P\<lparr>alive := False\<rparr> else P)"

text \<open>The routes whose handlers query the database before anything else.\<close>

definition uses_db :: "route option \<Rightarrow> bool" where
  "uses_db r = (case r of Some (SlotsRoute d) \<Rightarrow> True | Some RebookRoute \<Rightarrow> True
                         | Some (MissedRoute p) \<Rightarrow> True | _ \<Rightarrow> False)"

definition handle_request :: "'a runtime_scheme \<Rightarrow> bool \<Rightarrow> request \<Rightarrow> node_process \<Rightarrow> node_process" where
  "handle_request e exits req P =
     (case serve e req (proc_world P) of
        (Some r, w') \<Rightarrow> P\<lparr>proc_world := w', answered := answered P @ [(req, r)]\<rparr>
      | (None, w') \<Rightarrow> unhandled_rejection exits (P\<lparr>proc_world := w'\<rparr>))"

definition handle_tick :: "'a runtime_scheme \<Rightarrow> bool \<Rightarrow> time_ms \<Rightarrow> node_process \<Rightarrow> node_process" where
  "handle_tick e exits now P =
     (case tick e now (proc_world P) of
        (w', None) \<Rightarrow> P\<lparr>proc_world := w'\<rparr>
      | (w', Some err) \<Rightarrow> unhandled_rejection exits (P\<lparr>proc_world := w'\<rparr>))"

text \<open>A buffered operation runs once the connection opens.\<close>

fun run_waiter :: "'a runtime_scheme \<Rightarrow> bool \<Rightarrow> waiter \<Rightarrow> node_process \<Rightarrow> node_process" where
  "run_waiter e exits (WaitReq req) P = handle_request e exits req P"
| "run_waiter e exits (WaitTick now) P = handle_tick e exits now P"

text \<open>
  A buffered operation that times out rejects: the missed-appointment handler catches it
  and answers 500 (lines 154--156); the slot finder and the rebook handler do not catch,
  nor does the timer callback.
\<close>

fun time_out_waiter :: "bool \<Rightarrow> waiter \<Rightarrow> node_process \<Rightarrow> node_process" where
  "time_out_waiter exits (WaitReq req) P =
     (case match_route (req_method req) (req_path req) of
        Some (MissedRoute p) \<Rightarrow> P\<lparr>answered := answered P @ [(req, missed_reply (Thrown MongooseError))]\<rparr>
      | _ \<Rightarrow> unhandled_rejection exits P)"
| "time_out_waiter exits (WaitTick now) P = unhandled_rejection exits P"

text \<open>The buffered operations resume in the order they were issued, until the process ends.\<close>

fun resume_all :: "(waiter \<Rightarrow> node_process \<Rightarrow> node_process) \<Rightarrow> waiter list \<Rightarrow> node_process \<Rightarrow> node_process" where
  "resume_all f [] P = P"
| "resume_all f (x # xs) P = (if alive P then resume_all f xs (f x P) else P)"

text \<open>
  One event.  \<^verbatim>\<open>db.once('open', ...)\<close> logs once (lines 18--20); an
  \<^verbatim>\<open>'error'\<close> is logged (line 17), and while connecting it also rejects the promise
  of line 14.  A request before the server listens is refused.
\<close>

definition proc_step :: "'a runtime_scheme \<Rightarrow> bool \<Rightarrow> proc_event \<Rightarrow> node_process \<Rightarrow> node_process" where
  "proc_step e exits ev P =
     (if \<not> alive P then P
      else case ev of
        DbOpen \<Rightarrow>
          (if conn P = Connecting
           then resume_all (run_waiter e exits) (waiting P)
                  (P\<lparr>conn := Connected, waiting := [], console := console P @ [''Connected to MongoDB'']\<rparr>)
           else P)
      | DbError \<Rightarrow>
          (if conn P = Connecting
           then unhandled_rejection exits (P\<lparr>conn := ConnFailed, console := console P @ [''connection error:'']\<rparr>)
           else P\<lparr>console := console P @ [''connection error:'']\<rparr>)
      | BufferTimeout \<Rightarrow>
          (if conn P = Connected then P
           else resume_all (time_out_waiter exits) (waiting P) (P\<lparr>waiting := []\<rparr>))
      | Listening \<Rightarrow>
          (if listening P then P else P\<lparr>listening := True, console := console P @ [listen_message]\<rparr>)
      | Req req \<Rightarrow>
          (if \<not> listening P then P
           else if conn P = Connected \<or> \<not> uses_db (match_route (req_method req) (req_path req))
           then handle_request e exits req P
           else P\<lparr>waiting := waiting P @ [WaitReq req]\<rparr>)
      | TimerRun now \<Rightarrow>
          (if conn P = Connected then handle_tick e exits now P
           else P\<lparr>waiting := waiting P @ [WaitTick now]\<rparr>))"

fun proc_run :: "'a runtime_scheme \<Rightarrow> bool \<Rightarrow> proc_event list \<Rightarrow> node_process \<Rightarrow> node_process" where
  "proc_run e exits [] P = P"
| "proc_run e exits (ev # evs) P = proc_run e exits evs (proc_step e exits ev P)"

section \<open>Lemmas\<close>

lemma proc_step_dead [simp]: "\<not> alive P \<Longrightarrow> proc_step e exits ev P = P"
  by (simp add: proc_step_def)

lemma proc_run_dead: "\<not> alive P \<Longrightarrow> proc_run e exits evs P = P"
  by (induction evs) simp_all

lemma proc_run_append: "proc_run e exits (xs @ ys) P = proc_run e exits ys (proc_run e exits xs P)"
  by (induction xs arbitrary: P) simp_all

text \<open>A rejected rebook leaves the store as it was.\<close>

lemma rebook_Thrown_store: "fst (rebook e body s) = Thrown err \<Longrightarrow> snd (rebook e body s) = s"
  using rebook_outcome[of e body s] by auto

lemma handle_request_GET:
  "req_method req = GET \<Longrightarrow>
   handle_request e exits req P = P\<lparr>answered := answered P @ [(req, the (fst (serve e req (proc_world P))))]\<rparr>"
  by (simp add: handle_request_def serve_GET)

text \<open>Requests that query the database wait while the connection is being made.\<close>

lemma proc_run_buffer:
  assumes "alive P" "listening P" "conn P = Connecting"
    and "\<forall>req\<in>set reqs. uses_db (match_route (req_method req) (req_path req))"
  shows "proc_run e exits (map Req reqs) P = P\<lparr>waiting := waiting P @ map WaitReq reqs\<rparr>"
  using assms by (induction reqs arbitrary: P) (simp_all add: proc_step_def)

lemma resume_gets:
  assumes "alive P" "\<forall>req\<in>set reqs. req_method req = GET"
  shows "resume_all (run_waiter e exits) (map WaitReq reqs) P =
           P\<lparr>answered := answered P @ map (\<lambda>req. (req, the (fst (serve e req (proc_world P))))) reqs\<rparr>"
  using assms by (induction reqs arbitrary: P) (simp_all add: handle_request_GET)

text \<open>
  C19: Requests for slots or missed appointments that reach the freshly started server after it listens but before the database connection opens are not lost: when the connection opens they are answered in the order they arrived, each as the handler answers it on the store as it was, and the console shows the two start-up messages.
\<close>

theorem boot_serves_buffered:
  assumes "\<forall>req\<in>set reqs. req_method req = GET \<and> uses_db (match_route (req_method req) (req_path req))"
  shows "proc_run e exits (Listening # map Req reqs @ [DbOpen]) (boot w) =
           (boot w)\<lparr>conn := Connected, listening := True,
                     answered := map (\<lambda>req. (req, the (fst (serve e req w)))) reqs,
                     console := [listen_message, ''Connected to MongoDB'']\<rparr>"
proof -
  let ?P1 = "(boot w)\<lparr>listening := True, console := [listen_message]\<rparr>"
  have l: "proc_step e exits Listening (boot w) = ?P1" by (simp add: proc_step_def boot_def)
  have u: "\<forall>req\<in>set reqs. uses_db (match_route (req_method req) (req_path req))"
    and g: "\<forall>req\<in>set reqs. req_method req = GET" using assms by auto
  have b: "proc_run e exits (map Req reqs) ?P1 = ?P1\<lparr>waiting := map WaitReq reqs\<rparr>"
    using proc_run_buffer[of ?P1 reqs e exits, OF _ _ _ u] by (simp add: boot_def)
  have o: "proc_step e exits DbOpen (?P1\<lparr>waiting := map WaitReq reqs\<rparr>) =
             resume_all (run_waiter e exits) (map WaitReq reqs)
               (?P1\<lparr>conn := Connected, console := [listen_message, ''Connected to MongoDB'']\<rparr>)"
    by (simp add: proc_step_def boot_def)
  show ?thesis
    using resume_gets[of "?P1\<lparr>conn := Connected, console := [listen_message, ''Connected to MongoDB'']\<rparr>" reqs e exits, OF _ g]
    by (simp add: proc_run_append l b o) (simp add: boot_def)
qed

text \<open>
  C17: A request to rebook a missed appointment whose doctor has no schedule document (reading doctorSchedule.availableSlots at line 124 throws a TypeError that nothing catches, so the handler's promise rejects) stops the whole server when the process exits on unhandled rejections, as Node does by default since version 15: afterwards no request is answered and the timer never runs again. Where Node only logs the rejection the request stays unanswered and nothing else changes.
\<close>

theorem rejected_rebook_stops_server:
  assumes "alive P" "listening P" "conn P = Connected"
    and "match_route (req_method req) (req_path req) = Some RebookRoute"
    and "find_by_id e (store (proc_world P)) (js_get (req_body req) ''appointmentId'') = Normal (Some a)"
    and "status a = ''missed''" "find_schedule (store (proc_world P)) (doctorId a) = None"
  shows "\<not> alive (proc_step e True (Req req) P) \<and>
         proc_run e True evs (proc_step e True (Req req) P) = proc_step e True (Req req) P \<and>
         proc_step e False (Req req) P = P"
proof -
  have "rebook e (req_body req) (store (proc_world P)) = (Thrown TypeError, store (proc_world P))"
    using assms(5-7) by (simp add: rebook_def Let_def)
  then have "serve e req (proc_world P) = (None, proc_world P)"
    using assms(4) by (simp add: serve_def)
  then have "proc_step e x (Req req) P = unhandled_rejection x P" for x
    using assms(1-3) by (simp add: proc_step_def handle_request_def)
  then show ?thesis by (simp add: unhandled_rejection_def proc_run_dead)
qed

text \<open>
  C24: A timer run on a host where the SMS client cannot be built (twilio('', '') at line 63, outside the try), whose query finds an overdue appointment whose doctor offers slots, rejects; the rejection stops the whole server when the process exits on unhandled rejections: the remaining overdue appointments are never marked and no request is answered any more. Where Node only logs the rejection, the server keeps running with what the run saved.
\<close>

theorem rejected_tick_stops_server:
  assumes "alive P" "conn P = Connected" "wf_db (store (proc_world P))" "\<not> sms_client_ok e"
    and "find_overdue (now - GRACE_PERIOD) (store (proc_world P)) = xs @ a # ys"
    and "\<forall>x\<in>set xs. expected_notices e (store (proc_world P)) x = []"
    and "expected_notices e (store (proc_world P)) a \<noteq> []"
  shows "\<not> alive (proc_step e True (TimerRun now) P) \<and>
         proc_run e True evs (proc_step e True (TimerRun now) P) = proc_step e True (TimerRun now) P \<and>
         alive (proc_step e False (TimerRun now) P) \<and>
         proc_world (proc_step e False (TimerRun now) P) = fst (tick e now (proc_world P))"
proof -
  have err: "snd (tick e now (proc_world P)) = Some ClientInitError"
    using process_missed_client_fails[OF assms(3,4,6,7), of ys] assms(5) by (simp add: tick_def)
  have "proc_step e x (TimerRun now) P = unhandled_rejection x (P\<lparr>proc_world := fst (tick e now (proc_world P))\<rparr>)" for x
    using assms(1,2) err by (cases "tick e now (proc_world P)") (simp add: proc_step_def handle_tick_def)
  then show ?thesis using assms(1) by (simp add: unhandled_rejection_def proc_run_dead)
qed

end
