(* ===== verification/Scenarios.thy ===== *)
theory Scenarios
  imports App Await Timer Process
begin

text \<open>
  Concrete inputs on which the component theorems are applied: a host in UTC whose
  \<^verbatim>\<open>Date.parse\<close> reads back the \<^verbatim>\<open>toString\<close> rendering of the two offered
  slots, a Mongoose cast that accepts 24-character ids, and the situation of the
  specification's scenario (doctor \<open>doc1\<close> offers \<open>T1\<close> and \<open>T2\<close>; appointment
  \<open>A\<close> was due twenty minutes before the tick at \<open>T0\<close>), and the page after
  choosing \<open>doc1\<close> and then its first slot.
\<close>

section \<open>Fixtures\<close>

definition T0 :: time_ms where "T0 = 1704096000000"
definition T1 :: time_ms where "T1 = 1704103200000"
definition T2 :: time_ms where "T2 = 1704106800000"

definition utc_js :: js_env where
  "utc_js = \<lparr>tz_offset = (\<lambda>_. 0), tz_name = (\<lambda>_. ''Coordinated Universal Time''),
             date_parse = (\<lambda>_. None)\<rparr>"

definition demo_cast :: "jsval \<Rightarrow> id_cast" where
  "demo_cast v = (case v of
      JStr s \<Rightarrow> if length s = 24 then CastId s else CastFails
    | JUndef \<Rightarrow> CastNoMatch
    | JNull \<Rightarrow> CastNoMatch
    | _ \<Rightarrow> CastFails)"

definition demo_rt :: runtime where
  "demo_rt = \<lparr>tz_offset = (\<lambda>_. 0), tz_name = (\<lambda>_. ''Coordinated Universal Time''),
              date_parse = (\<lambda>s. find (\<lambda>t. date_to_string utc_js t = s) [T1, T2]),
              cast_oid = demo_cast,
              mail_delivers = (\<lambda>_. False), sms_delivers = (\<lambda>_. True), sms_client_ok = True\<rparr>"

definition idA :: oid where "idA = ''65a000000000000000000001''"
definition idB :: oid where "idB = ''65a000000000000000000002''"

definition appt_A :: appointment where
  "appt_A = new_appointment idA ''p1'' ''doc1'' (T0 - 1200000)"

definition appt_B :: appointment where
  "appt_B = new_appointment idB ''p2'' ''doc1'' (T0 - 1800000)"

definition sched_doc1 :: doctor_schedule where
  "sched_doc1 = \<lparr>sched_id = ''65b000000000000000000001'', sched_doctorId = ''doc1'',
                 availableSlots = [T1, T2]\<rparr>"

definition demo_world :: world where
  "demo_world = \<lparr>store = \<lparr>appointments = [appt_A], doctorSchedules = [sched_doc1]\<rparr>, outbox = []\<rparr>"

definition missed_db :: db where
  "missed_db = \<lparr>appointments = [appt_A\<lparr>status := ''missed''\<rparr>], doctorSchedules = [sched_doc1]\<rparr>"

definition rebook_body :: "jsval \<Rightarrow> jsval" where
  "rebook_body slot = JObj [(''appointmentId'', JStr idA), (''newSlot'', slot)]"

definition two_overdue :: world where
  "two_overdue = \<lparr>store = \<lparr>appointments = [appt_A, appt_B], doctorSchedules = [sched_doc1]\<rparr>, outbox = []\<rparr>"

definition no_schedule_db :: db where
  "no_schedule_db = \<lparr>appointments = [appt_A\<lparr>status := ''missed''\<rparr>], doctorSchedules = []\<rparr>"

text \<open>A store that also holds a completed appointment of \<open>doc1\<close>, due an hour before \<open>T0\<close>.\<close>

definition appt_C :: appointment where
  "appt_C = (new_appointment ''65a000000000000000000003'' ''p3'' ''doc1'' (T0 - 3600000))\<lparr>status := ''completed''\<rparr>"

definition done_world :: world where
  "done_world = \<lparr>store = \<lparr>appointments = [appt_A, appt_C], doctorSchedules = [sched_doc1]\<rparr>, outbox = []\<rparr>"

text \<open>The page after choosing \<open>doc1\<close>, and after also choosing its first slot.\<close>

definition page_doc1 :: app_state where
  "page_doc1 = app_init\<lparr>selectedDoctor := ''doc1'', ui_availableSlots := iso_slots [T1, T2]\<rparr>"

definition page_doc1_T1 :: app_state where
  "page_doc1_T1 = page_doc1\<lparr>ui_newSlot := date_to_iso T1\<rparr>"

lemmas fixture_defs =
  T0_def T1_def T2_def demo_cast_def idA_def idB_def appt_A_def appt_B_def sched_doc1_def
  demo_world_def missed_db_def rebook_body_def new_appointment_def two_overdue_def no_schedule_db_def

section \<open>Facts about the fixtures\<close>

lemma demo_render: "date_to_string demo_rt t = date_to_string utc_js t"
  by (rule date_to_string_cong) (simp_all add: demo_rt_def utc_js_def)

lemma demo_parse_T1: "date_parse demo_rt (date_to_string demo_rt T1) = Some T1"
  by (simp only: demo_render) (simp add: demo_rt_def)

lemma demo_parse_T2: "date_parse demo_rt (date_to_string demo_rt T2) = Some T2"
proof -
  have "date_to_string utc_js T1 \<noteq> date_to_string utc_js T2"
    by code_simp
  then show ?thesis by (simp only: demo_render) (simp add: demo_rt_def)
qed

lemma wf_demo_world: "wf_db (store demo_world)"
  by (simp add: wf_db_def fixture_defs)

lemma wf_missed_db: "wf_db missed_db"
  by (simp add: wf_db_def fixture_defs)

lemma cast_demo [simp]: "cast_oid demo_rt = demo_cast"
  by (simp add: demo_rt_def)
lemma sms_ok_demo [simp]: "sms_client_ok demo_rt"
  by (simp add: demo_rt_def)

lemma rebook_demo_ok:
  "rebook demo_rt (rebook_body (JStr (date_to_string demo_rt T1))) missed_db =
   (Normal (Reply 200 (JObj [(''message'', JStr ''Appointment rescheduled successfully''),
      (''appointment'', appointment_json (rebooked T1 (appt_A\<lparr>status := ''missed''\<rparr>)))])),
    \<lparr>appointments = [rebooked T1 (appt_A\<lparr>status := ''missed''\<rparr>)], doctorSchedules = [sched_doc1]\<rparr>)"
  by (simp add: rebook_def find_by_id_def demo_cast_def find_schedule_def mongoose_includes_def
        demo_parse_T1[unfolded T1_def] save_appointment_def save_schedule_def fixture_defs Let_def)

section \<open>The component theorems at concrete inputs\<close>

theorem tick_marks_overdue_witness:
  "wf_db (store demo_world) \<and> sms_client_ok demo_rt \<and>
   snd (tick demo_rt T0 demo_world) = None \<and>
   appointments (store (fst (tick demo_rt T0 demo_world))) = [appt_A\<lparr>status := ''missed''\<rparr>] \<and>
   doctorSchedules (store (fst (tick demo_rt T0 demo_world))) = [sched_doc1]"
proof -
  have h: "wf_db (store demo_world)" "sms_client_ok demo_rt" by (rule wf_demo_world) simp
  have o: "overdue (T0 - GRACE_PERIOD) appt_A" by (simp add: overdue_def fixture_defs GRACE_PERIOD_def)
  show ?thesis
    using Reconcile.tick_marks_overdue[OF h, of T0] h o by (simp add: demo_world_def)
qed

theorem tick_notices_witness:
  "wf_db (store demo_world) \<and> sms_client_ok demo_rt \<and>
   map notice_of (outbox (fst (tick demo_rt T0 demo_world))) =
     [(EmailChannel, JStr '''', JStr (compose_message demo_rt [T1, T2])),
      (SmsChannel, JStr '''', JStr (compose_message demo_rt [T1, T2]))]"
proof -
  have h: "wf_db (store demo_world)" "sms_client_ok demo_rt" by (rule wf_demo_world) simp
  have o: "find_overdue (T0 - GRACE_PERIOD) (store demo_world) = [appt_A]"
    by (simp add: find_overdue_def overdue_def fixture_defs GRACE_PERIOD_def)
  have n: "expected_notices demo_rt (store demo_world) appt_A =
     [(EmailChannel, JStr '''', JStr (compose_message demo_rt [T1, T2])),
      (SmsChannel, JStr '''', JStr (compose_message demo_rt [T1, T2]))]"
    by (simp add: expected_notices_def find_schedule_def fixture_defs Let_def)
  show ?thesis
    using Reconcile.tick_notices[OF h, of T0] h o n by (simp add: demo_world_def)
qed

theorem tick_client_failure_witness:
  "wf_db (store two_overdue) \<and> \<not> sms_client_ok (demo_rt\<lparr>sms_client_ok := False\<rparr>) \<and>
   find_overdue (T0 - GRACE_PERIOD) (store two_overdue) = [] @ appt_A # [appt_B] \<and>
   expected_notices (demo_rt\<lparr>sms_client_ok := False\<rparr>) (store two_overdue) appt_A \<noteq> [] \<and>
   snd (tick (demo_rt\<lparr>sms_client_ok := False\<rparr>) T0 two_overdue) = Some ClientInitError \<and>
   appt_B \<in> set (appointments (store (fst (tick (demo_rt\<lparr>sms_client_ok := False\<rparr>) T0 two_overdue)))) \<and>
   status appt_B = ''scheduled''"
proof -
  let ?e = "demo_rt\<lparr>sms_client_ok := False\<rparr>"
  have h1: "wf_db (store two_overdue)" by (simp add: wf_db_def two_overdue_def fixture_defs)
  have h2: "\<not> sms_client_ok ?e" by simp
  have h3: "find_overdue (T0 - GRACE_PERIOD) (store two_overdue) = [] @ appt_A # [appt_B]"
    by (simp add: find_overdue_def overdue_def fixture_defs GRACE_PERIOD_def)
  have h4: "\<forall>x\<in>set []. expected_notices ?e (store two_overdue) x = []" by simp
  have h5: "expected_notices ?e (store two_overdue) appt_A \<noteq> []"
    by (simp add: expected_notices_def find_schedule_def fixture_defs Let_def)
  show ?thesis
    using Reconcile.tick_client_failure[OF h1 h2 h3 h4 h5] h1 h2 h3 h5 by simp
qed

theorem rebook_keeps_schedules_witness:
  "wf_db missed_db \<and>
   doctorSchedules (snd (rebook demo_rt (rebook_body (JStr (date_to_string demo_rt T1))) missed_db)) = [sched_doc1]"
  using Rebook.rebook_keeps_schedules[OF wf_missed_db] wf_missed_db by (simp add: missed_db_def)

theorem rebook_success_witness:
  "\<exists>b s'. rebook demo_rt (rebook_body (JStr (date_to_string demo_rt T1))) missed_db = (Normal (Reply 200 b), s') \<and>
     wf_db missed_db \<and>
     (\<exists>a sch t0 t.
        find_by_id demo_rt missed_db (js_get (rebook_body (JStr (date_to_string demo_rt T1))) ''appointmentId'') = Normal (Some a) \<and>
        status a = ''missed'' \<and> find_schedule missed_db (doctorId a) = Some sch \<and> t0 \<in> set (availableSlots sch) \<and>
        js_get (rebook_body (JStr (date_to_string demo_rt T1))) ''newSlot'' = JStr (date_to_string demo_rt t0) \<and>
        date_parse demo_rt (date_to_string demo_rt t0) = Some t \<and>
        appointments s' = map (\<lambda>x. if appt_id x = appt_id a then rebooked t x else x) (appointments missed_db) \<and>
        doctorSchedules s' = doctorSchedules missed_db)"
  using Rebook.rebook_success[OF rebook_demo_ok wf_missed_db] wf_missed_db rebook_demo_ok by blast


theorem rebook_no_mutation_witness:
  "(\<forall>b. fst (rebook demo_rt (rebook_body (JNum T1)) missed_db) \<noteq> Normal (Reply 200 b)) \<and>
   snd (rebook demo_rt (rebook_body (JNum T1)) missed_db) = missed_db"
proof -
  have r: "rebook demo_rt (rebook_body (JNum T1)) missed_db = (Normal slot_unavailable_reply, missed_db)"
    by (simp add: rebook_def find_by_id_def demo_cast_def find_schedule_def mongoose_includes_def
          fixture_defs Let_def)
  have h: "\<forall>b. fst (rebook demo_rt (rebook_body (JNum T1)) missed_db) \<noteq> Normal (Reply 200 b)"
    by (simp add: r slot_unavailable_reply_def)
  show ?thesis using Rebook.rebook_no_mutation[OF h] h by simp
qed

theorem rebook_rejects_iso_slot_witness:
  "js_get (rebook_body (JStr (date_to_iso T1))) ''newSlot'' = JStr (date_to_iso T1) \<and>
   (\<forall>b. fst (rebook demo_rt (rebook_body (JStr (date_to_iso T1))) missed_db) \<noteq> Normal (Reply 200 b))"
proof -
  have h: "js_get (rebook_body (JStr (date_to_iso T1))) ''newSlot'' = JStr (date_to_iso T1)"
    by (simp add: rebook_body_def)
  show ?thesis using Rebook.rebook_rejects_iso_slot[OF h] h by blast
qed

theorem rebook_missing_schedule_witness:
  "find_by_id demo_rt no_schedule_db (js_get (rebook_body (JStr (date_to_string demo_rt T1))) ''appointmentId'') =
     Normal (Some (appt_A\<lparr>status := ''missed''\<rparr>)) \<and>
   status (appt_A\<lparr>status := ''missed''\<rparr>) = ''missed'' \<and>
   find_schedule no_schedule_db (doctorId (appt_A\<lparr>status := ''missed''\<rparr>)) = None \<and>
   rebook demo_rt (rebook_body (JStr (date_to_string demo_rt T1))) no_schedule_db = (Thrown TypeError, no_schedule_db)"
proof -
  have h1: "find_by_id demo_rt no_schedule_db (js_get (rebook_body (JStr (date_to_string demo_rt T1))) ''appointmentId'') =
     Normal (Some (appt_A\<lparr>status := ''missed''\<rparr>))"
    by (simp add: find_by_id_def demo_cast_def fixture_defs)
  have h2: "status (appt_A\<lparr>status := ''missed''\<rparr>) = ''missed''" by simp
  have h3: "find_schedule no_schedule_db (doctorId (appt_A\<lparr>status := ''missed''\<rparr>)) = None"
    by (simp add: find_schedule_def fixture_defs)
  show ?thesis using Rebook.rebook_missing_schedule[OF h1 h2 h3] h1 h3 by simp
qed

theorem rebook_invalid_appointment_witness:
  "find_by_id demo_rt (store demo_world) (js_get (rebook_body (JStr (date_to_string demo_rt T1))) ''appointmentId'') =
     Normal (Some appt_A) \<and>
   (Some appt_A = None \<or> status (the (Some appt_A)) \<noteq> ''missed'') \<and>
   rebook demo_rt (rebook_body (JStr (date_to_string demo_rt T1))) (store demo_world) =
     (Normal invalid_appointment_reply, store demo_world)"
proof -
  have h1: "find_by_id demo_rt (store demo_world) (js_get (rebook_body (JStr (date_to_string demo_rt T1))) ''appointmentId'') =
     Normal (Some appt_A)"
    by (simp add: find_by_id_def demo_cast_def demo_world_def fixture_defs)
  have h2: "Some appt_A = None \<or> status (the (Some appt_A)) \<noteq> ''missed''"
    by (simp add: fixture_defs)
  show ?thesis using Rebook.rebook_invalid_appointment[OF h1 h2] h1 h2 by simp
qed

theorem rebook_slot_unavailable_witness:
  "find_by_id demo_rt missed_db (js_get (rebook_body (JStr (date_to_iso T1))) ''appointmentId'') =
     Normal (Some (appt_A\<lparr>status := ''missed''\<rparr>)) \<and>
   status (appt_A\<lparr>status := ''missed''\<rparr>) = ''missed'' \<and>
   find_schedule missed_db (doctorId (appt_A\<lparr>status := ''missed''\<rparr>)) = Some sched_doc1 \<and>
   js_get (rebook_body (JStr (date_to_iso T1))) ''newSlot'' \<noteq> JStr (date_to_string demo_rt T1) \<and>
   js_get (rebook_body (JStr (date_to_iso T1))) ''newSlot'' \<noteq> JStr (date_to_string demo_rt T2) \<and>
   rebook demo_rt (rebook_body (JStr (date_to_iso T1))) missed_db = (Normal slot_unavailable_reply, missed_db)"
proof -
  have h1: "find_by_id demo_rt missed_db (js_get (rebook_body (JStr (date_to_iso T1))) ''appointmentId'') =
     Normal (Some (appt_A\<lparr>status := ''missed''\<rparr>))"
    by (simp add: find_by_id_def demo_cast_def missed_db_def fixture_defs)
  have h2: "status (appt_A\<lparr>status := ''missed''\<rparr>) = ''missed''" by simp
  have h3: "find_schedule missed_db (doctorId (appt_A\<lparr>status := ''missed''\<rparr>)) = Some sched_doc1"
    by (simp add: find_schedule_def missed_db_def fixture_defs)
  have h4: "\<forall>t\<in>set (availableSlots sched_doc1).
      js_get (rebook_body (JStr (date_to_iso T1))) ''newSlot'' \<noteq> JStr (date_to_string demo_rt t)"
    using date_to_iso_neq_date_to_string[of T1 demo_rt] by (simp add: rebook_body_def)
  show ?thesis using Rebook.rebook_slot_unavailable[OF h1 h2 h3 h4] h1 h2 h3 h4
    by (simp add: sched_doc1_def)
qed

lemma find_schedule_demo:
  "find_schedule (store demo_world) ''doc1'' = Some sched_doc1"
  "find_schedule (store demo_world) ''doc2'' = None"
  by (simp_all add: find_schedule_def demo_world_def sched_doc1_def)

lemma page_doc1_reached: "page_system demo_rt demo_world (page_doc1, demo_world)"
proof -
  have "page_system demo_rt demo_world (ui_step demo_rt (ChangeDoctor ''doc1'') (app_init, demo_world))"
    by (rule page_system.ui[OF page_system.start]) (simp add: app_init_def)
  moreover have "ui_step demo_rt (ChangeDoctor ''doc1'') (app_init, demo_world) = (page_doc1, demo_world)"
    by (simp add: handleDoctorChange_def fetchAvailableSlots_route[OF match_route_slots]
                  find_schedule_demo page_doc1_def sched_doc1_def)
  ultimately show ?thesis by simp
qed

lemma page_doc1_T1_reached: "page_system demo_rt demo_world (page_doc1_T1, demo_world)"
proof -
  have "page_system demo_rt demo_world (ui_step demo_rt (ChangeSlot (date_to_iso T1)) (page_doc1, demo_world))"
    by (rule page_system.ui[OF page_doc1_reached])
       (simp add: page_doc1_def slot_options_def iso_slots_def)
  then show ?thesis by (simp add: page_doc1_T1_def)
qed

lemma page_doc1_T1_after_tick:
  "page_system demo_rt demo_world (page_doc1_T1, fst (tick demo_rt T0 demo_world))"
  by (rule page_system.timer[OF page_doc1_T1_reached])

theorem slots_request_served_witness:
  "''doc1'' \<noteq> [] \<and> CHR ''/'' \<notin> set ''doc1'' \<and>
   serve demo_rt \<lparr>req_method = GET, req_path = ''/api/slots/'' @ ''doc1'', req_body = JObj []\<rparr> demo_world =
     (Some (get_slots (store demo_world) ''doc1''), demo_world)"
  using Server.slots_request_served[where d = "''doc1''" and e = demo_rt and b = "JObj []" and w = demo_world]
  by simp

theorem page_never_lists_missed_witness:
  "page_system demo_rt demo_world (page_doc1_T1, demo_world) \<and>
   missedAppointments page_doc1_T1 = JArr [] \<and> appointmentId page_doc1_T1 = JStr []"
  using App.page_never_lists_missed[OF page_doc1_T1_reached] page_doc1_T1_reached by simp

theorem page_system_untouched_witness:
  "page_system demo_rt done_world (app_init, fst (tick demo_rt T0 done_world)) \<and> wf_db (store done_world) \<and>
   1 < length (appointments (store done_world)) \<and>
   status (appointments (store done_world) ! 1) \<noteq> ''scheduled'' \<and>
   status (appointments (store done_world) ! 1) \<noteq> ''missed'' \<and>
   appointments (store (fst (tick demo_rt T0 done_world))) ! 1 = appointments (store done_world) ! 1"
proof -
  have r: "page_system demo_rt done_world (app_init, fst (tick demo_rt T0 done_world))"
    by (rule page_system.timer[OF page_system.start])
  have h: "wf_db (store done_world)" "1 < length (appointments (store done_world))"
    "status (appointments (store done_world) ! 1) \<noteq> ''scheduled''"
    "status (appointments (store done_world) ! 1) \<noteq> ''missed''"
    by (simp_all add: wf_db_def done_world_def appt_C_def appt_A_def new_appointment_def idA_def)
  show ?thesis using App.page_system_untouched[OF r h] r h by simp
qed

theorem page_rebook_button_witness:
  "page_system demo_rt demo_world (page_doc1_T1, demo_world) \<and>
   ui_step demo_rt ClickRebook (page_doc1_T1, demo_world) =
     (page_doc1_T1\<lparr>alerts := [''Select an appointment and slot for rebooking!'']\<rparr>, demo_world)"
proof -
  have "alerts page_doc1_T1 = []" by (simp add: page_doc1_T1_def page_doc1_def app_init_def)
  then show ?thesis using App.page_rebook_button[OF page_doc1_T1_reached] page_doc1_T1_reached by simp
qed

theorem page_slot_never_accepted_witness:
  "page_system demo_rt demo_world (page_doc1_T1, demo_world) \<and>
   fst (rebook demo_rt (JObj [(''appointmentId'', JStr idA), (''newSlot'', JStr (ui_newSlot page_doc1_T1))])
          missed_db) \<noteq> Normal (Reply 200 JNull)"
  using App.page_slot_never_accepted[OF page_doc1_T1_reached, where e' = demo_rt and i = "JStr idA"
          and s = missed_db and b = JNull] page_doc1_T1_reached
  by simp

theorem change_doctor_witness:
  "CHR ''/'' \<notin> set ''doc2'' \<and>
   ui_step demo_rt (ChangeDoctor ''doc2'') (page_doc1, demo_world) =
     (page_doc1\<lparr>selectedDoctor := ''doc2''\<rparr>, demo_world) \<and>
   CHR ''/'' \<notin> set ([] :: string) \<and>
   ui_step demo_rt (ChangeDoctor []) (page_doc1, demo_world) = (page_doc1\<lparr>selectedDoctor := []\<rparr>, demo_world) \<and>
   CHR ''/'' \<notin> set ''doc1'' \<and>
   ui_step demo_rt (ChangeDoctor ''doc1'') (app_init, demo_world) =
     (app_init\<lparr>selectedDoctor := ''doc1'', ui_availableSlots := iso_slots [T1, T2]\<rparr>, demo_world)"
  using App.change_doctor[where d = "''doc2''" and w = demo_world and e = demo_rt and st = page_doc1]
        App.change_doctor[where d = "[]" and w = demo_world and e = demo_rt and st = page_doc1]
        App.change_doctor[where d = "''doc1''" and w = demo_world and e = demo_rt and st = app_init]
        find_schedule_demo
  by (simp add: sched_doc1_def)

theorem missed_reply_renders_nothing_witness:
  "get_missed missed_db ''p1'' =
     Reply 200 (JObj [(''missedAppointments'', JArr [appointment_json (appt_A\<lparr>status := ''missed''\<rparr>)])]) \<and>
   select_buttons (app_init\<lparr>missedAppointments :=
     js_or (JObj [(''missedAppointments'', JArr [appointment_json (appt_A\<lparr>status := ''missed''\<rparr>)])]) (JArr [])\<rparr>) = []"
proof -
  have h: "get_missed missed_db ''p1'' =
     Reply 200 (JObj [(''missedAppointments'', JArr [appointment_json (appt_A\<lparr>status := ''missed''\<rparr>)])])"
    by (simp add: get_missed_def missed_reply_def find_missed_of_def missed_db_def appt_A_def new_appointment_def)
  show ?thesis using App.missed_reply_renders_nothing[OF h, where st = app_init] h by simp
qed

theorem page_system_store_witness:
  "page_system demo_rt demo_world (page_doc1_T1, fst (tick demo_rt T0 demo_world)) \<and>
   wf_db (store demo_world) \<and> wf_db (store (fst (tick demo_rt T0 demo_world))) \<and>
   doctorSchedules (store (fst (tick demo_rt T0 demo_world))) = doctorSchedules (store demo_world) \<and>
   map appt_id (appointments (store (fst (tick demo_rt T0 demo_world)))) =
   map appt_id (appointments (store demo_world))"
  using App.page_system_store[OF page_doc1_T1_after_tick wf_demo_world] page_doc1_T1_after_tick wf_demo_world
  by simp

theorem replies_well_typed_witness:
  "fst (serve demo_rt \<lparr>req_method = GET, req_path = ''/api/slots/doc1'', req_body = JObj []\<rparr> demo_world) =
     Some (Reply 200 (JObj [(''availableSlots'', JArr [JStr (date_to_iso T1), JStr (date_to_iso T2)])])) \<and>
   (\<exists>T. api_type (match_route GET ''/api/slots/doc1'') 200 = Some T \<and>
        has_type T (JObj [(''availableSlots'', JArr [JStr (date_to_iso T1), JStr (date_to_iso T2)])]))"
proof -
  have m: "match_route GET ''/api/slots/doc1'' = Some (SlotsRoute ''doc1'')"
    using match_route_slots[of "''doc1''"] by simp
  have s: "fst (serve demo_rt \<lparr>req_method = GET, req_path = ''/api/slots/doc1'', req_body = JObj []\<rparr> demo_world) =
     Some (Reply 200 (JObj [(''availableSlots'', JArr [JStr (date_to_iso T1), JStr (date_to_iso T2)])]))"
    using find_schedule_demo(1) by (simp add: serve_def m get_slots_def sched_doc1_def)
  show ?thesis using Server.replies_well_typed[OF s] s by simp
qed

section \<open>The timer at concrete inputs\<close>

text \<open>
  The timer started a minute before \<open>T0\<close>: its first run, at \<open>T0\<close>, is the first
  whose cutoff has passed appointment \<open>A\<close>, due at \<open>T0\<close> minus twenty minutes.
\<close>

lemma demo_world_A:
  "wf_db (store demo_world) \<and> 0 < length (appointments (store demo_world)) \<and>
   status (appointments (store demo_world) ! 0) = ''scheduled'' \<and>
   scheduledTime (appointments (store demo_world) ! 0) = Some (T0 - 1200000)"
  using wf_demo_world by (simp add: demo_world_def appt_A_def new_appointment_def)

theorem timer_detection_time_witness:
  "wf_db (store demo_world) \<and> sms_client_ok demo_rt \<and> 0 < length (appointments (store demo_world)) \<and>
   status (appointments (store demo_world) ! 0) = ''scheduled'' \<and>
   scheduledTime (appointments (store demo_world) ! 0) = Some (T0 - 1200000) \<and>
   status (appointments (store (timer_runs demo_rt (T0 - 60000) 1 demo_world)) ! 0) = ''missed''"
  using Timer.timer_detection_time[where w = demo_world and e = demo_rt and p = 0 and t = "T0 - 1200000"
          and start = "T0 - 60000" and k = 1] demo_world_A
  by (simp add: interval_ms_def GRACE_PERIOD_def)

theorem timer_marks_eventually_witness:
  "wf_db (store demo_world) \<and> 0 < length (appointments (store demo_world)) \<and>
   status (appointments (store demo_world) ! 0) = ''scheduled'' \<and>
   scheduledTime (appointments (store demo_world) ! 0) = Some (T0 - 1200000) \<and>
   T0 - 1200000 + GRACE_PERIOD < (T0 - 60000) + interval_ms * int (Suc 0) \<and>
   0 + length (appointments (store demo_world)) \<le> 1 \<and>
   status (appointments (store (timer_runs demo_rt (T0 - 60000) 1 demo_world)) ! 0) = ''missed''"
proof -
  have due: "T0 - 1200000 + GRACE_PERIOD < (T0 - 60000) + interval_ms * int (Suc 0)"
    by (simp add: interval_ms_def GRACE_PERIOD_def)
  have n: "0 + length (appointments (store demo_world)) \<le> 1" by (simp add: demo_world_def)
  have a: "wf_db (store demo_world)" "0 < length (appointments (store demo_world))"
    "status (appointments (store demo_world) ! 0) = ''scheduled''"
    "scheduledTime (appointments (store demo_world) ! 0) = Some (T0 - 1200000)"
    using demo_world_A by simp_all
  show ?thesis
    using Timer.timer_marks_eventually[OF a due n, where e = demo_rt] a due n by simp
qed

section \<open>Requests in flight at concrete inputs\<close>

lemma overdue_demo: "find_overdue (T0 - GRACE_PERIOD) (store demo_world) = [appt_A]"
  by (simp add: find_overdue_def overdue_def fixture_defs GRACE_PERIOD_def)

lemma rebook_read_demo:
  "rebook_read demo_rt (rebook_body (JStr (date_to_string demo_rt T1))) missed_db =
   RbWrite (appt_A\<lparr>status := ''missed''\<rparr>) T1 sched_doc1 [T1, T2]
     (Reply 200 (JObj [(''message'', JStr ''Appointment rescheduled successfully''),
        (''appointment'', appointment_json (rebooked T1 (appt_A\<lparr>status := ''missed''\<rparr>)))]))"
  by (simp add: rebook_read_def find_by_id_def demo_cast_def find_schedule_def mongoose_includes_def
        demo_parse_T1[unfolded T1_def] fixture_defs Let_def)

lemma rebook_read_demo_T2:
  "rebook_read demo_rt (rebook_body (JStr (date_to_string demo_rt T2))) missed_db =
   RbWrite (appt_A\<lparr>status := ''missed''\<rparr>) T2 sched_doc1 [T1, T2]
     (Reply 200 (JObj [(''message'', JStr ''Appointment rescheduled successfully''),
        (''appointment'', appointment_json (rebooked T2 (appt_A\<lparr>status := ''missed''\<rparr>)))]))"
proof -
  have "mongoose_includes demo_rt [T1, T2] (JStr (date_to_string demo_rt T2))"
    by (simp add: mongoose_includes_iff)
  then have "mongoose_includes demo_rt [1704103200000, 1704106800000] (JStr (date_to_string demo_rt 1704106800000))"
    by (simp add: T1_def T2_def)
  then show ?thesis
    by (simp add: rebook_read_def find_by_id_def demo_cast_def find_schedule_def
          demo_parse_T2[unfolded T2_def] fixture_defs Let_def)
qed

text \<open>A timer run on the demo world: it queries, then marks \<open>A\<close>.\<close>

lemma demo_tick_steps:
  "conc_step demo_rt (server_of demo_world) ((server_of demo_world)\<lparr>jobs := [TickJob [appt_A]]\<rparr>)"
  "conc_step demo_rt ((server_of demo_world)\<lparr>jobs := [TickJob [appt_A]]\<rparr>)
     \<lparr>srv_world = fst (missed_step demo_rt appt_A demo_world), jobs = [TickJob []], sent = []\<rparr>"
proof -
  let ?S1 = "(server_of demo_world)\<lparr>jobs := [TickJob [appt_A]]\<rparr>"
  show "conc_step demo_rt (server_of demo_world) ?S1"
    using conc_step.tick_query[where e = demo_rt and S = "server_of demo_world" and now = T0] overdue_demo
    by (simp add: server_of_def)
  have "missed_step demo_rt appt_A demo_world = (fst (missed_step demo_rt appt_A demo_world), None)"
    using missed_step_ok[OF sms_ok_demo, of appt_A demo_world] by (metis prod.collapse)
  then show "conc_step demo_rt ?S1
     \<lparr>srv_world = fst (missed_step demo_rt appt_A demo_world), jobs = [TickJob []], sent = []\<rparr>"
    using conc_tick_next[where e = demo_rt and k = 0 and S = ?S1 and a = appt_A and as = "[]"
            and w' = "fst (missed_step demo_rt appt_A demo_world)"]
    by (simp add: server_of_def)
qed

theorem conc_store_invariant_witness:
  "(conc_step demo_rt)\<^sup>*\<^sup>* (server_of demo_world)
     \<lparr>srv_world = fst (missed_step demo_rt appt_A demo_world), jobs = [TickJob []], sent = []\<rparr> \<and>
   wf_db (store demo_world) \<and>
   wf_db (store (fst (missed_step demo_rt appt_A demo_world))) \<and>
   doctorSchedules (store (fst (missed_step demo_rt appt_A demo_world))) = doctorSchedules (store demo_world) \<and>
   map appt_id (appointments (store (fst (missed_step demo_rt appt_A demo_world)))) =
     map appt_id (appointments (store demo_world))"
proof -
  have r: "(conc_step demo_rt)\<^sup>*\<^sup>* (server_of demo_world)
     \<lparr>srv_world = fst (missed_step demo_rt appt_A demo_world), jobs = [TickJob []], sent = []\<rparr>"
    using demo_tick_steps by (meson rtranclp.rtrancl_into_rtrancl rtranclp.rtrancl_refl)
  show ?thesis
    using Concurrency.conc_store_invariant[OF r wf_demo_world] r wf_demo_world by simp
qed

theorem conc_status_moves_witness:
  "(conc_step demo_rt)\<^sup>*\<^sup>* (server_of demo_world) ((server_of demo_world)\<lparr>jobs := [TickJob [appt_A]]\<rparr>) \<and>
   wf_db (store demo_world) \<and>
   conc_step demo_rt ((server_of demo_world)\<lparr>jobs := [TickJob [appt_A]]\<rparr>)
     \<lparr>srv_world = fst (missed_step demo_rt appt_A demo_world), jobs = [TickJob []], sent = []\<rparr> \<and>
   list_all2 status_move (appointments (store demo_world))
     (appointments (store (fst (missed_step demo_rt appt_A demo_world))))"
proof -
  have r: "(conc_step demo_rt)\<^sup>*\<^sup>* (server_of demo_world) ((server_of demo_world)\<lparr>jobs := [TickJob [appt_A]]\<rparr>)"
    using demo_tick_steps(1) by blast
  show ?thesis
    using Concurrency.conc_status_moves[OF r wf_demo_world demo_tick_steps(2)] r wf_demo_world demo_tick_steps(2)
    by (simp add: server_of_def)
qed

theorem concurrent_rebooks_both_succeed_witness:
  "wf_db (store \<lparr>store = missed_db, outbox = []\<rparr>) \<and>
   rebook_read demo_rt (rebook_body (JStr (date_to_string demo_rt T1))) missed_db =
     RbWrite (appt_A\<lparr>status := ''missed''\<rparr>) T1 sched_doc1 [T1, T2]
       (Reply 200 (JObj [(''message'', JStr ''Appointment rescheduled successfully''),
          (''appointment'', appointment_json (rebooked T1 (appt_A\<lparr>status := ''missed''\<rparr>)))])) \<and>
   rebook_read demo_rt (rebook_body (JStr (date_to_string demo_rt T2))) missed_db =
     RbWrite (appt_A\<lparr>status := ''missed''\<rparr>) T2 sched_doc1 [T1, T2]
       (Reply 200 (JObj [(''message'', JStr ''Appointment rescheduled successfully''),
          (''appointment'', appointment_json (rebooked T2 (appt_A\<lparr>status := ''missed''\<rparr>)))])) \<and>
   (\<exists>S'. (conc_step demo_rt)\<^sup>*\<^sup>* (server_of \<lparr>store = missed_db, outbox = []\<rparr>) S' \<and> jobs S' = [] \<and>
      length (sent S') = 2 \<and>
      map_option scheduledTime (find (\<lambda>a. appt_id a = idA) (appointments (store (srv_world S')))) = Some (Some T2)) \<and>
   fst (rebook demo_rt (rebook_body (JStr (date_to_string demo_rt T2)))
          (snd (rebook demo_rt (rebook_body (JStr (date_to_string demo_rt T1))) missed_db))) =
     Normal invalid_appointment_reply"
proof -
  have wf: "wf_db (store \<lparr>store = missed_db, outbox = []\<rparr>)" using wf_missed_db by simp
  have r1: "rebook_read demo_rt (rebook_body (JStr (date_to_string demo_rt T1))) (store \<lparr>store = missed_db, outbox = []\<rparr>) =
     RbWrite (appt_A\<lparr>status := ''missed''\<rparr>) T1 sched_doc1 [T1, T2]
       (Reply 200 (JObj [(''message'', JStr ''Appointment rescheduled successfully''),
          (''appointment'', appointment_json (rebooked T1 (appt_A\<lparr>status := ''missed''\<rparr>)))]))"
    using rebook_read_demo by simp
  have r2: "rebook_read demo_rt (rebook_body (JStr (date_to_string demo_rt T2))) (store \<lparr>store = missed_db, outbox = []\<rparr>) =
     RbWrite (appt_A\<lparr>status := ''missed''\<rparr>) T2 sched_doc1 [T1, T2]
       (Reply 200 (JObj [(''message'', JStr ''Appointment rescheduled successfully''),
          (''appointment'', appointment_json (rebooked T2 (appt_A\<lparr>status := ''missed''\<rparr>)))]))"
    using rebook_read_demo_T2 by simp
  have old: "scheduledTime (appt_A\<lparr>status := ''missed''\<rparr>) \<noteq> Some T2"
    by (simp add: appt_A_def new_appointment_def T0_def T2_def)
  have ida: "appt_id (appt_A\<lparr>status := ''missed''\<rparr>) = idA" by (simp add: appt_A_def new_appointment_def)
  show ?thesis
    using Concurrency.concurrent_rebooks_both_succeed[OF wf r1 r2] wf rebook_read_demo rebook_read_demo_T2 old ida
    by auto
qed

lemma overdue_demo_later: "find_overdue ((T0 + 60000) - GRACE_PERIOD) (store demo_world) = [appt_A]"
  by (simp add: find_overdue_def overdue_def fixture_defs GRACE_PERIOD_def)

theorem overlapping_ticks_notify_twice_witness:
  "wf_db (store demo_world) \<and> sms_client_ok demo_rt \<and>
   find_overdue (T0 - GRACE_PERIOD) (store demo_world) = [appt_A] \<and>
   find_overdue ((T0 + 60000) - GRACE_PERIOD) (store demo_world) = [appt_A] \<and>
   (\<exists>S'. (conc_step demo_rt)\<^sup>*\<^sup>* (server_of demo_world) S' \<and> jobs S' = [] \<and>
      map notice_of (outbox (srv_world S')) =
        expected_notices demo_rt (store demo_world) appt_A @ expected_notices demo_rt (store demo_world) appt_A) \<and>
   map notice_of (outbox (fst (tick demo_rt (T0 + 60000) (fst (tick demo_rt T0 demo_world))))) =
     expected_notices demo_rt (store demo_world) appt_A"
  using Concurrency.overlapping_ticks_notify_twice[OF wf_demo_world sms_ok_demo overdue_demo overdue_demo_later]
    wf_demo_world overdue_demo overdue_demo_later
  by (simp add: demo_world_def)

text \<open>The same timer run at its awaits: the query, then the save that marks \<open>A\<close>.\<close>

lemma await_demo_steps:
  "await_step demo_rt (await_of demo_world) \<lparr>aworld = demo_world, ajobs = [ATick [appt_A]], asent = []\<rparr>"
  "await_step demo_rt \<lparr>aworld = demo_world, ajobs = [ATick [appt_A]], asent = []\<rparr>
     \<lparr>aworld = demo_world\<lparr>store := save_appointment (appt_id appt_A) (\<lambda>b. b\<lparr>status := ''missed''\<rparr>) (store demo_world)\<rparr>, ajobs = [ATickLookup appt_A []], asent = []\<rparr>"
proof -
  show "await_step demo_rt (await_of demo_world) \<lparr>aworld = demo_world, ajobs = [ATick [appt_A]], asent = []\<rparr>"
    using await_step.tick_query[where e = demo_rt and F = "await_of demo_world" and now = T0] overdue_demo
    by (simp add: await_of_def)
  show "await_step demo_rt \<lparr>aworld = demo_world, ajobs = [ATick [appt_A]], asent = []\<rparr>
     \<lparr>aworld = demo_world\<lparr>store := save_appointment (appt_id appt_A) (\<lambda>b. b\<lparr>status := ''missed''\<rparr>) (store demo_world)\<rparr>, ajobs = [ATickLookup appt_A []], asent = []\<rparr>"
    using await_step.tick_mark[where e = demo_rt and k = 0 and F = "\<lparr>aworld = demo_world, ajobs = [ATick [appt_A]], asent = []\<rparr>" and a = appt_A and as = "[]"]
    by simp
qed

theorem await_refines_conc_witness:
  "(await_step demo_rt)\<^sup>*\<^sup>* (await_of demo_world)
     \<lparr>aworld = demo_world\<lparr>store := save_appointment (appt_id appt_A) (\<lambda>b. b\<lparr>status := ''missed''\<rparr>) (store demo_world)\<rparr>, ajobs = [ATickLookup appt_A []], asent = []\<rparr> \<and>
   wf_db (store demo_world) \<and>
   (\<exists>S. (conc_step demo_rt)\<^sup>*\<^sup>* (server_of demo_world) S \<and>
      store (srv_world S) = save_appointment (appt_id appt_A) (\<lambda>b. b\<lparr>status := ''missed''\<rparr>) (store demo_world) \<and>
      mset (jobs S) = mset (List.map_filter (abs_ajob demo_rt (store (aworld
        \<lparr>aworld = demo_world\<lparr>store := save_appointment (appt_id appt_A) (\<lambda>b. b\<lparr>status := ''missed''\<rparr>) (store demo_world)\<rparr>, ajobs = [ATickLookup appt_A []], asent = []\<rparr>)))
        [ATickLookup appt_A []]) \<and>
      mset (sent S) = {#})"
proof -
  have r: "(await_step demo_rt)\<^sup>*\<^sup>* (await_of demo_world)
     \<lparr>aworld = demo_world\<lparr>store := save_appointment (appt_id appt_A) (\<lambda>b. b\<lparr>status := ''missed''\<rparr>) (store demo_world)\<rparr>, ajobs = [ATickLookup appt_A []], asent = []\<rparr>"
    using await_demo_steps by (meson rtranclp.rtrancl_into_rtrancl rtranclp.rtrancl_refl)
  show ?thesis using Await.await_refines_conc[OF r wf_demo_world] r wf_demo_world by simp
qed

theorem await_status_moves_witness:
  "(await_step demo_rt)\<^sup>*\<^sup>* (await_of demo_world) \<lparr>aworld = demo_world, ajobs = [ATick [appt_A]], asent = []\<rparr> \<and>
   wf_db (store demo_world) \<and>
   await_step demo_rt \<lparr>aworld = demo_world, ajobs = [ATick [appt_A]], asent = []\<rparr>
     \<lparr>aworld = demo_world\<lparr>store := save_appointment (appt_id appt_A) (\<lambda>b. b\<lparr>status := ''missed''\<rparr>) (store demo_world)\<rparr>, ajobs = [ATickLookup appt_A []], asent = []\<rparr> \<and>
   wf_db (save_appointment (appt_id appt_A) (\<lambda>b. b\<lparr>status := ''missed''\<rparr>) (store demo_world)) \<and>
   list_all2 status_move (appointments (store demo_world))
     (appointments (save_appointment (appt_id appt_A) (\<lambda>b. b\<lparr>status := ''missed''\<rparr>) (store demo_world)))"
proof -
  have r: "(await_step demo_rt)\<^sup>*\<^sup>* (await_of demo_world) \<lparr>aworld = demo_world, ajobs = [ATick [appt_A]], asent = []\<rparr>"
    using await_demo_steps(1) by blast
  show ?thesis
    using Await.await_status_moves[OF r wf_demo_world await_demo_steps(2)] r wf_demo_world await_demo_steps(2)
    by simp
qed

section \<open>The process at concrete inputs\<close>

text \<open>
  The server started on the demo store, listening and connected; a store whose missed
  appointment's doctor has no schedule; and an SMS client that cannot be built.
\<close>

lemma match_rebook: "match_route POST ''/api/rebook'' = Some RebookRoute"
  by code_simp

lemma match_slots_doc1: "match_route GET ''/api/slots/doc1'' = Some (SlotsRoute ''doc1'')"
  using match_route_slots[of "''doc1''"] by simp

lemma find_no_schedule:
  "find_by_id demo_rt no_schedule_db (js_get (rebook_body (JStr (date_to_string demo_rt T1))) ''appointmentId'') =
     Normal (Some (appt_A\<lparr>status := ''missed''\<rparr>))"
  "find_schedule no_schedule_db (doctorId (appt_A\<lparr>status := ''missed''\<rparr>)) = None"
  by (simp_all add: find_by_id_def demo_cast_def find_schedule_def fixture_defs)

lemma notices_broken_client:
  "expected_notices (demo_rt\<lparr>sms_client_ok := False\<rparr>) (store demo_world) appt_A \<noteq> []"
  by (simp add: expected_notices_def find_schedule_def fixture_defs Let_def)

theorem boot_serves_buffered_witness:
  "req_method (get_request ''/api/slots/doc1'') = GET \<and>
   uses_db (match_route (req_method (get_request ''/api/slots/doc1'')) (req_path (get_request ''/api/slots/doc1''))) \<and>
   proc_run demo_rt True (Listening # map Req [get_request ''/api/slots/doc1''] @ [DbOpen]) (boot demo_world) =
     (boot demo_world)\<lparr>conn := Connected, listening := True,
        answered := [(get_request ''/api/slots/doc1'', get_slots (store demo_world) ''doc1'')],
        console := [listen_message, ''Connected to MongoDB'']\<rparr>"
proof -
  have g: "\<forall>req\<in>set [get_request ''/api/slots/doc1'']. req_method req = GET \<and>
             uses_db (match_route (req_method req) (req_path req))"
    by (simp add: get_request_def match_slots_doc1 uses_db_def)
  show ?thesis
    using Process.boot_serves_buffered[OF g, where e = demo_rt and exits = True and w = demo_world] g
    by (simp add: get_request_def serve_def match_slots_doc1)
qed

theorem rejected_rebook_stops_server_witness:
  "alive ((boot \<lparr>store = no_schedule_db, outbox = []\<rparr>)\<lparr>conn := Connected, listening := True\<rparr>) \<and>
   listening ((boot \<lparr>store = no_schedule_db, outbox = []\<rparr>)\<lparr>conn := Connected, listening := True\<rparr>) \<and>
   conn ((boot \<lparr>store = no_schedule_db, outbox = []\<rparr>)\<lparr>conn := Connected, listening := True\<rparr>) = Connected \<and>
   match_route POST ''/api/rebook'' = Some RebookRoute \<and>
   find_by_id demo_rt no_schedule_db (js_get (rebook_body (JStr (date_to_string demo_rt T1))) ''appointmentId'') =
     Normal (Some (appt_A\<lparr>status := ''missed''\<rparr>)) \<and>
   find_schedule no_schedule_db (doctorId (appt_A\<lparr>status := ''missed''\<rparr>)) = None \<and>
   \<not> alive (proc_step demo_rt True
             (Req \<lparr>req_method = POST, req_path = ''/api/rebook'', req_body = rebook_body (JStr (date_to_string demo_rt T1))\<rparr>)
             ((boot \<lparr>store = no_schedule_db, outbox = []\<rparr>)\<lparr>conn := Connected, listening := True\<rparr>)) \<and>
   proc_run demo_rt True [Req (get_request ''/api/slots/doc1''), TimerRun T0]
     (proc_step demo_rt True
        (Req \<lparr>req_method = POST, req_path = ''/api/rebook'', req_body = rebook_body (JStr (date_to_string demo_rt T1))\<rparr>)
        ((boot \<lparr>store = no_schedule_db, outbox = []\<rparr>)\<lparr>conn := Connected, listening := True\<rparr>)) =
   proc_step demo_rt True
        (Req \<lparr>req_method = POST, req_path = ''/api/rebook'', req_body = rebook_body (JStr (date_to_string demo_rt T1))\<rparr>)
        ((boot \<lparr>store = no_schedule_db, outbox = []\<rparr>)\<lparr>conn := Connected, listening := True\<rparr>)"
  using Process.rejected_rebook_stops_server[where
          P = "(boot \<lparr>store = no_schedule_db, outbox = []\<rparr>)\<lparr>conn := Connected, listening := True\<rparr>"
          and req = "\<lparr>req_method = POST, req_path = ''/api/rebook'', req_body = rebook_body (JStr (date_to_string demo_rt T1))\<rparr>"
          and e = demo_rt and a = "appt_A\<lparr>status := ''missed''\<rparr>"
          and evs = "[Req (get_request ''/api/slots/doc1''), TimerRun T0]"]
        match_rebook find_no_schedule
  by (simp add: boot_def)

theorem rejected_tick_stops_server_witness:
  "alive ((boot demo_world)\<lparr>conn := Connected, listening := True\<rparr>) \<and>
   conn ((boot demo_world)\<lparr>conn := Connected, listening := True\<rparr>) = Connected \<and>
   wf_db (store demo_world) \<and> \<not> sms_client_ok (demo_rt\<lparr>sms_client_ok := False\<rparr>) \<and>
   find_overdue (T0 - GRACE_PERIOD) (store demo_world) = [] @ appt_A # [] \<and>
   expected_notices (demo_rt\<lparr>sms_client_ok := False\<rparr>) (store demo_world) appt_A \<noteq> [] \<and>
   \<not> alive (proc_step (demo_rt\<lparr>sms_client_ok := False\<rparr>) True (TimerRun T0)
             ((boot demo_world)\<lparr>conn := Connected, listening := True\<rparr>)) \<and>
   proc_run (demo_rt\<lparr>sms_client_ok := False\<rparr>) True [Req (get_request ''/api/slots/doc1'')]
     (proc_step (demo_rt\<lparr>sms_client_ok := False\<rparr>) True (TimerRun T0)
        ((boot demo_world)\<lparr>conn := Connected, listening := True\<rparr>)) =
   proc_step (demo_rt\<lparr>sms_client_ok := False\<rparr>) True (TimerRun T0)
        ((boot demo_world)\<lparr>conn := Connected, listening := True\<rparr>) \<and>
   alive (proc_step (demo_rt\<lparr>sms_client_ok := False\<rparr>) False (TimerRun T0)
             ((boot demo_world)\<lparr>conn := Connected, listening := True\<rparr>))"
  using Process.rejected_tick_stops_server[where
          P = "(boot demo_world)\<lparr>conn := Connected, listening := True\<rparr>"
          and e = "demo_rt\<lparr>sms_client_ok := False\<rparr>" and now = T0 and xs = "[]" and a = appt_A and ys = "[]"
          and evs = "[Req (get_request ''/api/slots/doc1'')]"]
        wf_demo_world overdue_demo notices_broken_client
  by (simp add: boot_def)

section \<open>Status changes and stale slots at concrete inputs\<close>

theorem rebook_past_slot_missed_again_witness:
  "wf_db missed_db \<and> sms_client_ok demo_rt \<and>
   find_by_id demo_rt missed_db (js_get (rebook_body (JStr (date_to_string demo_rt T1))) ''appointmentId'') =
     Normal (Some (appt_A\<lparr>status := ''missed''\<rparr>)) \<and>
   status (appt_A\<lparr>status := ''missed''\<rparr>) = ''missed'' \<and>
   find_schedule missed_db (doctorId (appt_A\<lparr>status := ''missed''\<rparr>)) = Some sched_doc1 \<and>
   T1 \<in> set (availableSlots sched_doc1) \<and>
   js_get (rebook_body (JStr (date_to_string demo_rt T1))) ''newSlot'' = JStr (date_to_string demo_rt T1) \<and>
   date_parse demo_rt (date_to_string demo_rt T1) = Some T1 \<and>
   T1 < (T1 + 1800000) - GRACE_PERIOD \<and>
   (\<exists>b. fst (rebook demo_rt (rebook_body (JStr (date_to_string demo_rt T1))) missed_db) = Normal (Reply 200 b)) \<and>
   rebooked T1 (appt_A\<lparr>status := ''missed''\<rparr>) \<in>
     set (find_overdue ((T1 + 1800000) - GRACE_PERIOD)
       (snd (rebook demo_rt (rebook_body (JStr (date_to_string demo_rt T1))) missed_db))) \<and>
   mark_missed (rebooked T1 (appt_A\<lparr>status := ''missed''\<rparr>)) \<in>
     set (appointments (store (fst (tick demo_rt (T1 + 1800000)
       \<lparr>store = snd (rebook demo_rt (rebook_body (JStr (date_to_string demo_rt T1))) missed_db), outbox = []\<rparr>))))"
proof -
  have h3: "find_by_id demo_rt missed_db (js_get (rebook_body (JStr (date_to_string demo_rt T1))) ''appointmentId'') =
     Normal (Some (appt_A\<lparr>status := ''missed''\<rparr>))"
    by (simp add: find_by_id_def demo_cast_def fixture_defs)
  have h5: "find_schedule missed_db (doctorId (appt_A\<lparr>status := ''missed''\<rparr>)) = Some sched_doc1"
    by (simp add: find_schedule_def missed_db_def fixture_defs)
  have h6: "T1 \<in> set (availableSlots sched_doc1)" by (simp add: fixture_defs)
  have h7: "js_get (rebook_body (JStr (date_to_string demo_rt T1))) ''newSlot'' = JStr (date_to_string demo_rt T1)"
    by (simp add: rebook_body_def)
  have h9: "T1 < (T1 + 1800000) - GRACE_PERIOD" by (simp add: GRACE_PERIOD_def)
  show ?thesis
    using Server.rebook_past_slot_missed_again[OF wf_missed_db sms_ok_demo h3 _ h5 h6 h7 demo_parse_T1 h9, where ob = "[]"]
      wf_missed_db sms_ok_demo h3 h5 h6 h7 demo_parse_T1 h9
    by simp
qed

end

