(* ===== verification/Spec2Isabelle.thy ===== *)
theory Spec2Isabelle
  imports Scenarios
begin

text \<open>
  \<^bold>\<open>Verification development of the missed-appointment service.\<close>

  \<^bold>\<open>The program.\<close>  \<^verbatim>\<open>src/backend/index.js\<close> is an Express server over two
  MongoDB collections (Mongoose models \<^verbatim>\<open>Appointment\<close> and
  \<^verbatim>\<open>DoctorSchedule\<close>, lines 22--37).  A timer (\<^verbatim>\<open>setInterval\<close>, lines
  79--100) marks overdue appointments \<^verbatim>\<open>'missed'\<close> and notifies the patient by
  e-mail and SMS (\<^verbatim>\<open>sendEmail\<close>, \<^verbatim>\<open>sendSMS\<close>, lines 42--77); four HTTP
  handlers list a doctor's slots (lines 102--112), rebook a missed appointment (lines
  114--137), list a patient's missed appointments (lines 139--157) and send test
  notifications (lines 159--175).  \<^verbatim>\<open>src/frontend/src/App.js\<close> is a React page that
  calls the slot, missed-appointment and rebook endpoints over HTTP.  The backend's
  components interact only through the two collections and the providers' outbox; the
  page reaches them only through the routed requests.

  \<^bold>\<open>Theories.\<close>
  \<^item> \<open>Prelude\<close>: type names (\<open>time_ms\<close>, \<open>oid\<close>), the fact collections
    \<open>handler_defs\<close> and \<open>store_simps\<close>, and \<open>update_first\<close>, the
    first-match update that MongoDB's \<^verbatim>\<open>updateOne\<close> performs.
  \<^item> \<open>Js_Runtime\<close>: the JavaScript semantics the code depends on, from the
    ECMAScript specification: JSON request values \<open>jsval\<close>, the exceptions
    \<open>js_error\<close>, completions, Express replies, \<^verbatim>\<open>Date\<close> rendering
    (\<open>date_to_string\<close> = \<^verbatim>\<open>toString\<close>, \<open>date_to_iso\<close> =
    \<^verbatim>\<open>toISOString\<close>/\<^verbatim>\<open>toJSON\<close>, over the Gregorian calendar
    \<open>civil_from_days\<close>), and the equalities at line 124 (\<open>date_loose_eq\<close>,
    \<open>mongoose_includes\<close>: Mongoose's \<^verbatim>\<open>indexOf\<close> compares with \<^verbatim>\<open>==\<close>)
    and line 133 (\<open>date_strict_neq\<close>).  Host-dependent behaviour (time zone,
    \<^verbatim>\<open>Date.parse\<close>) is the record \<open>js_env\<close>.
  \<^item> \<open>Store\<close>: the documents as records \<open>appointment\<close>, \<open>doctor_schedule\<close>,
    the database \<open>db\<close> (two lists in natural order), the queries
    (\<open>find_overdue\<close>, \<open>find_by_id\<close>, \<open>find_schedule\<close>,
    \<open>find_missed_of\<close>) and the saves (\<open>save_appointment\<close>,
    \<open>save_schedule\<close>: the update a \<^verbatim>\<open>save\<close> sends, applied to the stored document
    with the same \<^verbatim>\<open>_id\<close>; the caller passes the function that sets exactly the paths
    the \<^verbatim>\<open>$set\<close> contains); \<open>wf_db\<close> is MongoDB's unique-\<^verbatim>\<open>_id\<close> guarantee.  The
    ObjectId cast of Mongoose is the field \<open>cast_oid\<close> of \<open>store_env\<close>.
  \<^item> \<open>Notify\<close>: \<open>sendEmail\<close> and \<open>sendSMS\<close> over an outbox of provider
    calls; the providers' answers and whether \<^verbatim>\<open>twilio('', '')\<close> constructs are the
    fields of \<open>runtime\<close>.
  \<^item> \<open>Reconcile\<close>: one timer tick, \<open>tick\<close> = query + \<open>process_missed\<close>
    (the \<^verbatim>\<open>for ... of\<close> loop) + \<open>notify_patient\<close>, on a \<open>world\<close> of
    database and outbox; a rejection ends the tick with what was done so far.
  \<^item> \<open>Rebook\<close>: the handler \<open>rebook\<close> of \<^verbatim>\<open>POST /api/rebook\<close>, returning
    the reply or the exception with the database after it.
  \<^item> \<open>Queries\<close>: \<open>get_slots\<close>, \<open>get_missed\<close> (with \<open>missed_reply\<close>,
    the try/catch around the query) and \<open>test_notification\<close>.
  \<^item> \<open>Server\<close>: the Express application: the four route registrations
    (\<open>routes\<close>, lines 103, 115, 140, 160) matched in order with Express 4's path
    semantics (\<open>match_route\<close>: ASCII-case-insensitive literals, a non-empty
    \<^verbatim>\<open>:param\<close>, one optional trailing slash), the final handler's 404
    (\<open>not_found\<close>), and \<open>serve\<close>, which runs the matched handler on the world;
    a rejected handler sends no reply.  \<open>api_type\<close> declares, per route, the status
    codes and the JSON shapes (\<open>jtype\<close>, \<open>has_type\<close>) of the replies.
  \<^item> \<open>App\<close>: the React page \<^verbatim>\<open>src/frontend/src/App.js\<close>: its
    \<^verbatim>\<open>useState\<close> hooks as the record \<open>app_state\<close>, its handlers
    (\<open>fetchAvailableSlots\<close>, \<open>fetchMissedAppointments\<close>,
    \<open>handleRebooking\<close>, \<open>handleDoctorChange\<close>) with each axios request served
    by \<open>serve\<close> (\<open>axios_request\<close>: 2xx resolves, any other status rejects, no
    reply leaves the promise pending), the controls the rendered page offers
    (\<open>ui_enabled\<close>, \<open>ui_step\<close>), and \<open>page_system\<close>, the
    \<^theory_text>\<open>inductive\<close> relation of the states reachable from the mounted page by
    page events, timer runs and requests of any other client, in any order.
  \<^item> \<open>Concurrency\<close>: the rebook handler cut at its \<^verbatim>\<open>await\<close>s into a read
    phase (\<open>rebook_read\<close>) and a write phase (\<open>rebook_write\<close>, whose saves follow
    Mongoose: \<open>rebook_set\<close> sets only the paths whose new value differs from the
    loaded document, and a schedule whose slot array is unchanged is not written at all),
    a timer run cut into
    its query and its loop iterations (\<open>missed_step\<close>), and \<open>conc_step\<close>, the
    \<^theory_text>\<open>inductive\<close> step relation of a server with rebooks and timer runs in
    flight (\<open>jobs\<close>) that interleave with each other and with any other request;
    its steps that only advance work in flight are \<open>drain_step\<close>.  A timer run
    may query at any time \<open>now\<close>: \<open>conc_step\<close> admits more runs than
    \<^verbatim>\<open>setInterval\<close> produces, so what holds of all its runs holds of the program's,
    and the runs exhibited by the race theorems are program runs when their two query
    times are 60 seconds apart (the spacing of runs is \<open>Timer\<close>'s).
  \<^item> \<open>Await\<close>: the server cut at every \<^verbatim>\<open>await\<close> of the code.  The record
    \<open>aserver\<close> holds the world, the handlers suspended at an await (\<open>ajob\<close>:
    a rebook after \<^verbatim>\<open>findById\<close>, between its \<^verbatim>\<open>findOne\<close> and first save
    and between its two saves; a timer run before each \<^verbatim>\<open>save\<close>,
    \<^verbatim>\<open>findOne\<close>, \<^verbatim>\<open>sendEmail\<close> and \<^verbatim>\<open>sendSMS\<close> of its loop; the
    test endpoint between its two sends) and the rebook replies sent.  Its step relation
    \<open>await_step\<close> resumes any one of them or starts a request or a timer run;
    \<open>rebook_find\<close> (lines 116--121) and \<open>rebook_sched_phase\<close> (lines
    123--136) are the rebook handler's code between its awaits, \<open>lookup_next\<close>
    (lines 92--94) the loop's.  \<open>abs_ajob\<close> maps each suspended handler to the
    \<open>conc_step\<close> job it stands for, \<open>ainv\<close> is the invariant of the fine
    server, and \<open>sim\<close> the simulation relation.
  \<^item> \<open>Timer\<close>: \<^verbatim>\<open>setInterval(callback, 60000)\<close> (lines 79--100) as
    \<open>timer_runs\<close>, the world after the first \<open>k\<close> runs, run \<open>k\<close> at
    \<open>start + k * 60000\<close>, each ending before the next begins.
  \<^item> \<open>Process\<close>: the Node process from module load (\<open>boot\<close>: the app, the
    unawaited \<^verbatim>\<open>mongoose.connect\<close>, the connection's \<^verbatim>\<open>'error'\<close> and
    \<^verbatim>\<open>'open'\<close> handlers, \<^verbatim>\<open>app.listen(3030)\<close>, lines 9--20 and 177--181) and
    \<open>proc_step\<close>, its reaction to the connection opening or failing, Mongoose's
    buffer timing out, the server starting to listen, a request and a timer run.  Queries
    issued while the connection is not open wait (\<open>waiting\<close>) and run in order when
    it opens; a handler or timer promise that rejects unhandled ends the process when the
    flag \<open>exits\<close> says so (Node's default since version 15) and is only logged
    otherwise.
  \<^item> \<open>Scenarios\<close>: concrete hosts, stores, page states and requests, and every
    component theorem with a hypothesis applied to them.
  \<^item> this theory: properties that span components.

  \<^bold>\<open>What is proved.\<close>
  \<^item> Tick (\<open>Reconcile\<close>): with a constructible SMS client the tick completes and
    marks exactly the overdue appointments missed, all others and all schedules unchanged
    (the loop over the query result equals one bulk update, on a store with unique ids);
    the provider calls are exactly one e-mail and one SMS per overdue appointment whose
    doctor offers slots, in query order; nothing persisted depends on the providers'
    answers; a failing SMS client rejects the tick at the first notifying appointment and
    leaves the later ones \<^verbatim>\<open>'scheduled'\<close>; \<open>notificationSent\<close> is never written;
    unique ids are kept.
  \<^item> Rebook (\<open>Rebook\<close>): every reply other than 200 leaves the database unchanged;
    each error branch (unknown or non-missed appointment, missing schedule, slot not
    found) is characterised; a 200 reply means the appointment was missed and is now
    scheduled at the parsed slot; on a store with unique ids the schedules are never
    changed (the booked slot stays offered); a slot sent as an ISO string is never
    accepted.
  \<^item> Runtime (helper lemmas): Mongoose's scanning \<^verbatim>\<open>includes\<close> is membership up to
    \<^verbatim>\<open>==\<close>; the \<^verbatim>\<open>toString\<close> and ISO renderings never coincide (by their first character).
  \<^item> Routing and transitions (\<open>Server\<close>): the slot URL the page builds reaches the
    slot finder with exactly the doctor id; GET requests change nothing; a timer run and
    any request move a status only from scheduled to missed or from missed to scheduled
    (\<open>status_move\<close>, carried to every step of \<open>conc_step\<close> in
    \<open>Concurrency\<close>); a rebook of a missed appointment to an offered slot more than the
    grace period in the past is accepted with 200 and undone by the next tick;
    every reply has a status code its route declares and a body of the declared JSON type.
  \<^item> Page (\<open>App\<close>), by rule induction over \<open>page_system\<close> with the invariant
    \<open>page_inv\<close>: the missed-appointment list stays empty and nothing is selected
    (the page requests \<^verbatim>\<open>/api/missedAppointments\<close>, which no route matches), so
    the Rebook button only shows an alert and the page never writes; the slot the page
    offers would never be accepted; choosing the placeholder or a doctor without a
    schedule keeps the previous doctor's slots; the reply shape of the missed route would
    render nothing.  Across every interleaving of page events, timer runs and client
    requests: unique ids are kept, no schedule ever changes, no appointment is added or
    removed, and an appointment that is neither scheduled nor missed is never touched.
  \<^item> Timer (\<open>Timer\<close>): with a working SMS client an appointment due at \<open>t\<close> is
    marked by run \<open>k\<close> exactly when the run's time exceeds \<open>t\<close> plus the grace
    period, so it is detected at most 60 seconds after the grace period ends and never
    before (a bound on the detection time); with any client, even one that always throws,
    it is marked after at most as many further runs as the store has appointments
    (liveness: a run marks the head of its query result before anything can throw, so the
    number of scheduled appointments falls with each run that finds one).
  \<^item> Concurrency (\<open>Concurrency\<close>): on a store with unique ids the handler cut at
    its awaits is, run alone, the atomic handler \<open>rebook\<close> (whose saves write every
    field: on such a store the loaded and the stored document agree, so this is the same
    write); under every interleaving of \<open>conc_step\<close> the invariant
    \<open>conc_inv\<close> (unique ids, schedules and appointment ids as at the start, every
    pending write holding the slot list of a stored schedule) holds, by rule induction;
    two rebooks of one missed appointment that both read before either writes both reply
    200, the stored time being the second one's slot unless that slot is the time both
    loaded (Mongoose then writes no \<open>scheduledTime\<close> for it), while run in sequence
    the second gets 400; two timer runs, at any two times, whose queries both return an
    appointment before either handles it notify its patient twice, where in sequence
    they notify once.  Every step of every run moves a status only from scheduled to
    missed or back, by the invariant \<open>status_inv\<close> (each pending job's documents are
    still scheduled or missed), so races never touch a completed appointment.
  \<^item> Awaits (\<open>Await\<close>): every \<open>await_step\<close> is matched by at most one
    \<open>conc_step\<close> (\<open>await_sim_step\<close>, under \<open>ainv\<close>: unique ids,
    schedules as at the start, every pending save holding the slot list of a stored
    schedule); so every run cut at the awaits is matched by a coarse run with the same
    database, as a multiset the pending jobs that its suspended handlers stand for, and
    as a multiset the rebook replies sent (\<open>pend_reply\<close>: those the fine server's
    suspended rebooks are committed to count as sent).
    The rebook's second save sets the slot list it read (the filter removes nothing),
    so Mongoose finds no modified path and writes nothing, and a loop iteration's notification
    either completes or rejects as the atomic iteration does.  The coarse results carry
    over: every step keeps ids unique and schedules unchanged and moves a status only
    between scheduled and missed.
  \<^item> Process (\<open>Process\<close>): slot and missed-appointment requests that arrive
    between \<^verbatim>\<open>listen\<close> and the connection opening are answered in arrival order
    when it opens; a rebook of a missed appointment whose doctor has no schedule
    document, and a timer run on a host whose SMS client cannot be built that reaches an
    appointment whose doctor offers slots, reject unhandled and end the process when
    unhandled rejections exit it (then nothing is ever answered or marked again), and
    otherwise leave the request unanswered or the server alive.
  \<^item> Across components (below): a slot value listed by \<^verbatim>\<open>GET /api/slots\<close> is never
    accepted by \<^verbatim>\<open>POST /api/rebook\<close>.

  \<^bold>\<open>Bounds and loops.\<close>  Every loop of the code runs over a finite query result, so
  each is structural recursion over a list (\<open>process_missed\<close>, \<open>index_from\<close>,
  \<open>update_first\<close>, \<open>match_pattern\<close>, \<open>first_route\<close>); no fuel is needed.
  The timer never stops; \<open>timer_runs\<close> is recursion on the number of runs, and the
  liveness bound (at most \<open>n\<close> runs after the first due one, for \<open>n\<close>
  appointments) is enough because only the timer runs in that theorem, so the number of
  scheduled appointments can only fall.
  Time values are unbounded integers: the stored dates are within ECMAScript's range, and
  \<open>time_clip\<close> writes out the range where a number becomes a \<^verbatim>\<open>Date\<close>.
  In \<open>page_system\<close> each request is served atomically, in the order it is sent;
  \<open>conc_step\<close> refines this for the rebook handler and the timer, and
  \<open>await_step\<close> refines \<open>conc_step\<close> down to single awaits.  Handlers with one
  await (slots, missed appointments) are atomic there too: nothing of theirs runs after
  their only await but the reply.

  \<^bold>\<open>Not modelled.\<close>  The \<^verbatim>\<open>require\<close>s (lines 1--6) and the headers
  \<^verbatim>\<open>cors\<close> adds; \<^verbatim>\<open>bodyParser.json\<close> is taken to have produced the body
  (its 400 for malformed JSON is not modelled), and route parameters are taken as
  already percent-decoded.  Store failures after the connection has opened (the 500
  branch of the missed-appointment endpoint is modelled in \<open>missed_reply\<close> and used
  for a buffered query that times out); in \<open>Process\<close> one \<open>BufferTimeout\<close> event
  times out every buffered query at once, and a failed initial connection is not
  retried, as Mongoose does not retry it.  The version key \<^verbatim>\<open>__v\<close>.
  Documents lacking \<^verbatim>\<open>patientId\<close> or \<^verbatim>\<open>doctorId\<close>.  The page's styles and
  displayed text (\<^verbatim>\<open>toLocaleString\<close>); its two unawaited refreshes after a rebook
  are applied in call order.  In \<open>conc_step\<close> the two saves of a rebook are one step;
  \<open>await_step\<close> separates them, but records only the rebook handler's replies (the
  test endpoint's reply and the outbox are not part of the simulation, which relates
  databases, pending work and rebook replies).

  \<^bold>\<open>Further work.\<close>
  \<^enum> The simulation extended to the outbox: the provider calls of the await-level
    server against those of the coarse run.
  \<^enum> The process model over \<open>await_step\<close>: a process exit while a rebook waits
    between its two saves.
  \<^enum> The calendar: \<open>civil_from_days\<close> against ECMAScript's
    \<open>YearFromTime\<close>/\<open>MonthFromTime\<close>, bounds of month and day, and the round trip
    with the inverse day count.  The bounds need the era arithmetic split by century and
    four-year block: \<open>presburger\<close> does not decide them in reasonable time.
\<close>

section \<open>Properties across components\<close>

text \<open>
  C15: Every slot value that the slot finder \<^verbatim>\<open>GET /api/slots/:doctorId\<close> lists
  (the value the frontend posts back) is rejected by \<^verbatim>\<open>POST /api/rebook\<close>: the
  listing serialises a slot as its ISO string, the rebook handler matches
  \<^verbatim>\<open>toString\<close> renderings only.
\<close>

theorem listed_slot_never_rebooks:
  assumes "get_slots s d = Reply 200 (JObj [(''availableSlots'', JArr vs)])" "v \<in> set vs"
  shows "fst (rebook e (JObj [(''appointmentId'', aid), (''newSlot'', v)]) s) \<noteq> Normal (Reply 200 b)"
proof
  obtain t where v: "v = JStr (date_to_iso t)"
    using get_slots_200[OF assms(1)] assms(2) by auto
  assume "fst (rebook e (JObj [(''appointmentId'', aid), (''newSlot'', v)]) s) = Normal (Reply 200 b)"
  from rebook_reply_200[OF this] obtain t0 where "v = JStr (date_to_string e t0)" by auto
  with v date_to_iso_neq_date_to_string[of t e t0] show False by simp
qed

theorem listed_slot_never_rebooks_witness:
  "get_slots missed_db ''doc1'' = Reply 200 (JObj [(''availableSlots'', JArr [JStr (date_to_iso T1), JStr (date_to_iso T2)])]) \<and>
   JStr (date_to_iso T1) \<in> set [JStr (date_to_iso T1), JStr (date_to_iso T2)] \<and>
   (\<forall>b. fst (rebook demo_rt (JObj [(''appointmentId'', JStr idA), (''newSlot'', JStr (date_to_iso T1))]) missed_db)
        \<noteq> Normal (Reply 200 b))"
proof -
  have h1: "get_slots missed_db ''doc1'' = Reply 200 (JObj [(''availableSlots'', JArr [JStr (date_to_iso T1), JStr (date_to_iso T2)])])"
    by (simp add: get_slots_def find_schedule_def missed_db_def sched_doc1_def)
  have h2: "JStr (date_to_iso T1) \<in> set [JStr (date_to_iso T1), JStr (date_to_iso T2)]" by simp
  show ?thesis using listed_slot_never_rebooks[OF h1 h2] h1 h2 by blast
qed

end
